theory Spec2Isabelle
  imports Main "HOL-Library.Word"
begin

unbundle bit_operations_syntax

section \<open>Machine words, configuration and macros\<close>

text \<open>
  The kernel is built for 64-bit RISC-V: \<open>word_t\<close>, \<open>vptr_t\<close>, \<open>paddr_t\<close>, \<open>pptr_t\<close>,
  \<open>asid_t\<close> and every pointer are 64-bit words, and \<open>pte_t\<close> is one such word.
\<close>

type_synonym machine_word = "64 word"

text \<open>
  The build configuration. None of these constants, macros and tables is declared in
  \<open>vspace.c\<close> or \<open>kernelimage.c\<close>; they come from headers, so the model takes them as
  parameters and every function of the model receives the configuration first.
  \<open>BASE_OFFSET\<close> is the offset of the kernel window, by which \<open>ptrFromPAddr\<close> and
  \<open>addrFromPPtr\<close> translate; \<open>pageBitsForSize\<close> and \<open>RISCVpageAtPTLevel\<close> are the
  tables of the frame sizes; \<open>kernel_pageTables\<close> is the address of the kernel's own
  level-1 table; \<open>kernelStackBase\<close> and \<open>kernelImageVPtr\<close> are the two helpers of the
  kernel-image code.
\<close>

datatype vm_page_size = RISCV_4K_Page | RISCV_Mega_Page | RISCV_Giga_Page | RISCV_Tera_Page

record riscv_config =
  CONFIG_PT_LEVELS :: nat
  PT_INDEX_BITS :: nat
  asidLowBits :: nat
  nASIDPools :: nat
  kernelBase :: machine_word
  BASE_OFFSET :: machine_word
  pageBitsForSize :: "vm_page_size \<Rightarrow> nat"
  RISCVpageAtPTLevel :: "vm_page_size \<Rightarrow> nat"
  kernel_pageTables :: machine_word
  seL4_ASIDPoolBits :: machine_word
  MAX_FREE_INDEX :: "machine_word \<Rightarrow> machine_word"
  n_msgRegisters :: nat
  kernelStackBase :: machine_word
  kernelImageVPtr :: "machine_word \<Rightarrow> machine_word \<Rightarrow> machine_word"

definition MASK :: "nat \<Rightarrow> machine_word" where
  "MASK n = push_bit n 1 - 1"

definition BIT :: "nat \<Rightarrow> machine_word" where
  "BIT n = push_bit n 1"

text \<open>
  Modelled from the spec: the layout of a page-table entry (valid, read, write, execute,
  user, global, accessed, dirty, two software bits, then the physical page number), which
  puts the page number at bit 10, and the 4KiB granule of pages and page tables.
\<close>

definition PTE_PPN_SHIFT :: nat where
  "PTE_PPN_SHIFT = 10"

definition RISCV_4K_PageBits :: nat where
  "RISCV_4K_PageBits = 12"

definition seL4_PageTableBits :: nat where
  "seL4_PageTableBits = 12"

text \<open>
  Modelled from the spec: the walker extracts successive fixed-width index chunks from the
  virtual address, high-order bits first; level \<open>n\<close> of \<open>CONFIG_PT_LEVELS\<close> leaves
  \<open>PT_INDEX_BITS * (CONFIG_PT_LEVELS - n)\<close> index bits and the page offset untranslated
  (the computation \<open>Arch_kiLookupPTSlot\<close> writes out). The macros are only applied to
  levels between 1 and \<open>CONFIG_PT_LEVELS\<close>.
\<close>

definition RISCV_GET_LVL_PGSIZE_BITS :: "riscv_config \<Rightarrow> nat \<Rightarrow> nat" where
  "RISCV_GET_LVL_PGSIZE_BITS cfg n =
     PT_INDEX_BITS cfg * (CONFIG_PT_LEVELS cfg - n) + RISCV_4K_PageBits"

definition RISCV_GET_PT_INDEX :: "riscv_config \<Rightarrow> machine_word \<Rightarrow> nat \<Rightarrow> machine_word" where
  "RISCV_GET_PT_INDEX cfg addr n =
     drop_bit (RISCV_GET_LVL_PGSIZE_BITS cfg n) addr AND MASK (PT_INDEX_BITS cfg)"

definition ptrFromPAddr :: "riscv_config \<Rightarrow> machine_word \<Rightarrow> machine_word" where
  "ptrFromPAddr cfg paddr = paddr + BASE_OFFSET cfg"

definition addrFromPPtr :: "riscv_config \<Rightarrow> machine_word \<Rightarrow> machine_word" where
  "addrFromPPtr cfg pptr = pptr - BASE_OFFSET cfg"

text \<open>\<open>p + i\<close> on a \<open>pte_t *\<close> or on the array of an ASID pool: entries are 8 bytes.\<close>

definition ptr_add :: "machine_word \<Rightarrow> machine_word \<Rightarrow> machine_word" where
  "ptr_add p i = p + 8 * i"

section \<open>Kernel data\<close>

datatype exception_t =
  EXCEPTION_NONE | EXCEPTION_FAULT | EXCEPTION_LOOKUP_FAULT | EXCEPTION_SYSCALL_ERROR
  | EXCEPTION_PREEMPTED

datatype lookup_fault =
  lookup_fault_invalid_root_new
  | lookup_fault_missing_capability_new nat
  | lookup_fault_other

datatype seL4_Error =
  seL4_NoError | seL4_InvalidArgument | seL4_InvalidCapability | seL4_IllegalOperation
  | seL4_RangeError | seL4_AlignmentError | seL4_FailedLookup | seL4_TruncatedMessage
  | seL4_DeleteFirst | seL4_RevokeFirst | seL4_NotEnoughMemory

text \<open>\<open>current_syscall_error\<close>: the code assigns its fields one by one.\<close>

record syscall_error =
  error_type :: seL4_Error
  invalidCapNumber :: machine_word
  invalidArgumentNumber :: machine_word
  failedLookupWasSource :: bool

datatype vm_rights = VMNoAccess | VMKernelOnly | VMReadOnly | VMWriteOnly | VMReadWrite

text \<open>
  A VM fault as \<open>seL4_Fault_VMFault_new\<close> builds it: the address, the fault status and
  whether it was an instruction fault.
\<close>

datatype seL4_Fault =
  seL4_Fault_NullFault
  | seL4_Fault_VMFault_new machine_word machine_word bool

text \<open>
  Capabilities. In C a capability is a packed tagged union whose accessors read their
  bits whatever the tag is, and the code does call accessors before it checks the tag
  (\<open>isVTableRoot\<close>) or without checking it (the ASID-pool decode). The model keeps the
  tag and one field per accessor the code uses, so every accessor is total and reads the
  field it names.
\<close>

datatype cap_tag =
  cap_null_cap | cap_untyped_cap | cap_frame_cap | cap_page_table_cap
  | cap_asid_control_cap | cap_asid_pool_cap | cap_other_cap

record cap_t =
  capType :: cap_tag
  capPTMappedASID :: machine_word
  capPTBasePtr :: machine_word
  capPTIsMapped :: bool
  capPTMappedAddress :: machine_word
  capFMappedASID :: machine_word
  capFBasePtr :: machine_word
  capFSize :: vm_page_size
  capFVMRights :: vm_rights
  capFMappedAddress :: machine_word
  capBlockSize :: machine_word
  capIsDevice :: bool
  capPtr :: machine_word
  capFreeIndex :: machine_word
  capASIDBase :: machine_word
  capASIDPool :: machine_word

datatype register = SEPC | NEXTPC | msgInfoRegister | msgRegister0 | other_register nat

datatype thread_state = ThreadState_Running | ThreadState_Restart | ThreadState_Inactive

text \<open>
  The operations whose order matters, as the kernel issues them: the two fences, the write
  of the root register, a store of the stack copy (destination and source address) and
  the setting of a kernel image's stack-initialized flag.
\<close>

datatype hw_event =
  SFenceVMA
  | Fence
  | SetVSpaceRoot machine_word machine_word
  | StackStore machine_word machine_word
  | SetStackInitted

text \<open>
  The kernel state the two files read and write. \<open>ksMem\<close> is the kernel's memory (page
  tables, ASID pools, the kernel stack), one 64-bit word at each (8-byte aligned) address;
  \<open>riscvKSASIDTable\<close> is indexed by the high bits of an ASID; \<open>ksCaps\<close> gives the
  capability in the slot (\<open>cte_t\<close>) at an address; \<open>ksRegs\<close> the user registers of the
  thread at an address; \<open>sbadaddr\<close> the CSR of that name; \<open>ksEvents\<close> the hardware
  operations issued so far, latest last.
\<close>

record kernel_state =
  ksMem :: "machine_word \<Rightarrow> machine_word"
  riscvKSASIDTable :: "machine_word \<Rightarrow> machine_word"
  ksCaps :: "machine_word \<Rightarrow> cap_t"
  ksRegs :: "machine_word \<Rightarrow> register \<Rightarrow> machine_word"
  ksCurThread :: machine_word
  ksThreadState :: "machine_word \<Rightarrow> thread_state"
  sbadaddr :: machine_word
  current_lookup_fault :: lookup_fault
  current_syscall_error :: syscall_error
  current_fault :: seL4_Fault
  ksEvents :: "hw_event list"

text \<open>
  Ways the kernel stops: a failed \<open>assert\<close>, a call of \<open>fail\<close>, and the use of a
  variable the code never assigned on the path taken.
\<close>

datatype kernel_halt = AssertionFailed | KernelFail | UninitialisedRead

definition bindE :: "kernel_halt + 'a \<Rightarrow> ('a \<Rightarrow> kernel_halt + 'b) \<Rightarrow> kernel_halt + 'b" where
  "bindE m f = (case m of Inl e \<Rightarrow> Inl e | Inr x \<Rightarrow> f x)"

section \<open>Access rights\<close>

definition RISCVGetWriteFromVMRights :: "vm_rights \<Rightarrow> bool" where
  "RISCVGetWriteFromVMRights vm_rights = (vm_rights \<noteq> VMNoAccess \<and> vm_rights \<noteq> VMReadOnly)"

definition RISCVGetUserFromVMRights :: "vm_rights \<Rightarrow> bool" where
  "RISCVGetUserFromVMRights vm_rights = (vm_rights \<noteq> VMKernelOnly)"

definition RISCVGetReadFromVMRights :: "vm_rights \<Rightarrow> bool" where
  "RISCVGetReadFromVMRights vm_rights = (vm_rights \<noteq> VMNoAccess \<and> vm_rights \<noteq> VMWriteOnly)"

record seL4_CapRights =
  capAllowRead :: bool
  capAllowWrite :: bool
  capAllowGrant :: bool

definition maskVMRights :: "vm_rights \<Rightarrow> seL4_CapRights \<Rightarrow> vm_rights" where
  "maskVMRights vm_rights cap_rights_mask =
     (if vm_rights = VMNoAccess then VMNoAccess
      else if vm_rights = VMReadOnly \<and> capAllowRead cap_rights_mask then VMReadOnly
      else if vm_rights = VMReadWrite \<and>
              (capAllowRead cap_rights_mask \<or> capAllowWrite cap_rights_mask) then
        (if \<not> capAllowWrite cap_rights_mask then VMReadOnly
         else if \<not> capAllowRead cap_rights_mask then VMWriteOnly
         else VMReadWrite)
      else if vm_rights = VMWriteOnly \<and> capAllowWrite cap_rights_mask then VMWriteOnly
      else if vm_rights = VMKernelOnly then VMKernelOnly
      else VMNoAccess)"

section \<open>The VSpace registry\<close>

record findVSpaceForASID_ret =
  fv_status :: exception_t
  vspace_root :: machine_word

definition findVSpaceForASID ::
  "riscv_config \<Rightarrow> kernel_state \<Rightarrow> machine_word \<Rightarrow> findVSpaceForASID_ret \<times> kernel_state" where
  "findVSpaceForASID cfg s asid =
     (let poolPtr = riscvKSASIDTable s (drop_bit (asidLowBits cfg) asid) in
      if poolPtr = 0 then
        (\<lparr>fv_status = EXCEPTION_LOOKUP_FAULT, vspace_root = 0\<rparr>,
         s\<lparr>current_lookup_fault := lookup_fault_invalid_root_new\<rparr>)
      else
        let root = ksMem s (ptr_add poolPtr (asid AND MASK (asidLowBits cfg))) in
        if root = 0 then
          (\<lparr>fv_status = EXCEPTION_LOOKUP_FAULT, vspace_root = 0\<rparr>,
           s\<lparr>current_lookup_fault :=
                lookup_fault_missing_capability_new (RISCV_GET_LVL_PGSIZE_BITS cfg 1)\<rparr>)
        else (\<lparr>fv_status = EXCEPTION_NONE, vspace_root = root\<rparr>, s))"

section \<open>The page-table walker\<close>

definition isValidHWPageTable :: "kernel_state \<Rightarrow> machine_word \<Rightarrow> bool" where
  "isValidHWPageTable s pte = (ksMem s pte AND 0xf = 1)"

definition getPPtrFromHWPTE ::
  "riscv_config \<Rightarrow> kernel_state \<Rightarrow> machine_word \<Rightarrow> kernel_halt + machine_word" where
  "getPPtrFromHWPTE cfg s pte =
     (if \<not> isValidHWPageTable s pte then Inl AssertionFailed
      else Inr (ptrFromPAddr cfg
             (push_bit seL4_PageTableBits (drop_bit PTE_PPN_SHIFT (ksMem s pte)))))"

text \<open>
  The result of a walk. The C function leaves \<open>ptSlot\<close> unassigned when the root is
  null and \<open>missingPTLevel\<close> unassigned unless a level is missing: \<open>None\<close> is the
  unassigned field.
\<close>

record lookupPTSlot_ret =
  status :: exception_t
  ptSlot :: "machine_word option"
  missingPTLevel :: "nat option"

text \<open>The loop \<open>for (i = 2; i <= ptLevel; i++)\<close> of \<open>lookupPTSlot\<close>, from \<open>i\<close> on.\<close>

function lookupPTSlot_loop ::
  "riscv_config \<Rightarrow> kernel_state \<Rightarrow> machine_word \<Rightarrow> nat \<Rightarrow> nat \<Rightarrow> machine_word
     \<Rightarrow> kernel_halt + (lookupPTSlot_ret \<times> kernel_state)" where
  "lookupPTSlot_loop cfg s vptr ptLevel i slot =
     (if i \<le> ptLevel then
        if ksMem s slot = 0 then
          Inr (\<lparr>status = EXCEPTION_LOOKUP_FAULT, ptSlot = Some slot, missingPTLevel = Some i\<rparr>,
               s\<lparr>current_lookup_fault :=
                    lookup_fault_missing_capability_new (RISCV_GET_LVL_PGSIZE_BITS cfg (i - 1))\<rparr>)
        else
          case getPPtrFromHWPTE cfg s slot of
            Inl e \<Rightarrow> Inl e
          | Inr pt \<Rightarrow>
              lookupPTSlot_loop cfg s vptr ptLevel (i + 1)
                (ptr_add pt (RISCV_GET_PT_INDEX cfg vptr i))
      else Inr (\<lparr>status = EXCEPTION_NONE, ptSlot = Some slot, missingPTLevel = None\<rparr>, s))"
  by pat_completeness auto
termination
  by (relation "measure (\<lambda>(cfg, s, vptr, ptLevel, i, slot). ptLevel + 1 - i)") auto

declare lookupPTSlot_loop.simps [simp del]

definition lookupPTSlot ::
  "riscv_config \<Rightarrow> kernel_state \<Rightarrow> machine_word \<Rightarrow> machine_word \<Rightarrow> nat
     \<Rightarrow> kernel_halt + (lookupPTSlot_ret \<times> kernel_state)" where
  "lookupPTSlot cfg s lvl1pt vptr ptLevel =
     (if \<not> ptLevel \<le> CONFIG_PT_LEVELS cfg then Inl AssertionFailed
      else if lvl1pt = 0 then
        Inr (\<lparr>status = EXCEPTION_LOOKUP_FAULT, ptSlot = None, missingPTLevel = None\<rparr>, s)
      else lookupPTSlot_loop cfg s vptr ptLevel 2
             (ptr_add lvl1pt (RISCV_GET_PT_INDEX cfg vptr 1)))"

text \<open>
  The loop \<open>for (int i = 2; i <= CONFIG_PT_LEVELS; i++)\<close> of \<open>lookupPageTableLevelSlot\<close>,
  from \<open>i\<close> on, and what follows it.
\<close>

function lookupPageTableLevelSlot_loop ::
  "riscv_config \<Rightarrow> kernel_state \<Rightarrow> machine_word \<Rightarrow> machine_word \<Rightarrow> nat \<Rightarrow> machine_word
     \<Rightarrow> kernel_halt + lookupPTSlot_ret" where
  "lookupPageTableLevelSlot_loop cfg s vptr target_pt i slot =
     (if i \<le> CONFIG_PT_LEVELS cfg then
        if \<not> isValidHWPageTable s slot then
          Inr \<lparr>status = EXCEPTION_LOOKUP_FAULT, ptSlot = Some slot, missingPTLevel = None\<rparr>
        else
          case getPPtrFromHWPTE cfg s slot of
            Inl e \<Rightarrow> Inl e
          | Inr pt \<Rightarrow>
              if pt = target_pt then
                Inr \<lparr>status = EXCEPTION_NONE,
                     ptSlot = Some (ptr_add pt (RISCV_GET_PT_INDEX cfg vptr (i - 1))),
                     missingPTLevel = None\<rparr>
              else
                lookupPageTableLevelSlot_loop cfg s vptr target_pt (i + 1)
                  (ptr_add pt (RISCV_GET_PT_INDEX cfg vptr i))
      else Inr \<lparr>status = EXCEPTION_LOOKUP_FAULT, ptSlot = Some slot, missingPTLevel = None\<rparr>)"
  by pat_completeness auto
termination
  by (relation "measure (\<lambda>(cfg, s, vptr, target_pt, i, slot). CONFIG_PT_LEVELS cfg + 1 - i)")
     auto

declare lookupPageTableLevelSlot_loop.simps [simp del]

definition lookupPageTableLevelSlot ::
  "riscv_config \<Rightarrow> kernel_state \<Rightarrow> machine_word \<Rightarrow> machine_word \<Rightarrow> machine_word
     \<Rightarrow> kernel_halt + (lookupPTSlot_ret \<times> kernel_state)" where
  "lookupPageTableLevelSlot cfg s asid vptr target_pt =
     (case findVSpaceForASID cfg s asid of (find_ret, s1) \<Rightarrow>
        if fv_status find_ret \<noteq> EXCEPTION_NONE then
          Inr (\<lparr>status = EXCEPTION_LOOKUP_FAULT, ptSlot = None, missingPTLevel = None\<rparr>, s1)
        else
          bindE (lookupPageTableLevelSlot_loop cfg s1 vptr target_pt 2
                   (ptr_add (vspace_root find_ret) (RISCV_GET_PT_INDEX cfg vptr 1)))
            (\<lambda>ret. Inr (ret, s1)))"

section \<open>Page-table entries and machine helpers\<close>

text \<open>
  Modelled from the spec: \<open>pte_new\<close> is generated from the bitfield declaration, which is
  not among the sources. It packs the fields in the order of the entry's layout: valid at
  bit 0, read, write, execute, user, global, accessed, dirty, the two software bits at bit
  8 and the physical page number from bit 10 on. The arguments come in the order of the C
  calls.
\<close>

definition pte_new ::
  "machine_word \<Rightarrow> machine_word \<Rightarrow> bool \<Rightarrow> bool \<Rightarrow> bool \<Rightarrow> bool \<Rightarrow> bool \<Rightarrow> bool \<Rightarrow> bool \<Rightarrow> bool
     \<Rightarrow> machine_word" where
  "pte_new ppn sw dirty accessed global user execute write read valid =
     push_bit PTE_PPN_SHIFT ppn OR push_bit 8 (sw AND 3) OR push_bit 7 (of_bool dirty)
       OR push_bit 6 (of_bool accessed) OR push_bit 5 (of_bool global)
       OR push_bit 4 (of_bool user) OR push_bit 3 (of_bool execute)
       OR push_bit 2 (of_bool write) OR push_bit 1 (of_bool read) OR of_bool valid"

definition pte_pte_invalid_new :: machine_word where
  "pte_pte_invalid_new = 0"

definition makeUserPTE :: "machine_word \<Rightarrow> bool \<Rightarrow> vm_rights \<Rightarrow> machine_word" where
  "makeUserPTE paddr executable vm_rights =
     pte_new (drop_bit RISCV_4K_PageBits paddr) 0 True True False
       (RISCVGetUserFromVMRights vm_rights) executable
       (RISCVGetWriteFromVMRights vm_rights) (RISCVGetReadFromVMRights vm_rights) True"

definition checkVPAlignment :: "riscv_config \<Rightarrow> vm_page_size \<Rightarrow> machine_word \<Rightarrow> bool" where
  "checkVPAlignment cfg sz w = (w AND MASK (pageBitsForSize cfg sz) = 0)"

text \<open>The instruction \<open>sfence.vma\<close>: recorded among the hardware operations.\<close>

definition sfence_vma :: "kernel_state \<Rightarrow> kernel_state" where
  "sfence_vma s = s\<lparr>ksEvents := ksEvents s @ [SFenceVMA]\<rparr>"

text \<open>
  Modelled from the spec: \<open>clearMemory\<close> and \<open>memzero\<close> are machine helpers defined
  outside the two files; each zeroes the bytes of a region, here the \<open>2 ^ bits\<close> bytes
  from \<open>ptr\<close> on ("allocate zeroed region of size S").
\<close>

definition clearMemory :: "kernel_state \<Rightarrow> machine_word \<Rightarrow> nat \<Rightarrow> kernel_state" where
  "clearMemory s ptr bits =
     s\<lparr>ksMem := (\<lambda>a. if a - ptr < BIT bits then 0 else ksMem s a)\<rparr>"

definition memzero :: "kernel_state \<Rightarrow> machine_word \<Rightarrow> machine_word \<Rightarrow> kernel_state" where
  "memzero s ptr n = s\<lparr>ksMem := (\<lambda>a. if a - ptr < n then 0 else ksMem s a)\<rparr>"

text \<open>
  Modelled from the spec: \<open>setThreadState\<close>, \<open>setRegister\<close> and \<open>getRegister\<close> belong to
  the thread subsystem, outside the two files; they write and read the state and the user
  registers of a thread.
\<close>

definition setThreadState :: "kernel_state \<Rightarrow> machine_word \<Rightarrow> thread_state \<Rightarrow> kernel_state" where
  "setThreadState s tcb ts = s\<lparr>ksThreadState := (ksThreadState s)(tcb := ts)\<rparr>"

definition getRegister :: "kernel_state \<Rightarrow> machine_word \<Rightarrow> register \<Rightarrow> machine_word" where
  "getRegister s thread reg = ksRegs s thread reg"

definition setRegister ::
  "kernel_state \<Rightarrow> machine_word \<Rightarrow> register \<Rightarrow> machine_word \<Rightarrow> kernel_state" where
  "setRegister s thread reg w = s\<lparr>ksRegs := (ksRegs s)(thread := (ksRegs s thread)(reg := w))\<rparr>"

text \<open>The assignments to the fields of \<open>current_syscall_error\<close>.\<close>

definition set_error_type :: "seL4_Error \<Rightarrow> kernel_state \<Rightarrow> kernel_state" where
  "set_error_type t s = s\<lparr>current_syscall_error := (current_syscall_error s)\<lparr>error_type := t\<rparr>\<rparr>"

definition set_invalidCapNumber :: "machine_word \<Rightarrow> kernel_state \<Rightarrow> kernel_state" where
  "set_invalidCapNumber n s =
     s\<lparr>current_syscall_error := (current_syscall_error s)\<lparr>invalidCapNumber := n\<rparr>\<rparr>"

definition set_invalidArgumentNumber :: "machine_word \<Rightarrow> kernel_state \<Rightarrow> kernel_state" where
  "set_invalidArgumentNumber n s =
     s\<lparr>current_syscall_error := (current_syscall_error s)\<lparr>invalidArgumentNumber := n\<rparr>\<rparr>"

definition set_failedLookupWasSource :: "bool \<Rightarrow> kernel_state \<Rightarrow> kernel_state" where
  "set_failedLookupWasSource b s =
     s\<lparr>current_syscall_error := (current_syscall_error s)\<lparr>failedLookupWasSource := b\<rparr>\<rparr>"

section \<open>Roots\<close>

text \<open>
  \<open>isVTableRoot\<close> resolves the ASID field of the capability before it looks at the tag,
  so it may overwrite \<open>current_lookup_fault\<close>: it returns the state too.
\<close>

definition isVTableRoot :: "riscv_config \<Rightarrow> kernel_state \<Rightarrow> cap_t \<Rightarrow> bool \<times> kernel_state" where
  "isVTableRoot cfg s cap =
     (case findVSpaceForASID cfg s (capPTMappedASID cap) of (ret, s1) \<Rightarrow>
        (capType cap = cap_page_table_cap \<and> fv_status ret = EXCEPTION_NONE \<and>
         capPTBasePtr cap = vspace_root ret, s1))"

definition isValidNativeRoot :: "riscv_config \<Rightarrow> kernel_state \<Rightarrow> cap_t \<Rightarrow> bool \<times> kernel_state" where
  "isValidNativeRoot cfg s cap =
     (case isVTableRoot cfg s cap of (isRoot, s1) \<Rightarrow> (isRoot \<and> capPTIsMapped cap, s1))"

section \<open>Unmapping\<close>

definition unmapPageTable ::
  "riscv_config \<Rightarrow> kernel_state \<Rightarrow> machine_word \<Rightarrow> machine_word \<Rightarrow> machine_word
     \<Rightarrow> kernel_halt + kernel_state" where
  "unmapPageTable cfg s asid vaddr pt =
     bindE (lookupPageTableLevelSlot cfg s asid vaddr pt)
       (\<lambda>(pt_ret, s1).
          if status pt_ret \<noteq> EXCEPTION_NONE then
            (case ptSlot pt_ret of
               None \<Rightarrow> Inl UninitialisedRead
             | Some slot \<Rightarrow>
                 Inr (sfence_vma
                   (s1\<lparr>ksMem := (ksMem s1)
                      (slot := pte_new 0 0 False False False False False False False False)\<rparr>)))
          else Inr s1)"

definition unmapPage ::
  "riscv_config \<Rightarrow> kernel_state \<Rightarrow> vm_page_size \<Rightarrow> machine_word \<Rightarrow> machine_word \<Rightarrow> machine_word
     \<Rightarrow> kernel_halt + kernel_state" where
  "unmapPage cfg s page_size asid vptr pptr =
     (case findVSpaceForASID cfg s asid of (find_ret, s1) \<Rightarrow>
        if fv_status find_ret \<noteq> EXCEPTION_NONE then Inr s1
        else
          bindE (lookupPTSlot cfg s1 (vspace_root find_ret) vptr (RISCVpageAtPTLevel cfg page_size))
            (\<lambda>(lu_ret, s2).
               if status lu_ret \<noteq> EXCEPTION_NONE then Inr s2
               else
                 (case ptSlot lu_ret of
                    None \<Rightarrow> Inl UninitialisedRead
                  | Some slot \<Rightarrow>
                      Inr (sfence_vma
                        (s2\<lparr>ksMem := (ksMem s2)(slot := pte_pte_invalid_new)\<rparr>)))))"

section \<open>Performing invocations\<close>

definition performPageTableInvocationMap ::
  "kernel_state \<Rightarrow> cap_t \<Rightarrow> machine_word \<Rightarrow> machine_word \<Rightarrow> machine_word
     \<Rightarrow> exception_t \<times> kernel_state" where
  "performPageTableInvocationMap s cap ctSlot pte slot =
     (EXCEPTION_NONE,
      s\<lparr>ksCaps := (ksCaps s)(ctSlot := cap), ksMem := (ksMem s)(slot := pte)\<rparr>)"

definition performPageTableInvocationUnmap ::
  "riscv_config \<Rightarrow> kernel_state \<Rightarrow> cap_t \<Rightarrow> machine_word
     \<Rightarrow> kernel_halt + (exception_t \<times> kernel_state)" where
  "performPageTableInvocationUnmap cfg s cap ctSlot =
     bindE
       (if capPTIsMapped cap then
          bindE (unmapPageTable cfg s (capPTMappedASID cap) (capPTMappedAddress cap)
                   (capPTBasePtr cap))
            (\<lambda>s1. Inr (clearMemory s1 (capPTBasePtr cap) RISCV_4K_PageBits))
        else Inr s)
       (\<lambda>s2. Inr (EXCEPTION_NONE,
                s2\<lparr>ksCaps := (ksCaps s2)(ctSlot := (ksCaps s2 ctSlot)\<lparr>capPTIsMapped := False\<rparr>)\<rparr>))"

text \<open>
  Modelled from the spec: \<open>wordFromMessageInfo (seL4_MessageInfo_new 0 0 0 1)\<close>, the
  message info of a reply of one register ("physical base in one reply register"), is the
  word 1: the length is the lowest field of a message info.
\<close>

definition performPageGetAddress ::
  "riscv_config \<Rightarrow> kernel_state \<Rightarrow> machine_word \<Rightarrow> exception_t \<times> kernel_state" where
  "performPageGetAddress cfg s vbase_ptr =
     (let capFBasePtr = addrFromPPtr cfg vbase_ptr;
          s1 = setRegister s (ksCurThread s) msgRegister0 capFBasePtr;
          s2 = setRegister s1 (ksCurThread s1) msgInfoRegister 1
      in (EXCEPTION_NONE, s2))"

record pte_range =
  base :: machine_word
  length_range :: nat

definition updatePTE :: "kernel_state \<Rightarrow> machine_word \<Rightarrow> pte_range \<Rightarrow> exception_t \<times> kernel_state" where
  "updatePTE s pte pte_entries =
     (EXCEPTION_NONE,
      sfence_vma
        (s\<lparr>ksMem := fold (\<lambda>i m. m(ptr_add (base pte_entries) (of_nat i) := pte))
                       [0 ..< length_range pte_entries] (ksMem s)\<rparr>))"

definition performPageInvocationMapPTE ::
  "kernel_state \<Rightarrow> cap_t \<Rightarrow> machine_word \<Rightarrow> machine_word \<Rightarrow> pte_range
     \<Rightarrow> exception_t \<times> kernel_state" where
  "performPageInvocationMapPTE s cap ctSlot pte pte_entries =
     updatePTE (s\<lparr>ksCaps := (ksCaps s)(ctSlot := cap)\<rparr>) pte pte_entries"

definition performPageInvocationRemapPTE ::
  "kernel_state \<Rightarrow> machine_word \<Rightarrow> pte_range \<Rightarrow> exception_t \<times> kernel_state" where
  "performPageInvocationRemapPTE s pte pte_entries = updatePTE s pte pte_entries"

text \<open>Modelled from the spec: the invalid ASID is 0, the ASID no pool ever hands out.\<close>

definition asidInvalid :: machine_word where
  "asidInvalid = 0"

definition performPageInvocationUnmap ::
  "riscv_config \<Rightarrow> kernel_state \<Rightarrow> cap_t \<Rightarrow> machine_word
     \<Rightarrow> kernel_halt + (exception_t \<times> kernel_state)" where
  "performPageInvocationUnmap cfg s cap ctSlot =
     bindE
       (if capFMappedASID cap \<noteq> asidInvalid then
          unmapPage cfg s (capFSize cap) (capFMappedASID cap) (capFMappedAddress cap)
            (capFBasePtr cap)
        else Inr s)
       (\<lambda>s1. Inr (EXCEPTION_NONE,
                s1\<lparr>ksCaps := (ksCaps s1)
                     (ctSlot := (ksCaps s1 ctSlot)
                        \<lparr>capFMappedAddress := 0, capFMappedASID := asidInvalid\<rparr>)\<rparr>))"

section \<open>Decoding invocations\<close>

text \<open>
  The labels of the MMU invocations; \<open>OtherInvocationLabel\<close> stands for every other
  label. \<open>excaprefs\<close> are the slots of the extra capabilities, 0 for \<open>NULL\<close>.
\<close>

datatype invocation_label =
  RISCVPageTableMap | RISCVPageTableUnmap | RISCVPageMap | RISCVPageRemap | RISCVPageUnmap
  | RISCVPageGetAddress | RISCVASIDControlMakePool | RISCVASIDPoolAssign
  | OtherInvocationLabel

record extra_caps =
  excaprefs :: "nat \<Rightarrow> machine_word"

text \<open>
  Modelled from the spec: \<open>getSyscallArg\<close>, \<open>rightsFromWord\<close>, \<open>vmAttributesFromWord\<close>
  and \<open>vm_attributes_get_riscvExecuteNever\<close> are declared outside the two files. The
  message arguments (\<open>vaddr\<close>, \<open>rightsMask\<close>, \<open>attributes\<close>, ...) are given as the function
  from the argument's index to its word, which stands for the message buffer; a rights
  mask has its write, read and grant bits at bits 0, 1 and 2, and the attributes have the
  execute-never bit at bit 0.
\<close>

definition getSyscallArg :: "nat \<Rightarrow> (nat \<Rightarrow> machine_word) \<Rightarrow> machine_word" where
  "getSyscallArg i buffer = buffer i"

definition rightsFromWord :: "machine_word \<Rightarrow> seL4_CapRights" where
  "rightsFromWord w =
     \<lparr>capAllowRead = bit w 1, capAllowWrite = bit w 0, capAllowGrant = bit w 2\<rparr>"

definition vmAttributesFromWord :: "machine_word \<Rightarrow> machine_word" where
  "vmAttributesFromWord w = w"

definition vm_attributes_get_riscvExecuteNever :: "machine_word \<Rightarrow> bool" where
  "vm_attributes_get_riscvExecuteNever attr = bit attr 0"

text \<open>\<open>unlikely x\<close> is \<open>__builtin_expect (!!(x), 0)\<close>: 1 if \<open>x\<close> is not 0, else 0.\<close>

definition unlikely :: "machine_word \<Rightarrow> machine_word" where
  "unlikely x = (if x \<noteq> 0 then 1 else 0)"

definition decodeRISCVPageTableInvocation ::
  "riscv_config \<Rightarrow> kernel_state \<Rightarrow> invocation_label \<Rightarrow> nat \<Rightarrow> machine_word \<Rightarrow> cap_t
     \<Rightarrow> extra_caps \<Rightarrow> (nat \<Rightarrow> machine_word) \<Rightarrow> kernel_halt + (exception_t \<times> kernel_state)" where
  "decodeRISCVPageTableInvocation cfg s label len cte cap extraCaps buffer =
     (case isVTableRoot cfg s cap of (capIsRoot, s1) \<Rightarrow>
      if capIsRoot then
        Inr (EXCEPTION_SYSCALL_ERROR, set_error_type seL4_IllegalOperation s1)
      else if label = RISCVPageTableUnmap then
        performPageTableInvocationUnmap cfg
          (setThreadState s1 (ksCurThread s1) ThreadState_Restart) cap cte
      else if label \<noteq> RISCVPageTableMap then
        Inr (EXCEPTION_SYSCALL_ERROR, set_error_type seL4_IllegalOperation s1)
      else if len < 2 \<or> excaprefs extraCaps 0 = 0 then
        Inr (EXCEPTION_SYSCALL_ERROR, set_error_type seL4_TruncatedMessage s1)
      else
        let vaddr = getSyscallArg 0 buffer;
            lvl1ptCap = ksCaps s1 (excaprefs extraCaps 0)
        in
        case isValidNativeRoot cfg s1 lvl1ptCap of (validRoot, s2) \<Rightarrow>
        if \<not> validRoot then
          Inr (EXCEPTION_SYSCALL_ERROR,
               set_invalidCapNumber 1 (set_error_type seL4_InvalidCapability s2))
        else if capType lvl1ptCap \<noteq> cap_page_table_cap then
          Inr (EXCEPTION_SYSCALL_ERROR,
               set_invalidCapNumber 1 (set_error_type seL4_InvalidCapability s2))
        else
          case isVTableRoot cfg s2 lvl1ptCap of (lvl1IsRoot, s3) \<Rightarrow>
          if \<not> lvl1IsRoot then
            Inr (EXCEPTION_SYSCALL_ERROR,
                 set_invalidCapNumber 1 (set_error_type seL4_InvalidCapability s3))
          else
            let lvl1pt = capPTBasePtr lvl1ptCap;
                asid = capPTMappedASID lvl1ptCap
            in
            if vaddr \<ge> kernelBase cfg then
              Inr (EXCEPTION_SYSCALL_ERROR,
                   set_invalidArgumentNumber 0 (set_error_type seL4_InvalidArgument s3))
            else
              case findVSpaceForASID cfg s3 asid of (find_ret, s4) \<Rightarrow>
              if fv_status find_ret \<noteq> EXCEPTION_NONE then
                Inr (EXCEPTION_SYSCALL_ERROR,
                     set_failedLookupWasSource False (set_error_type seL4_FailedLookup s4))
              else if vspace_root find_ret \<noteq> lvl1pt then
                Inr (EXCEPTION_SYSCALL_ERROR,
                     set_invalidCapNumber 1 (set_error_type seL4_InvalidCapability s4))
              else
                bindE (lookupPTSlot cfg s4 lvl1pt vaddr (CONFIG_PT_LEVELS cfg))
                  (\<lambda>(lu_ret, s5).
                     case ptSlot lu_ret of
                       None \<Rightarrow> Inl UninitialisedRead
                     | Some slot \<Rightarrow>
                         if ksMem s5 slot \<noteq> 0 then
                           Inr (EXCEPTION_SYSCALL_ERROR, set_error_type seL4_DeleteFirst s5)
                         else
                           let paddr = addrFromPPtr cfg (capPTBasePtr cap);
                               pte = pte_new (drop_bit RISCV_4K_PageBits paddr) 0 True True
                                       False False False False False True;
                               cap1 = cap\<lparr>capPTIsMapped := True\<rparr>;
                               cap2 = cap1\<lparr>capPTMappedASID := asid\<rparr>;
                               cap3 = cap2\<lparr>capPTMappedAddress := vaddr\<rparr>
                           in Inr (performPageTableInvocationMap
                                (setThreadState s5 (ksCurThread s5) ThreadState_Restart)
                                cap3 cte pte slot)))"

record create_mappings_pte_return =
  cm_status :: exception_t
  cm_pte :: machine_word
  pte_entries :: pte_range

definition createSafeMappingEntries_PTE ::
  "riscv_config \<Rightarrow> kernel_state \<Rightarrow> machine_word \<Rightarrow> machine_word \<Rightarrow> vm_page_size \<Rightarrow> vm_rights
     \<Rightarrow> machine_word \<Rightarrow> machine_word
     \<Rightarrow> kernel_halt + (create_mappings_pte_return \<times> kernel_state)" where
  "createSafeMappingEntries_PTE cfg s base_addr vaddr frameSize vmRights attr lvl1pt =
     (let executable = (if vm_attributes_get_riscvExecuteNever attr then False else True);
          pte = makeUserPTE base_addr executable vmRights
      in
      bindE (lookupPTSlot cfg s lvl1pt vaddr (RISCVpageAtPTLevel cfg frameSize))
        (\<lambda>(lu_ret, s1).
           if status lu_ret \<noteq> EXCEPTION_NONE then
             Inr (\<lparr>cm_status = EXCEPTION_SYSCALL_ERROR, cm_pte = pte,
                   pte_entries = \<lparr>base = 0, length_range = 1\<rparr>\<rparr>,
                  set_failedLookupWasSource False (set_error_type seL4_FailedLookup s1))
           else
             (case ptSlot lu_ret of
                None \<Rightarrow> Inl UninitialisedRead
              | Some slot \<Rightarrow>
                  Inr (\<lparr>cm_status = EXCEPTION_NONE, cm_pte = pte,
                        pte_entries = \<lparr>base = slot, length_range = 1\<rparr>\<rparr>, s1))))"

text \<open>The case \<open>RISCVPageMap\<close> of \<open>decodeRISCVFrameInvocation\<close>.\<close>

definition decodeRISCVPageMap ::
  "riscv_config \<Rightarrow> kernel_state \<Rightarrow> nat \<Rightarrow> machine_word \<Rightarrow> cap_t
     \<Rightarrow> extra_caps \<Rightarrow> (nat \<Rightarrow> machine_word) \<Rightarrow> kernel_halt + (exception_t \<times> kernel_state)" where
  "decodeRISCVPageMap cfg s len cte cap extraCaps buffer =
     (if len < 3 \<or> excaprefs extraCaps 0 = 0 then
        Inr (EXCEPTION_SYSCALL_ERROR, set_error_type seL4_TruncatedMessage s)
      else
        let vaddr = getSyscallArg 0 buffer;
            w_rightsMask = getSyscallArg 1 buffer;
            attr = vmAttributesFromWord (getSyscallArg 2 buffer);
            lvl1ptCap = ksCaps s (excaprefs extraCaps 0);
            frameSize = capFSize cap;
            capVMRights = capFVMRights cap
        in
        if unlikely (capFMappedASID cap) \<noteq> asidInvalid \<and> capFMappedAddress cap \<noteq> vaddr then
          Inr (EXCEPTION_SYSCALL_ERROR,
               set_invalidCapNumber 0 (set_error_type seL4_InvalidCapability s))
        else if capType lvl1ptCap \<noteq> cap_page_table_cap then
          Inr (EXCEPTION_SYSCALL_ERROR,
               set_invalidCapNumber 1 (set_error_type seL4_InvalidCapability s))
        else
          case isVTableRoot cfg s lvl1ptCap of (lvl1IsRoot, s1) \<Rightarrow>
          if \<not> lvl1IsRoot then
            Inr (EXCEPTION_SYSCALL_ERROR,
                 set_invalidCapNumber 1 (set_error_type seL4_InvalidCapability s1))
          else
            let lvl1pt = capPTBasePtr lvl1ptCap in
            bindE (lookupPTSlot cfg s1 lvl1pt vaddr (RISCVpageAtPTLevel cfg frameSize))
              (\<lambda>(lu_ret, s2).
                 if status lu_ret \<noteq> EXCEPTION_NONE then
                   Inr (EXCEPTION_SYSCALL_ERROR,
                        set_failedLookupWasSource False (set_error_type seL4_FailedLookup s2))
                 else
                   let asid = capPTMappedASID lvl1ptCap in
                   case findVSpaceForASID cfg s2 asid of (find_ret, s3) \<Rightarrow>
                   if fv_status find_ret \<noteq> EXCEPTION_NONE then
                     Inr (EXCEPTION_SYSCALL_ERROR,
                          set_failedLookupWasSource False (set_error_type seL4_FailedLookup s3))
                   else if vspace_root find_ret \<noteq> lvl1pt then
                     Inr (EXCEPTION_SYSCALL_ERROR,
                          set_invalidCapNumber 1 (set_error_type seL4_InvalidCapability s3))
                   else
                     let vtop = vaddr + BIT (pageBitsForSize cfg frameSize) - 1 in
                     if vtop \<ge> kernelBase cfg then
                       Inr (EXCEPTION_SYSCALL_ERROR,
                            set_invalidArgumentNumber 0 (set_error_type seL4_InvalidArgument s3))
                     else
                       let vmRights = maskVMRights capVMRights (rightsFromWord w_rightsMask) in
                       if \<not> checkVPAlignment cfg frameSize vaddr then
                         Inr (EXCEPTION_SYSCALL_ERROR, set_error_type seL4_AlignmentError s3)
                       else
                         let frame_paddr = addrFromPPtr cfg (capFBasePtr cap);
                             cap1 = cap\<lparr>capFMappedASID := asid\<rparr>;
                             cap2 = cap1\<lparr>capFMappedAddress := vaddr\<rparr>
                         in
                         bindE (createSafeMappingEntries_PTE cfg s3 frame_paddr vaddr frameSize
                                  vmRights attr lvl1pt)
                           (\<lambda>(map_ret, s4).
                              if cm_status map_ret \<noteq> EXCEPTION_NONE then
                                Inr (cm_status map_ret, s4)
                              else
                                Inr (performPageInvocationMapPTE
                                  (setThreadState s4 (ksCurThread s4) ThreadState_Restart)
                                  cap2 cte (cm_pte map_ret) (pte_entries map_ret)))))"

text \<open>The case \<open>RISCVPageRemap\<close> of \<open>decodeRISCVFrameInvocation\<close>.\<close>

definition decodeRISCVPageRemap ::
  "riscv_config \<Rightarrow> kernel_state \<Rightarrow> nat \<Rightarrow> machine_word \<Rightarrow> cap_t
     \<Rightarrow> extra_caps \<Rightarrow> (nat \<Rightarrow> machine_word) \<Rightarrow> kernel_halt + (exception_t \<times> kernel_state)" where
  "decodeRISCVPageRemap cfg s len cte cap extraCaps buffer =
     (if len < 2 \<or> excaprefs extraCaps 0 = 0 then
        Inr (EXCEPTION_SYSCALL_ERROR, set_error_type seL4_TruncatedMessage s)
      else
        let w_rightsMask = getSyscallArg 0 buffer;
            attr = vmAttributesFromWord (getSyscallArg 1 buffer);
            lvl1ptCap = ksCaps s (excaprefs extraCaps 0);
            frameSize = capFSize cap;
            capVMRights = capFVMRights cap
        in
        if capType lvl1ptCap \<noteq> cap_page_table_cap then
          Inr (EXCEPTION_SYSCALL_ERROR,
               set_invalidCapNumber 1 (set_error_type seL4_InvalidCapability s))
        else
          case isVTableRoot cfg s lvl1ptCap of (lvl1IsRoot, s1) \<Rightarrow>
          if \<not> lvl1IsRoot then
            Inr (EXCEPTION_SYSCALL_ERROR,
                 set_invalidCapNumber 1 (set_error_type seL4_InvalidCapability s1))
          else if unlikely (capFMappedASID cap) = asidInvalid then
            Inr (EXCEPTION_SYSCALL_ERROR,
                 set_invalidCapNumber 0 (set_error_type seL4_InvalidCapability s1))
          else
            let vaddr = capFMappedAddress cap;
                asid = capPTMappedASID lvl1ptCap;
                lvl1pt = capPTBasePtr lvl1ptCap
            in
            case findVSpaceForASID cfg s1 asid of (find_ret, s2) \<Rightarrow>
            if fv_status find_ret \<noteq> EXCEPTION_NONE then
              Inr (EXCEPTION_SYSCALL_ERROR,
                   set_failedLookupWasSource False (set_error_type seL4_FailedLookup s2))
            else if vspace_root find_ret \<noteq> lvl1pt then
              Inr (EXCEPTION_SYSCALL_ERROR,
                   set_invalidCapNumber 1 (set_error_type seL4_InvalidCapability s2))
            else
              bindE (lookupPTSlot cfg s2 lvl1pt vaddr (RISCVpageAtPTLevel cfg frameSize))
                (\<lambda>(lu_ret, s3).
                   if status lu_ret \<noteq> EXCEPTION_NONE then
                     Inr (EXCEPTION_SYSCALL_ERROR,
                          set_failedLookupWasSource False (set_error_type seL4_FailedLookup s3))
                   else
                     let vmRights = maskVMRights capVMRights (rightsFromWord w_rightsMask);
                         frame_paddr = addrFromPPtr cfg (capFBasePtr cap)
                     in
                     bindE (createSafeMappingEntries_PTE cfg s3 frame_paddr vaddr frameSize
                              vmRights attr lvl1pt)
                       (\<lambda>(map_ret, s4).
                          if cm_status map_ret \<noteq> EXCEPTION_NONE then
                            Inr (cm_status map_ret, s4)
                          else
                            Inr (performPageInvocationRemapPTE
                              (setThreadState s4 (ksCurThread s4) ThreadState_Restart)
                              (cm_pte map_ret) (pte_entries map_ret)))))"

definition decodeRISCVFrameInvocation ::
  "riscv_config \<Rightarrow> kernel_state \<Rightarrow> invocation_label \<Rightarrow> nat \<Rightarrow> machine_word \<Rightarrow> cap_t
     \<Rightarrow> extra_caps \<Rightarrow> (nat \<Rightarrow> machine_word) \<Rightarrow> kernel_halt + (exception_t \<times> kernel_state)" where
  "decodeRISCVFrameInvocation cfg s label len cte cap extraCaps buffer =
     (case label of
        RISCVPageMap \<Rightarrow> decodeRISCVPageMap cfg s len cte cap extraCaps buffer
      | RISCVPageRemap \<Rightarrow> decodeRISCVPageRemap cfg s len cte cap extraCaps buffer
      | RISCVPageUnmap \<Rightarrow>
          performPageInvocationUnmap cfg
            (setThreadState s (ksCurThread s) ThreadState_Restart) cap cte
      | RISCVPageGetAddress \<Rightarrow>
          if \<not> n_msgRegisters cfg \<ge> 1 then Inl AssertionFailed
          else
            Inr (performPageGetAddress cfg
              (setThreadState s (ksCurThread s) ThreadState_Restart) (capFBasePtr cap))
      | _ \<Rightarrow> Inr (EXCEPTION_SYSCALL_ERROR, set_error_type seL4_IllegalOperation s))"

section \<open>ASID pools\<close>

text \<open>
  The capability-space service. \<open>ensureNoChildren\<close>, \<open>lookupTargetSlot\<close>,
  \<open>ensureEmptySlot\<close> and \<open>cteInsert\<close> are defined outside the two files, so the decoder
  takes them as parameters. The three checks read the state and return a status (and the
  slot found) together with what they leave in \<open>current_syscall_error\<close> and
  \<open>current_lookup_fault\<close>; \<open>cteInsert\<close> returns the new state.
\<close>

record cspace_service =
  ensureNoChildren :: "kernel_state \<Rightarrow> machine_word \<Rightarrow> exception_t \<times> syscall_error"
  lookupTargetSlot ::
    "kernel_state \<Rightarrow> cap_t \<Rightarrow> machine_word \<Rightarrow> machine_word
       \<Rightarrow> (exception_t \<times> machine_word) \<times> syscall_error \<times> lookup_fault"
  ensureEmptySlot :: "kernel_state \<Rightarrow> machine_word \<Rightarrow> exception_t \<times> syscall_error"
  cteInsert :: "kernel_state \<Rightarrow> cap_t \<Rightarrow> machine_word \<Rightarrow> machine_word \<Rightarrow> kernel_state"

text \<open>
  \<open>for (i = RISCV_GET_PT_INDEX(kernelBase, 1); i < BIT(PT_INDEX_BITS); i++)\<close> of
  \<open>copyGlobalMappings\<close>: the entries of the kernel's level-1 table from the kernel base on
  are copied into the new table.
\<close>

definition copyGlobalMappings :: "riscv_config \<Rightarrow> kernel_state \<Rightarrow> machine_word \<Rightarrow> kernel_state" where
  "copyGlobalMappings cfg s newLvl1pt =
     s\<lparr>ksMem :=
         fold (\<lambda>i m. m(ptr_add newLvl1pt (of_nat i) := m (ptr_add (kernel_pageTables cfg) (of_nat i))))
           [unat (RISCV_GET_PT_INDEX cfg (kernelBase cfg) 1) ..< 2 ^ PT_INDEX_BITS cfg]
           (ksMem s)\<rparr>"

text \<open>\<open>cap_asid_pool_cap_new\<close>: the fields no accessor of an ASID-pool capability reads are 0.\<close>

definition cap_asid_pool_cap_new :: "machine_word \<Rightarrow> machine_word \<Rightarrow> cap_t" where
  "cap_asid_pool_cap_new asid_base pool =
     \<lparr>capType = cap_asid_pool_cap, capPTMappedASID = 0, capPTBasePtr = 0,
      capPTIsMapped = False, capPTMappedAddress = 0, capFMappedASID = 0, capFBasePtr = 0,
      capFSize = RISCV_4K_Page, capFVMRights = VMNoAccess, capFMappedAddress = 0,
      capBlockSize = 0, capIsDevice = False, capPtr = 0, capFreeIndex = 0,
      capASIDBase = asid_base, capASIDPool = pool\<rparr>"

definition performASIDControlInvocation ::
  "riscv_config \<Rightarrow> cspace_service \<Rightarrow> kernel_state \<Rightarrow> machine_word \<Rightarrow> machine_word
     \<Rightarrow> machine_word \<Rightarrow> machine_word \<Rightarrow> kernel_halt + (exception_t \<times> kernel_state)" where
  "performASIDControlInvocation cfg cs s frame slot parent asid_base =
     (let s1 = s\<lparr>ksCaps := (ksCaps s)
                  (parent := (ksCaps s parent)
                     \<lparr>capFreeIndex := MAX_FREE_INDEX cfg (capBlockSize (ksCaps s parent))\<rparr>)\<rparr>;
          s2 = memzero s1 frame (BIT (pageBitsForSize cfg RISCV_4K_Page));
          s3 = cteInsert cs s2 (cap_asid_pool_cap_new asid_base frame) parent slot
      in
      if asid_base AND MASK (asidLowBits cfg) \<noteq> 0 then Inl AssertionFailed
      else
        Inr (EXCEPTION_NONE,
             s3\<lparr>riscvKSASIDTable :=
                  (riscvKSASIDTable s3)(drop_bit (asidLowBits cfg) asid_base := frame)\<rparr>))"

definition performASIDPoolInvocation ::
  "riscv_config \<Rightarrow> kernel_state \<Rightarrow> machine_word \<Rightarrow> machine_word \<Rightarrow> machine_word
     \<Rightarrow> exception_t \<times> kernel_state" where
  "performASIDPoolInvocation cfg s asid poolPtr vspaceCapSlot =
     (let regionBase = capPTBasePtr (ksCaps s vspaceCapSlot);
          cap = ksCaps s vspaceCapSlot;
          cap1 = cap\<lparr>capPTMappedASID := asid\<rparr>;
          cap2 = cap1\<lparr>capPTIsMapped := True\<rparr>;
          s1 = s\<lparr>ksCaps := (ksCaps s)(vspaceCapSlot := cap2)\<rparr>;
          s2 = copyGlobalMappings cfg s1 regionBase
      in
      (EXCEPTION_NONE,
       s2\<lparr>ksMem := (ksMem s2)
            (ptr_add poolPtr (asid AND MASK (asidLowBits cfg)) := regionBase)\<rparr>))"

text \<open>
  \<open>for (i = 0; i < nASIDPools && riscvKSASIDTable[i]; i++);\<close> from \<open>i\<close> on: the value of
  \<open>i\<close> after the loop.
\<close>

function find_free_pool :: "riscv_config \<Rightarrow> kernel_state \<Rightarrow> nat \<Rightarrow> nat" where
  "find_free_pool cfg s i =
     (if i < nASIDPools cfg \<and> riscvKSASIDTable s (of_nat i) \<noteq> 0
      then find_free_pool cfg s (i + 1) else i)"
  by pat_completeness auto
termination
  by (relation "measure (\<lambda>(cfg, s, i). nASIDPools cfg - i)") auto

declare find_free_pool.simps [simp del]

text \<open>
  \<open>for (i = 0; i < BIT(asidLowBits) && (asid + i == 0 || pool->array[i]); i++);\<close> from
  \<open>i\<close> on: the value of \<open>i\<close> after the loop. \<open>asidLowBits\<close> is less than the word size,
  so \<open>BIT(asidLowBits)\<close> is the number \<open>2 ^ asidLowBits\<close>.
\<close>

function find_free_asid :: "riscv_config \<Rightarrow> kernel_state \<Rightarrow> machine_word \<Rightarrow> machine_word \<Rightarrow> nat \<Rightarrow> nat" where
  "find_free_asid cfg s asid pool i =
     (if i < 2 ^ asidLowBits cfg \<and>
         (asid + of_nat i = 0 \<or> ksMem s (ptr_add pool (of_nat i)) \<noteq> 0)
      then find_free_asid cfg s asid pool (i + 1) else i)"
  by pat_completeness auto
termination
  by (relation "measure (\<lambda>(cfg, s, asid, pool, i). 2 ^ asidLowBits cfg - i)") auto

declare find_free_asid.simps [simp del]

text \<open>The case \<open>cap_asid_control_cap\<close> of \<open>decodeRISCVMMUInvocation\<close>.\<close>

definition decodeRISCVASIDControlInvocation ::
  "riscv_config \<Rightarrow> cspace_service \<Rightarrow> kernel_state \<Rightarrow> invocation_label \<Rightarrow> nat
     \<Rightarrow> extra_caps \<Rightarrow> (nat \<Rightarrow> machine_word) \<Rightarrow> kernel_halt + (exception_t \<times> kernel_state)" where
  "decodeRISCVASIDControlInvocation cfg cs s label len extraCaps buffer =
     (if label \<noteq> RISCVASIDControlMakePool then
        Inr (EXCEPTION_SYSCALL_ERROR, set_error_type seL4_IllegalOperation s)
      else if len < 2 \<or> excaprefs extraCaps 0 = 0 \<or> excaprefs extraCaps 1 = 0 then
        Inr (EXCEPTION_SYSCALL_ERROR, set_error_type seL4_TruncatedMessage s)
      else
        let index = getSyscallArg 0 buffer;
            depth = getSyscallArg 1 buffer;
            parentSlot = excaprefs extraCaps 0;
            untyped = ksCaps s parentSlot;
            root = ksCaps s (excaprefs extraCaps 1);
            i = find_free_pool cfg s 0
        in
        if i = nASIDPools cfg then
          Inr (EXCEPTION_SYSCALL_ERROR, set_error_type seL4_DeleteFirst s)
        else
          let asid_base = push_bit (asidLowBits cfg) (of_nat i) in
          if capType untyped \<noteq> cap_untyped_cap \<or>
             capBlockSize untyped \<noteq> seL4_ASIDPoolBits cfg \<or> capIsDevice untyped then
            Inr (EXCEPTION_SYSCALL_ERROR,
                 set_invalidCapNumber 1 (set_error_type seL4_InvalidCapability s))
          else
            case ensureNoChildren cs s parentSlot of (status1, err1) \<Rightarrow>
            if status1 \<noteq> EXCEPTION_NONE then
              Inr (status1, s\<lparr>current_syscall_error := err1\<rparr>)
            else
              let s1 = s\<lparr>current_syscall_error := err1\<rparr>;
                  frame = capPtr untyped
              in
              case lookupTargetSlot cs s1 root index depth of
                ((status2, destSlot), err2, lf2) \<Rightarrow>
              if status2 \<noteq> EXCEPTION_NONE then
                Inr (status2, s1\<lparr>current_syscall_error := err2, current_lookup_fault := lf2\<rparr>)
              else
                let s2 = s1\<lparr>current_syscall_error := err2, current_lookup_fault := lf2\<rparr> in
                case ensureEmptySlot cs s2 destSlot of (status3, err3) \<Rightarrow>
                if status3 \<noteq> EXCEPTION_NONE then
                  Inr (status3, s2\<lparr>current_syscall_error := err3\<rparr>)
                else
                  let s3 = s2\<lparr>current_syscall_error := err3\<rparr> in
                  performASIDControlInvocation cfg cs
                    (setThreadState s3 (ksCurThread s3) ThreadState_Restart)
                    frame destSlot parentSlot asid_base)"

text \<open>The case \<open>cap_asid_pool_cap\<close> of \<open>decodeRISCVMMUInvocation\<close>.\<close>

definition decodeRISCVASIDPoolInvocation ::
  "riscv_config \<Rightarrow> kernel_state \<Rightarrow> invocation_label \<Rightarrow> cap_t \<Rightarrow> extra_caps
     \<Rightarrow> kernel_halt + (exception_t \<times> kernel_state)" where
  "decodeRISCVASIDPoolInvocation cfg s label cap extraCaps =
     (if label \<noteq> RISCVASIDPoolAssign then
        Inr (EXCEPTION_SYSCALL_ERROR, set_error_type seL4_IllegalOperation s)
      else if excaprefs extraCaps 0 = 0 then
        Inr (EXCEPTION_SYSCALL_ERROR, set_error_type seL4_TruncatedMessage s)
      else
        let vspaceCapSlot = excaprefs extraCaps 0;
            vspaceCap = ksCaps s vspaceCapSlot
        in
        if capPTMappedASID vspaceCap \<noteq> asidInvalid then
          Inr (EXCEPTION_SYSCALL_ERROR,
               set_invalidCapNumber 1 (set_error_type seL4_InvalidCapability s))
        else
          let pool = riscvKSASIDTable s (drop_bit (asidLowBits cfg) (capASIDBase cap)) in
          if pool = 0 then
            Inr (EXCEPTION_SYSCALL_ERROR,
                 (set_failedLookupWasSource False (set_error_type seL4_FailedLookup s))
                   \<lparr>current_lookup_fault := lookup_fault_invalid_root_new\<rparr>)
          else if pool \<noteq> capASIDPool cap then
            Inr (EXCEPTION_SYSCALL_ERROR,
                 set_invalidCapNumber 0 (set_error_type seL4_InvalidCapability s))
          else
            let asid = capASIDBase cap;
                i = find_free_asid cfg s asid pool 0
            in
            if i = 2 ^ asidLowBits cfg then
              Inr (EXCEPTION_SYSCALL_ERROR, set_error_type seL4_DeleteFirst s)
            else
              Inr (performASIDPoolInvocation cfg
                (setThreadState s (ksCurThread s) ThreadState_Restart)
                (asid + of_nat i) pool vspaceCapSlot))"

definition decodeRISCVMMUInvocation ::
  "riscv_config \<Rightarrow> cspace_service \<Rightarrow> kernel_state \<Rightarrow> invocation_label \<Rightarrow> nat \<Rightarrow> machine_word
     \<Rightarrow> machine_word \<Rightarrow> cap_t \<Rightarrow> extra_caps \<Rightarrow> (nat \<Rightarrow> machine_word)
     \<Rightarrow> kernel_halt + (exception_t \<times> kernel_state)" where
  "decodeRISCVMMUInvocation cfg cs s label len cptr cte cap extraCaps buffer =
     (case capType cap of
        cap_page_table_cap \<Rightarrow>
          decodeRISCVPageTableInvocation cfg s label len cte cap extraCaps buffer
      | cap_frame_cap \<Rightarrow>
          decodeRISCVFrameInvocation cfg s label len cte cap extraCaps buffer
      | cap_asid_control_cap \<Rightarrow>
          decodeRISCVASIDControlInvocation cfg cs s label len extraCaps buffer
      | cap_asid_pool_cap \<Rightarrow>
          decodeRISCVASIDPoolInvocation cfg s label cap extraCaps
      | _ \<Rightarrow> Inl KernelFail)"

section \<open>VM faults\<close>

text \<open>
  Modelled from the spec: the enumeration \<open>vm_fault_type_t\<close> is declared outside the two
  files; the hardware trap causes are the exception codes of the RISC-V privileged
  architecture.
\<close>

definition RISCVInstructionAccessFault :: machine_word where
  "RISCVInstructionAccessFault = 1"

definition RISCVLoadAccessFault :: machine_word where
  "RISCVLoadAccessFault = 5"

definition RISCVStoreAccessFault :: machine_word where
  "RISCVStoreAccessFault = 7"

definition RISCVInstructionPageFault :: machine_word where
  "RISCVInstructionPageFault = 12"

definition RISCVLoadPageFault :: machine_word where
  "RISCVLoadPageFault = 13"

definition RISCVStorePageFault :: machine_word where
  "RISCVStorePageFault = 15"

definition handleVMFault ::
  "kernel_state \<Rightarrow> machine_word \<Rightarrow> machine_word \<Rightarrow> kernel_halt + (exception_t \<times> kernel_state)" where
  "handleVMFault s thread vm_faultType =
     (let addr = sbadaddr s in
      if vm_faultType = RISCVLoadPageFault \<or> vm_faultType = RISCVLoadAccessFault then
        Inr (EXCEPTION_FAULT,
             s\<lparr>current_fault := seL4_Fault_VMFault_new addr RISCVLoadAccessFault False\<rparr>)
      else if vm_faultType = RISCVStorePageFault \<or> vm_faultType = RISCVStoreAccessFault then
        Inr (EXCEPTION_FAULT,
             s\<lparr>current_fault := seL4_Fault_VMFault_new addr RISCVStoreAccessFault False\<rparr>)
      else if vm_faultType = RISCVInstructionPageFault \<or>
              vm_faultType = RISCVInstructionAccessFault then
        (let s1 = setRegister s thread NEXTPC (getRegister s thread SEPC) in
         Inr (EXCEPTION_FAULT,
              s1\<lparr>current_fault :=
                   seL4_Fault_VMFault_new addr RISCVInstructionAccessFault True\<rparr>))
      else Inl KernelFail)"

section \<open>Switching kernel images\<close>

record kernel_image =
  kiRoot :: machine_word
  kiASID :: machine_word
  kiStackInitted :: bool

text \<open>
  Modelled from the spec: \<open>setVSpaceRoot\<close> is a machine helper defined outside the two
  files; it "installs the image's root into the hardware translation-root register
  together with its bound ASID". The write is recorded among the hardware operations.
\<close>

definition setVSpaceRoot :: "kernel_state \<Rightarrow> machine_word \<Rightarrow> machine_word \<Rightarrow> kernel_state" where
  "setVSpaceRoot s addr asid = s\<lparr>ksEvents := ksEvents s @ [SetVSpaceRoot addr asid]\<rparr>"

text \<open>
  The loop of the inline assembly of \<open>Arch_setKernelImage\<close>:
  \<^verbatim>\<open>1: beq stack_p, sp, 1f; stack_p -= 8; image_p -= 8; *image_p = *stack_p; j 1b\<close>.
  Each store is recorded as \<open>StackStore\<close> with its destination and its source address.
  The loop ends only when \<open>stack_p\<close> meets the stack pointer \<open>sp\<close>, so it is a partial
  function: \<open>None\<close> is the loop that runs forever.
\<close>

partial_function (option) copy_stack ::
  "kernel_state \<Rightarrow> machine_word \<Rightarrow> machine_word \<Rightarrow> machine_word
     \<Rightarrow> (machine_word \<times> machine_word \<times> kernel_state) option" where
  "copy_stack s sp stack_p image_p =
     (if stack_p = sp then Some (stack_p, image_p, s)
      else
        copy_stack
          (s\<lparr>ksMem := (ksMem s)(image_p - 8 := ksMem s (stack_p - 8)),
             ksEvents := ksEvents s @ [StackStore (image_p - 8) (stack_p - 8)]\<rparr>)
          sp (stack_p - 8) (image_p - 8))"

text \<open>The instruction \<open>fence\<close> that ends the assembly block.\<close>

definition fence :: "kernel_state \<Rightarrow> kernel_state" where
  "fence s = s\<lparr>ksEvents := ksEvents s @ [Fence]\<rparr>"

text \<open>
  \<open>Arch_setKernelImage\<close>, given the stack pointer \<open>sp\<close> at the assembly block. The image
  (\<open>kimage\<close>) is passed and returned by value; the assignment to its flag is also recorded among the
  hardware operations, so that its place in the sequence can be read off. The calls of
  \<open>printf\<close> are left out.
\<close>

definition Arch_setKernelImage ::
  "riscv_config \<Rightarrow> kernel_state \<Rightarrow> machine_word \<Rightarrow> kernel_image
     \<Rightarrow> (kernel_image \<times> kernel_state) option" where
  "Arch_setKernelImage cfg s sp kimage =
     (let stack_p = kernelStackBase cfg;
          image_p = kernelImageVPtr cfg (kiRoot kimage) (stack_p - 1) + 1
      in
      if kiStackInitted kimage then
        Some (kimage, setVSpaceRoot s (addrFromPPtr cfg (kiRoot kimage)) (kiASID kimage))
      else
        case copy_stack s sp stack_p image_p of
          None \<Rightarrow> None
        | Some (stack_p1, image_p1, s1) \<Rightarrow>
            let s2 = fence s1;
                s3 = setVSpaceRoot s2 (addrFromPPtr cfg (kiRoot kimage)) (kiASID kimage)
            in Some (kimage\<lparr>kiStackInitted := True\<rparr>,
                     s3\<lparr>ksEvents := ksEvents s3 @ [SetStackInitted]\<rparr>))"

section \<open>A concrete configuration and state\<close>

text \<open>
  The Sv39 configuration: three levels of 512 entries, 128 ASID pools of 512 ASIDs, the
  kernel window in the top 2GiB. Concrete inputs below are built on it.
\<close>

definition sv39_pageBits :: "vm_page_size \<Rightarrow> nat" where
  "sv39_pageBits sz =
     (case sz of RISCV_4K_Page \<Rightarrow> 12 | RISCV_Mega_Page \<Rightarrow> 21 | RISCV_Giga_Page \<Rightarrow> 30
      | RISCV_Tera_Page \<Rightarrow> 39)"

definition sv39_pageLevel :: "vm_page_size \<Rightarrow> nat" where
  "sv39_pageLevel sz =
     (case sz of RISCV_4K_Page \<Rightarrow> 3 | RISCV_Mega_Page \<Rightarrow> 2 | RISCV_Giga_Page \<Rightarrow> 1
      | RISCV_Tera_Page \<Rightarrow> 0)"

definition sv39 :: riscv_config where
  "sv39 =
     \<lparr>CONFIG_PT_LEVELS = 3, PT_INDEX_BITS = 9, asidLowBits = 9, nASIDPools = 128,
      kernelBase = 0xFFFFFFFF80000000, BASE_OFFSET = 0xFFFFFFFF00000000,
      pageBitsForSize = sv39_pageBits, RISCVpageAtPTLevel = sv39_pageLevel,
      kernel_pageTables = 0xFFFFFFFF84000000, seL4_ASIDPoolBits = 12,
      MAX_FREE_INDEX = (\<lambda>sizeBits. push_bit (unat sizeBits - 4) 1), n_msgRegisters = 4,
      kernelStackBase = 0xFFFFFFFF84100000,
      kernelImageVPtr = (\<lambda>root vaddr. vaddr - 0x10000)\<rparr>"

definition null_cap :: cap_t where
  "null_cap =
     \<lparr>capType = cap_null_cap, capPTMappedASID = 0, capPTBasePtr = 0,
      capPTIsMapped = False, capPTMappedAddress = 0, capFMappedASID = 0, capFBasePtr = 0,
      capFSize = RISCV_4K_Page, capFVMRights = VMNoAccess, capFMappedAddress = 0,
      capBlockSize = 0, capIsDevice = False, capPtr = 0, capFreeIndex = 0,
      capASIDBase = 0, capASIDPool = 0\<rparr>"

text \<open>The state with zeroed memory, an empty ASID table and null capabilities.\<close>

definition empty_state :: kernel_state where
  "empty_state =
     \<lparr>ksMem = (\<lambda>a. 0), riscvKSASIDTable = (\<lambda>i. 0), ksCaps = (\<lambda>p. null_cap),
      ksRegs = (\<lambda>t r. 0), ksCurThread = 0, ksThreadState = (\<lambda>t. ThreadState_Running),
      sbadaddr = 0, current_lookup_fault = lookup_fault_other,
      current_syscall_error =
        \<lparr>error_type = seL4_NoError, invalidCapNumber = 0, invalidArgumentNumber = 0,
         failedLookupWasSource = False\<rparr>,
      current_fault = seL4_Fault_NullFault, ksEvents = []\<rparr>"

definition null_cspace :: cspace_service where
  "null_cspace =
     \<lparr>ensureNoChildren = (\<lambda>s slot. (EXCEPTION_NONE, current_syscall_error s)),
      lookupTargetSlot =
        (\<lambda>s root index depth.
           ((EXCEPTION_NONE, index), current_syscall_error s, current_lookup_fault s)),
      ensureEmptySlot = (\<lambda>s slot. (EXCEPTION_NONE, current_syscall_error s)),
      cteInsert = (\<lambda>s newCap srcSlot destSlot. s\<lparr>ksCaps := (ksCaps s)(destSlot := newCap)\<rparr>)\<rparr>"

text \<open>
  A small address space. ASID 1 is bound, through the pool at \<open>0xFFFFFFFF86000000\<close>, to
  the root at \<open>0xFFFFFFFF85000000\<close>; entry 1 of the root points to the level-2 table at
  \<open>0xFFFFFFFF85001000\<close>, whose entry 0 points to the level-3 table at
  \<open>0xFFFFFFFF85002000\<close>: the tables that translate the addresses from \<open>0x40000000\<close> on.
  Four capability slots hold the capability of the level-2 table, of the root, of an
  unmapped 4KiB frame and of a page table that is not mapped.
\<close>

definition level2_cap :: cap_t where
  "level2_cap =
     null_cap\<lparr>capType := cap_page_table_cap, capPTMappedASID := 1,
       capPTBasePtr := 0xFFFFFFFF85001000, capPTIsMapped := True,
       capPTMappedAddress := 0x40000000\<rparr>"

definition root_cap :: cap_t where
  "root_cap =
     null_cap\<lparr>capType := cap_page_table_cap, capPTMappedASID := 1,
       capPTBasePtr := 0xFFFFFFFF85000000, capPTIsMapped := True,
       capPTMappedAddress := 0xFFFFFFFF85000000\<rparr>"

definition frame_cap :: cap_t where
  "frame_cap =
     null_cap\<lparr>capType := cap_frame_cap, capFMappedASID := 0,
       capFBasePtr := 0xFFFFFFFF85003000, capFSize := RISCV_4K_Page,
       capFVMRights := VMReadWrite, capFMappedAddress := 0\<rparr>"

text \<open>A page-table capability that is not mapped, for a table at \<open>0xFFFFFFFF85004000\<close>.\<close>

definition new_pt_cap :: cap_t where
  "new_pt_cap =
     null_cap\<lparr>capType := cap_page_table_cap, capPTBasePtr := 0xFFFFFFFF85004000\<rparr>"

definition vspace_mem :: "machine_word \<Rightarrow> machine_word" where
  "vspace_mem a =
     (if a = 0xFFFFFFFF86000008 then 0xFFFFFFFF85000000
      else if a = 0xFFFFFFFF85000008 then 0x214004C1
      else if a = 0xFFFFFFFF85001000 then 0x214008C1
      else 0)"

definition vspace_caps :: "machine_word \<Rightarrow> cap_t" where
  "vspace_caps p =
     (if p = 0xFFFFFFFF87000000 then level2_cap
      else if p = 0xFFFFFFFF87000020 then root_cap
      else if p = 0xFFFFFFFF87000040 then frame_cap
      else if p = 0xFFFFFFFF87000060 then new_pt_cap
      else null_cap)"

definition vspace_state :: kernel_state where
  "vspace_state =
     empty_state\<lparr>ksMem := vspace_mem,
       riscvKSASIDTable := (\<lambda>i. if i = 0 then 0xFFFFFFFF86000000 else 0),
       ksCaps := vspace_caps\<rparr>"

text \<open>The extra capabilities that name the root, and the arguments of a \<open>PageMap\<close>.\<close>

definition root_extra_caps :: extra_caps where
  "root_extra_caps = \<lparr>excaprefs = (\<lambda>i. if i = 0 then 0xFFFFFFFF87000020 else 0)\<rparr>"

definition map_args :: "machine_word \<Rightarrow> nat \<Rightarrow> machine_word" where
  "map_args vaddr i = (if i = 0 then vaddr else if i = 1 then 3 else 0)"

text \<open>A thread (at address 0) that faulted on the instruction at \<open>0x10000\<close>.\<close>

definition fault_regs :: "machine_word \<Rightarrow> register \<Rightarrow> machine_word" where
  "fault_regs t r = (if r = SEPC then 0x10000 else 0)"

definition fault_state :: kernel_state where
  "fault_state = empty_state\<lparr>ksRegs := fault_regs, sbadaddr := 0x10000\<rparr>"

text \<open>The state an invocation returns; the empty state if the kernel stopped.\<close>

definition result_state :: "kernel_halt + (exception_t \<times> kernel_state) \<Rightarrow> kernel_state" where
  "result_state r = (case r of Inl h \<Rightarrow> empty_state | Inr (e, s) \<Rightarrow> s)"

text \<open>
  \<open>PageTableUnmap\<close> invoked on the capability of the level-2 table, and \<open>PageMap\<close> of the
  frame at \<open>0x40000000\<close>, both in the small address space.
\<close>

definition unmap_level2_result :: "kernel_halt + (exception_t \<times> kernel_state)" where
  "unmap_level2_result =
     decodeRISCVMMUInvocation sv39 null_cspace vspace_state RISCVPageTableUnmap 0 0
       0xFFFFFFFF87000000 level2_cap root_extra_caps (map_args 0)"

definition first_map_result :: "kernel_halt + (exception_t \<times> kernel_state)" where
  "first_map_result =
     decodeRISCVMMUInvocation sv39 null_cspace vspace_state RISCVPageMap 3 0
       0xFFFFFFFF87000040 frame_cap root_extra_caps (map_args 0x40000000)"

text \<open>
  \<open>PageTableMap\<close> of the unmapped page table at \<open>0x80000000\<close>, where the root's entry
  is empty.
\<close>

definition map_new_pt_result :: "kernel_halt + (exception_t \<times> kernel_state)" where
  "map_new_pt_result =
     decodeRISCVMMUInvocation sv39 null_cspace vspace_state RISCVPageTableMap 2 0
       0xFFFFFFFF87000060 new_pt_cap root_extra_caps (map_args 0x80000000)"

text \<open>
  The same invocation at \<open>0x40200000\<close>: the root's entry points to the level-2 table,
  and that table's entry for the address is empty.
\<close>

definition map_new_pt_deep_result :: "kernel_halt + (exception_t \<times> kernel_state)" where
  "map_new_pt_deep_result =
     decodeRISCVMMUInvocation sv39 null_cspace vspace_state RISCVPageTableMap 2 0
       0xFFFFFFFF87000060 new_pt_cap root_extra_caps (map_args 0x40200000)"

text \<open>
  A state whose ASID table and memory have no zero word, and the same state with entry 0
  of the pool at \<open>0xFFFFFFFF86000000\<close> free. The capabilities of the ASID control and of
  the pools with base 0 and 512 at that address.
\<close>

definition full_state :: kernel_state where
  "full_state =
     empty_state\<lparr>ksMem := (\<lambda>a. 1), riscvKSASIDTable := (\<lambda>i. 0xFFFFFFFF86000000)\<rparr>"

definition slot0_free_mem :: "machine_word \<Rightarrow> machine_word" where
  "slot0_free_mem a = (if a = 0xFFFFFFFF86000000 then 0 else 1)"

definition slot0_free_state :: kernel_state where
  "slot0_free_state = full_state\<lparr>ksMem := slot0_free_mem\<rparr>"

definition asid_control_cap :: cap_t where
  "asid_control_cap = null_cap\<lparr>capType := cap_asid_control_cap\<rparr>"

definition two_extra_caps :: extra_caps where
  "two_extra_caps =
     \<lparr>excaprefs = (\<lambda>i. if i = 0 then 0xFFFFFFFF87000060 else
                         if i = 1 then 0xFFFFFFFF87000080 else 0)\<rparr>"

text \<open>A kernel image that was never switched to.\<close>

definition fresh_image :: kernel_image where
  "fresh_image = \<lparr>kiRoot = 0xFFFFFFFF85000000, kiASID = 1, kiStackInitted = False\<rparr>"

text \<open>
  A state with two words on the kernel stack, below the stack base; switching to the
  fresh image with the stack pointer two words, and one word, below the base.
\<close>

definition stack_mem :: "machine_word \<Rightarrow> machine_word" where
  "stack_mem a =
     (if a = 0xFFFFFFFF840FFFF8 then 0xAAAA else if a = 0xFFFFFFFF840FFFF0 then 0xBBBB else 0)"

definition stack_state :: kernel_state where
  "stack_state = empty_state\<lparr>ksMem := stack_mem\<rparr>"

definition switch_state :: "(kernel_image \<times> kernel_state) option \<Rightarrow> kernel_state" where
  "switch_state r = (case r of None \<Rightarrow> empty_state | Some (i, s) \<Rightarrow> s)"

definition switch_two_words :: "(kernel_image \<times> kernel_state) option" where
  "switch_two_words = Arch_setKernelImage sv39 stack_state 0xFFFFFFFF840FFFF0 fresh_image"

definition switch_one_word :: "(kernel_image \<times> kernel_state) option" where
  "switch_one_word = Arch_setKernelImage sv39 stack_state 0xFFFFFFFF840FFFF8 fresh_image"

section \<open>Predicates of the statements\<close>

text \<open>The addresses of the entries of the page table at \<open>pt\<close>; a table of zero entries.\<close>

definition pt_slots :: "riscv_config \<Rightarrow> machine_word \<Rightarrow> machine_word list" where
  "pt_slots cfg pt = map (\<lambda>i. ptr_add pt (of_nat i)) [0 ..< 2 ^ PT_INDEX_BITS cfg]"

definition pt_empty :: "riscv_config \<Rightarrow> kernel_state \<Rightarrow> machine_word \<Rightarrow> bool" where
  "pt_empty cfg s pt = list_all (\<lambda>a. ksMem s a = 0) (pt_slots cfg pt)"

text \<open>
  The path of a virtual address through the tables, written from the spec's words and
  without the walker: "starting at level 1, extract successive fixed-width index chunks
  from the virtual address (high-order bits first), index into the current table, ...
  dereference the entry (non-leaf) via the Address Translator and continue". The index
  chunk of a level is a quotient and remainder of the address; an entry is a pointer to
  the next table when its valid bit is set and its read, write and execute bits are clear
  (its low four bits are 0001); the table it points to is at its physical page number,
  the entry above bit 10, times the page size, translated by the kernel window's offset.
  \<open>path_slot_spec cfg s root v n\<close> is the address of the entry of level \<open>n + 1\<close> on the
  path of \<open>v\<close> from the table at \<open>root\<close>.
\<close>

definition index_chunk_spec :: "riscv_config \<Rightarrow> machine_word \<Rightarrow> nat \<Rightarrow> machine_word" where
  "index_chunk_spec cfg v level =
     word_of_nat
       ((unat v div 2 ^ (PT_INDEX_BITS cfg * (CONFIG_PT_LEVELS cfg - level) + 12))
          mod 2 ^ PT_INDEX_BITS cfg)"

definition table_pointer_spec :: "machine_word \<Rightarrow> bool" where
  "table_pointer_spec pte = (unat pte mod 16 = 1)"

definition next_table_spec :: "riscv_config \<Rightarrow> machine_word \<Rightarrow> machine_word" where
  "next_table_spec cfg pte = (pte div 1024) * 4096 + BASE_OFFSET cfg"

primrec path_slot_spec ::
  "riscv_config \<Rightarrow> kernel_state \<Rightarrow> machine_word \<Rightarrow> machine_word \<Rightarrow> nat \<Rightarrow> machine_word" where
  "path_slot_spec cfg s root v 0 = root + 8 * index_chunk_spec cfg v 1"
| "path_slot_spec cfg s root v (Suc n) =
     next_table_spec cfg (ksMem s (path_slot_spec cfg s root v n))
       + 8 * index_chunk_spec cfg v (n + 2)"

text \<open>
  The entry of level \<open>m + 1\<close> is the first absent one on the path of \<open>v\<close>: the entries of
  the levels above it are pointers to tables, it is all-zero, and it lies above the
  deepest level.
\<close>

definition first_absent_spec ::
  "riscv_config \<Rightarrow> kernel_state \<Rightarrow> machine_word \<Rightarrow> machine_word \<Rightarrow> nat \<Rightarrow> bool" where
  "first_absent_spec cfg s root v m =
     (m + 2 \<le> CONFIG_PT_LEVELS cfg \<and>
      list_all (\<lambda>k. table_pointer_spec (ksMem s (path_slot_spec cfg s root v k))) [0 ..< m] \<and>
      ksMem s (path_slot_spec cfg s root v m) = 0)"

text \<open>Every entry of the ASID table is taken.\<close>

definition pools_exhausted :: "riscv_config \<Rightarrow> kernel_state \<Rightarrow> bool" where
  "pools_exhausted cfg s =
     list_all (\<lambda>i. riscvKSASIDTable s (of_nat i) \<noteq> 0) [0 ..< nASIDPools cfg]"

text \<open>
  Entry \<open>i\<close> of the pool at \<open>pool\<close> with base \<open>asid\<close> cannot be handed out: it is taken, or
  it is the entry of ASID 0. The pool is exhausted when no entry can be handed out.
\<close>

definition asid_unusable :: "kernel_state \<Rightarrow> machine_word \<Rightarrow> machine_word \<Rightarrow> nat \<Rightarrow> bool" where
  "asid_unusable s asid pool i =
     (asid + of_nat i = 0 \<or> ksMem s (ptr_add pool (of_nat i)) \<noteq> 0)"

definition pool_exhausted ::
  "riscv_config \<Rightarrow> kernel_state \<Rightarrow> machine_word \<Rightarrow> machine_word \<Rightarrow> bool" where
  "pool_exhausted cfg s asid pool =
     list_all (asid_unusable s asid pool) [0 ..< 2 ^ asidLowBits cfg]"

text \<open>
  \<open>t\<close> is \<open>s\<close> but for the two error variables \<open>current_lookup_fault\<close> and
  \<open>current_syscall_error\<close>: every other part of the state is the same.
\<close>

definition errors_only :: "kernel_state \<Rightarrow> kernel_state \<Rightarrow> bool" where
  "errors_only s t =
     (ksMem t = ksMem s \<and> riscvKSASIDTable t = riscvKSASIDTable s \<and> ksCaps t = ksCaps s \<and>
      ksRegs t = ksRegs s \<and> ksCurThread t = ksCurThread s \<and>
      ksThreadState t = ksThreadState s \<and> sbadaddr t = sbadaddr s \<and>
      current_fault t = current_fault s \<and> ksEvents t = ksEvents s)"

section \<open>Theorems\<close>

subsection \<open>Bit-level facts\<close>

lemma MASK_eq: "MASK n = mask n"
  by (simp add: MASK_def mask_eq_decr_exp)

lemma unat_and_MASK: "unat (w AND MASK n) = unat w mod 2 ^ n"
  by (simp only: MASK_eq take_bit_eq_mask [symmetric] unsigned_take_bit_eq)
     (simp only: take_bit_eq_mod)

lemma unat_drop: "unat (drop_bit n (w::machine_word)) = unat w div 2 ^ n"
  by (simp only: unat_drop_bit_eq) (simp only: drop_bit_eq_div)

lemma asid_split:
  "drop_bit n (asid::machine_word) = word_of_nat (unat asid div 2 ^ n)"
  "asid AND MASK n = word_of_nat (unat asid mod 2 ^ n)"
  by (simp_all only: unat_drop [symmetric] unat_and_MASK [symmetric] of_nat_unat ucast_id)

subsection \<open>Resolving an ASID\<close>

text \<open>
  C7. \<open>findVSpaceForASID\<close> splits the ASID into the pool index (the ASID divided by
  \<open>2 ^ asidLowBits\<close>) and the slot index (the remainder). A null entry of the ASID table at
  the pool index gives a lookup fault "invalid root"; otherwise a null entry of the pool's
  array at the slot index gives a lookup fault "missing capability" sized to the level-1
  granularity \<open>PT_INDEX_BITS * (CONFIG_PT_LEVELS - 1) + 12\<close>; otherwise the stored root is
  returned with no error and the state is untouched.
\<close>

theorem findVSpaceForASID_resolve:
  "findVSpaceForASID cfg s asid =
     (let poolIndex = word_of_nat (unat asid div 2 ^ asidLowBits cfg);
          slotIndex = word_of_nat (unat asid mod 2 ^ asidLowBits cfg);
          poolPtr = riscvKSASIDTable s poolIndex
      in if poolPtr = 0 then
           (\<lparr>fv_status = EXCEPTION_LOOKUP_FAULT, vspace_root = 0\<rparr>,
            s\<lparr>current_lookup_fault := lookup_fault_invalid_root_new\<rparr>)
         else if ksMem s (poolPtr + 8 * slotIndex) = 0 then
           (\<lparr>fv_status = EXCEPTION_LOOKUP_FAULT, vspace_root = 0\<rparr>,
            s\<lparr>current_lookup_fault := lookup_fault_missing_capability_new
                 (PT_INDEX_BITS cfg * (CONFIG_PT_LEVELS cfg - 1) + 12)\<rparr>)
         else
           (\<lparr>fv_status = EXCEPTION_NONE, vspace_root = ksMem s (poolPtr + 8 * slotIndex)\<rparr>, s))"
  unfolding findVSpaceForASID_def asid_split ptr_add_def RISCV_GET_LVL_PGSIZE_BITS_def
    RISCV_4K_PageBits_def Let_def
  by simp

subsection \<open>Masking access rights\<close>

text \<open>
  C10. \<open>maskVMRights\<close> never escalates access: the rights it returns allow a read only if
  the rights it was given allowed one, and a write only if they allowed one (read and write
  as \<open>RISCVGetReadFromVMRights\<close> and \<open>RISCVGetWriteFromVMRights\<close> decide them);
  \<open>VMNoAccess\<close> and \<open>VMKernelOnly\<close> are returned unchanged for every mask.
\<close>

theorem maskVMRights_no_escalation:
  "(RISCVGetReadFromVMRights (maskVMRights vm_rights cap_rights_mask)
      \<longrightarrow> RISCVGetReadFromVMRights vm_rights) \<and>
   (RISCVGetWriteFromVMRights (maskVMRights vm_rights cap_rights_mask)
      \<longrightarrow> RISCVGetWriteFromVMRights vm_rights) \<and>
   maskVMRights VMNoAccess cap_rights_mask = VMNoAccess \<and>
   maskVMRights VMKernelOnly cap_rights_mask = VMKernelOnly"
  by (cases vm_rights)
     (simp_all add: maskVMRights_def RISCVGetReadFromVMRights_def RISCVGetWriteFromVMRights_def)

theorem maskVMRights_no_escalation_witness:
  "RISCVGetReadFromVMRights
     (maskVMRights VMReadWrite \<lparr>capAllowRead = True, capAllowWrite = False, capAllowGrant = False\<rparr>) \<and>
   RISCVGetReadFromVMRights VMReadWrite \<and>
   \<not> RISCVGetWriteFromVMRights
     (maskVMRights VMReadWrite \<lparr>capAllowRead = True, capAllowWrite = False, capAllowGrant = False\<rparr>) \<and>
   maskVMRights VMNoAccess \<lparr>capAllowRead = True, capAllowWrite = False, capAllowGrant = False\<rparr>
     = VMNoAccess"
  using maskVMRights_no_escalation
    [of VMReadWrite "\<lparr>capAllowRead = True, capAllowWrite = False, capAllowGrant = False\<rparr>"]
  by (simp add: maskVMRights_def RISCVGetReadFromVMRights_def RISCVGetWriteFromVMRights_def)

subsection \<open>The Sv39 configuration evaluated\<close>

lemma sv39_simps:
  "CONFIG_PT_LEVELS sv39 = 3" "PT_INDEX_BITS sv39 = 9" "asidLowBits sv39 = 9"
  "nASIDPools sv39 = 128" "kernelBase sv39 = 0xFFFFFFFF80000000"
  "BASE_OFFSET sv39 = 0xFFFFFFFF00000000" "pageBitsForSize sv39 = sv39_pageBits"
  "RISCVpageAtPTLevel sv39 = sv39_pageLevel" "n_msgRegisters sv39 = 4"
  by (simp_all add: sv39_def)

lemma sv39_pgsize_bits: "RISCV_GET_LVL_PGSIZE_BITS sv39 n = 9 * (3 - n) + 12"
  by (simp add: RISCV_GET_LVL_PGSIZE_BITS_def sv39_simps RISCV_4K_PageBits_def)

lemma sv39_pt_index: "RISCV_GET_PT_INDEX sv39 v n = drop_bit (9 * (3 - n) + 12) v AND 511"
  by (simp add: RISCV_GET_PT_INDEX_def sv39_pgsize_bits sv39_simps MASK_def)

subsection \<open>Walking an empty root\<close>

lemma pt_index_slot:
  "ptr_add pt (RISCV_GET_PT_INDEX cfg v n) \<in> set (pt_slots cfg pt)"
proof -
  let ?x = "RISCV_GET_PT_INDEX cfg v n"
  have "unat ?x < 2 ^ PT_INDEX_BITS cfg"
    by (simp add: RISCV_GET_PT_INDEX_def unat_and_MASK)
  moreover have "ptr_add pt (of_nat (unat ?x)) = ptr_add pt ?x"
    by simp
  ultimately show ?thesis
    unfolding pt_slots_def
    by (metis (no_types, lifting) atLeastLessThan_iff image_eqI set_map set_upt zero_le)
qed

lemma pt_empty_index:
  "pt_empty cfg s pt \<Longrightarrow> ksMem s (ptr_add pt (RISCV_GET_PT_INDEX cfg v n)) = 0"
  using pt_index_slot [of pt cfg v n] by (simp add: pt_empty_def list_all_iff)

text \<open>
  C2, as amended. Let the root be non-null with all its entries zero. For every virtual
  address and every target level from 2 up to \<open>CONFIG_PT_LEVELS\<close>, \<open>lookupPTSlot\<close> fails
  with a missing-capability lookup fault whose size is the page granularity of level 1,
  the level of the walk at which the absent entry was found (it is the root's entry, and
  the missing level is 2), whatever the target level is. A walk to level 1 or 0 reads no
  entry and returns the root's slot with no error.
\<close>

theorem lookupPTSlot_empty_root:
  assumes "lvl1pt \<noteq> 0" and "pt_empty cfg s lvl1pt" and "ptLevel \<le> CONFIG_PT_LEVELS cfg"
  shows "lookupPTSlot cfg s lvl1pt vptr ptLevel =
     (if 2 \<le> ptLevel then
        Inr (\<lparr>status = EXCEPTION_LOOKUP_FAULT,
              ptSlot = Some (ptr_add lvl1pt (RISCV_GET_PT_INDEX cfg vptr 1)),
              missingPTLevel = Some 2\<rparr>,
             s\<lparr>current_lookup_fault :=
                  lookup_fault_missing_capability_new (RISCV_GET_LVL_PGSIZE_BITS cfg 1)\<rparr>)
      else
        Inr (\<lparr>status = EXCEPTION_NONE,
              ptSlot = Some (ptr_add lvl1pt (RISCV_GET_PT_INDEX cfg vptr 1)),
              missingPTLevel = None\<rparr>, s))"
  using assms pt_empty_index [OF assms(2), of vptr 1]
  by (simp add: lookupPTSlot_def lookupPTSlot_loop.simps [of cfg s vptr ptLevel 2])

theorem lookupPTSlot_empty_root_witness:
  "lookupPTSlot sv39 empty_state 0xFFFFFFFF85000000 0x40201000 3 =
     Inr (\<lparr>status = EXCEPTION_LOOKUP_FAULT, ptSlot = Some 0xFFFFFFFF85000008,
           missingPTLevel = Some 2\<rparr>,
          empty_state\<lparr>current_lookup_fault := lookup_fault_missing_capability_new 30\<rparr>)"
proof -
  have e: "pt_empty sv39 empty_state 0xFFFFFFFF85000000"
    by (simp add: pt_empty_def list_all_iff empty_state_def)
  have l: "(3::nat) \<le> CONFIG_PT_LEVELS sv39"
    by (simp add: sv39_simps)
  show ?thesis
    using lookupPTSlot_empty_root [OF _ e l, of "0x40201000"]
    by (simp add: sv39_pt_index sv39_pgsize_bits ptr_add_def drop_bit_eq_div)
qed

text \<open>
  The claim as stated fails on the empty Sv39 root: a walk to level 1 does not fail, and a
  walk to level 3 faults with size 30, the granularity of level 1, not with the
  granularity 12 of level 3.
\<close>

theorem lookupPTSlot_empty_root_counterexample:
  "lookupPTSlot sv39 empty_state 0xFFFFFFFF85000000 0x40201000 1 =
     Inr (\<lparr>status = EXCEPTION_NONE, ptSlot = Some 0xFFFFFFFF85000008,
           missingPTLevel = None\<rparr>, empty_state) \<and>
   lookupPTSlot sv39 empty_state 0xFFFFFFFF85000000 0x40201000 3 =
     Inr (\<lparr>status = EXCEPTION_LOOKUP_FAULT, ptSlot = Some 0xFFFFFFFF85000008,
           missingPTLevel = Some 2\<rparr>,
          empty_state\<lparr>current_lookup_fault := lookup_fault_missing_capability_new 30\<rparr>) \<and>
   RISCV_GET_LVL_PGSIZE_BITS sv39 3 = 12"
proof -
  have m: "ksMem empty_state a = 0" for a
    by (simp add: empty_state_def)
  show ?thesis
    by (simp add: lookupPTSlot_def lookupPTSlot_loop.simps [of _ _ _ _ 2] m sv39_simps
        sv39_pt_index sv39_pgsize_bits ptr_add_def drop_bit_eq_div)
qed

subsection \<open>Translating VM faults\<close>

text \<open>
  C4, as amended. For every thread and trap cause, \<open>handleVMFault\<close> returns a load-access
  fault for the two load causes, a store-access fault for the two store causes and an
  instruction-access fault for the two instruction causes, each carrying the address read
  from \<open>sbadaddr\<close>. For an instruction fault only, the thread's \<open>NEXTPC\<close> register is
  first set to the value of its \<open>SEPC\<close> register, the address of the faulting
  instruction itself (the thread restarts at that instruction); load and store faults
  leave every register unchanged. Any other trap cause stops the kernel.
\<close>

theorem handleVMFault_translation:
  "handleVMFault s thread vm_faultType =
     (if vm_faultType \<in> {RISCVLoadPageFault, RISCVLoadAccessFault} then
        Inr (EXCEPTION_FAULT,
             s\<lparr>current_fault :=
                  seL4_Fault_VMFault_new (sbadaddr s) RISCVLoadAccessFault False\<rparr>)
      else if vm_faultType \<in> {RISCVStorePageFault, RISCVStoreAccessFault} then
        Inr (EXCEPTION_FAULT,
             s\<lparr>current_fault :=
                  seL4_Fault_VMFault_new (sbadaddr s) RISCVStoreAccessFault False\<rparr>)
      else if vm_faultType \<in> {RISCVInstructionPageFault, RISCVInstructionAccessFault} then
        Inr (EXCEPTION_FAULT,
             s\<lparr>ksRegs := (ksRegs s)(thread := (ksRegs s thread)(NEXTPC := ksRegs s thread SEPC)),
               current_fault :=
                 seL4_Fault_VMFault_new (sbadaddr s) RISCVInstructionAccessFault True\<rparr>)
      else Inl KernelFail)"
  by (simp add: handleVMFault_def setRegister_def getRegister_def Let_def)

text \<open>
  The claim as stated fails: after an instruction page fault at \<open>0x10000\<close> the thread's
  \<open>NEXTPC\<close> is \<open>0x10000\<close>, the faulting instruction, not an address past it.
\<close>

theorem handleVMFault_counterexample:
  "handleVMFault fault_state 0 RISCVInstructionPageFault =
     Inr (EXCEPTION_FAULT,
          fault_state\<lparr>ksRegs := (ksRegs fault_state)(0 := (ksRegs fault_state 0)(NEXTPC := 0x10000)),
            current_fault :=
              seL4_Fault_VMFault_new 0x10000 RISCVInstructionAccessFault True\<rparr>) \<and>
   getRegister fault_state 0 SEPC = 0x10000 \<and>
   getRegister fault_state 0 NEXTPC = 0"
  by (simp add: handleVMFault_def setRegister_def getRegister_def Let_def fault_state_def
      fault_regs_def RISCVInstructionPageFault_def RISCVLoadPageFault_def
      RISCVLoadAccessFault_def RISCVStorePageFault_def RISCVStoreAccessFault_def)

subsection \<open>The small address space evaluated\<close>

lemma vspace_fields:
  "ksMem vspace_state = vspace_mem"
  "riscvKSASIDTable vspace_state = (\<lambda>i. if i = 0 then 0xFFFFFFFF86000000 else 0)"
  "ksCaps vspace_state = vspace_caps" "ksCurThread vspace_state = 0"
  "ksEvents vspace_state = []"
  by (simp_all add: vspace_state_def empty_state_def)

lemma vspace_find:
  "findVSpaceForASID sv39 vspace_state 1 =
     (\<lparr>fv_status = EXCEPTION_NONE, vspace_root = 0xFFFFFFFF85000000\<rparr>, vspace_state)"
  by (simp add: findVSpaceForASID_def vspace_fields vspace_mem_def
     sv39_simps MASK_def ptr_add_def drop_bit_eq_div Let_def)

lemma vspace_root_is_root: "isVTableRoot sv39 vspace_state root_cap = (True, vspace_state)"
  by (simp add: isVTableRoot_def root_cap_def null_cap_def vspace_find)

lemma vspace_level2_not_root: "isVTableRoot sv39 vspace_state level2_cap = (False, vspace_state)"
  by (simp add: isVTableRoot_def level2_cap_def null_cap_def vspace_find)

lemma vspace_walk3:
  "lookupPTSlot sv39 vspace_state 0xFFFFFFFF85000000 0x40000000 3 =
     Inr (\<lparr>status = EXCEPTION_NONE, ptSlot = Some 0xFFFFFFFF85002000, missingPTLevel = None\<rparr>,
          vspace_state)"
  by (simp add: lookupPTSlot_def lookupPTSlot_loop.simps getPPtrFromHWPTE_def
      isValidHWPageTable_def ptrFromPAddr_def
      vspace_fields vspace_mem_def sv39_simps sv39_pt_index ptr_add_def drop_bit_eq_div
      push_bit_eq_mult PTE_PPN_SHIFT_def seL4_PageTableBits_def)

lemma first_map:
  "first_map_result =
   Inr (performPageInvocationMapPTE (setThreadState vspace_state 0 ThreadState_Restart)
          (frame_cap\<lparr>capFMappedASID := 1, capFMappedAddress := 0x40000000\<rparr>)
          0xFFFFFFFF87000040 0x21400CDF \<lparr>base = 0xFFFFFFFF85002000, length_range = 1\<rparr>)"
proof -
  have fc: "capType frame_cap = cap_frame_cap" "capFMappedASID frame_cap = 0"
    "capFSize frame_cap = RISCV_4K_Page" "capFVMRights frame_cap = VMReadWrite"
    "capFBasePtr frame_cap = 0xFFFFFFFF85003000"
    by (simp_all add: frame_cap_def null_cap_def)
  have rc: "vspace_caps 0xFFFFFFFF87000020 = root_cap"
    by (simp add: vspace_caps_def)
  have rf: "capType root_cap = cap_page_table_cap" "capPTMappedASID root_cap = 1"
    "capPTBasePtr root_cap = 0xFFFFFFFF85000000"
    by (simp_all add: root_cap_def null_cap_def)
  have pte: "makeUserPTE 0x85003000 True VMReadWrite = 0x21400CDF"
    by (simp add: makeUserPTE_def pte_new_def RISCVGetUserFromVMRights_def
        RISCVGetWriteFromVMRights_def RISCVGetReadFromVMRights_def PTE_PPN_SHIFT_def
        RISCV_4K_PageBits_def drop_bit_eq_div push_bit_eq_mult)
  show ?thesis
    by (simp add: first_map_result_def decodeRISCVMMUInvocation_def decodeRISCVFrameInvocation_def
        decodeRISCVPageMap_def createSafeMappingEntries_PTE_def bindE_def
        fc rc rf vspace_fields vspace_root_is_root vspace_walk3 vspace_find pte
        root_extra_caps_def map_args_def getSyscallArg_def unlikely_def asidInvalid_def
        sv39_simps sv39_pageBits_def sv39_pageLevel_def BIT_def MASK_def
        checkVPAlignment_def addrFromPPtr_def vmAttributesFromWord_def
        vm_attributes_get_riscvExecuteNever_def rightsFromWord_def maskVMRights_def
        Let_def)
qed

lemma first_map_cap:
  "ksCaps (result_state first_map_result) 0xFFFFFFFF87000040 =
     frame_cap\<lparr>capFMappedASID := 1, capFMappedAddress := 0x40000000\<rparr>"
  by (simp add: first_map result_state_def performPageInvocationMapPTE_def updatePTE_def
      sfence_vma_def setThreadState_def)

subsection \<open>Mapping a mapped frame at a second address\<close>

text \<open>
  C6. A \<open>PageMap\<close> invocation (a message of at least three words with its root
  capability) on a frame capability whose mapped ASID is valid, naming a virtual address
  other than the capability's mapped address, fails in the decode with the error
  \<open>InvalidCapability\<close> for capability 0 and changes nothing else. The witness maps the
  frame of the small address space at \<open>0x40000000\<close> and then, with the capability the
  first call left in the slot, at \<open>0x40001000\<close>: the second call fails so.
\<close>

theorem PageMap_second_address_rejected:
  assumes "capType cap = cap_frame_cap"
    and "3 \<le> len" and "excaprefs extraCaps 0 \<noteq> 0"
    and "capFMappedASID cap \<noteq> asidInvalid"
    and "capFMappedAddress cap \<noteq> getSyscallArg 0 buffer"
  shows "decodeRISCVMMUInvocation cfg cs s RISCVPageMap len cptr cte cap extraCaps buffer =
     Inr (EXCEPTION_SYSCALL_ERROR,
          s\<lparr>current_syscall_error :=
               (current_syscall_error s)
                 \<lparr>error_type := seL4_InvalidCapability, invalidCapNumber := 0\<rparr>\<rparr>)"
  using assms
  by (simp add: decodeRISCVMMUInvocation_def decodeRISCVFrameInvocation_def
      decodeRISCVPageMap_def unlikely_def asidInvalid_def set_invalidCapNumber_def
      set_error_type_def Let_def)

theorem PageMap_second_address_rejected_witness:
  "map_sum id fst first_map_result = Inr EXCEPTION_NONE \<and>
   decodeRISCVMMUInvocation sv39 null_cspace (result_state first_map_result) RISCVPageMap 3 0
     0xFFFFFFFF87000040 (ksCaps (result_state first_map_result) 0xFFFFFFFF87000040)
     root_extra_caps (map_args 0x40001000) =
   Inr (EXCEPTION_SYSCALL_ERROR,
        (result_state first_map_result)\<lparr>current_syscall_error :=
           (current_syscall_error (result_state first_map_result))
             \<lparr>error_type := seL4_InvalidCapability, invalidCapNumber := 0\<rparr>\<rparr>)"
proof -
  have ok: "map_sum id fst first_map_result = Inr EXCEPTION_NONE"
    by (simp add: first_map performPageInvocationMapPTE_def updatePTE_def)
  have c: "capType (ksCaps (result_state first_map_result) 0xFFFFFFFF87000040) = cap_frame_cap"
    "capFMappedASID (ksCaps (result_state first_map_result) 0xFFFFFFFF87000040) \<noteq> asidInvalid"
    "capFMappedAddress (ksCaps (result_state first_map_result) 0xFFFFFFFF87000040)
       \<noteq> getSyscallArg 0 (map_args 0x40001000)"
    by (simp_all add: first_map_cap frame_cap_def null_cap_def asidInvalid_def
        getSyscallArg_def map_args_def)
  have e: "excaprefs root_extra_caps 0 \<noteq> 0"
    by (simp add: root_extra_caps_def)
  show ?thesis
    using ok PageMap_second_address_rejected [OF c(1) _ e c(2) c(3), of 3]
    by simp
qed

subsection \<open>Unmapping a page table\<close>

lemma level2_fields:
  "capType level2_cap = cap_page_table_cap" "capPTMappedASID level2_cap = 1"
  "capPTBasePtr level2_cap = 0xFFFFFFFF85001000" "capPTIsMapped level2_cap"
  "capPTMappedAddress level2_cap = 0x40000000"
  by (simp_all add: level2_cap_def null_cap_def)

lemma thread_state_find:
  "findVSpaceForASID cfg (setThreadState s t ts) asid =
     (fst (findVSpaceForASID cfg s asid), setThreadState (snd (findVSpaceForASID cfg s asid)) t ts)"
  by (simp add: findVSpaceForASID_def setThreadState_def Let_def)

lemma vspace_parent_lookup:
  "lookupPageTableLevelSlot sv39 (setThreadState vspace_state 0 ThreadState_Restart) 1 0x40000000 0xFFFFFFFF85001000 =
     Inr (\<lparr>status = EXCEPTION_NONE, ptSlot = Some 0xFFFFFFFF85001008, missingPTLevel = None\<rparr>,
          setThreadState vspace_state 0 ThreadState_Restart)"
proof -
  have m: "ksMem (setThreadState vspace_state 0 ThreadState_Restart) = vspace_mem"
    by (simp add: setThreadState_def vspace_fields)
  show ?thesis
  by (simp add: lookupPageTableLevelSlot_def lookupPageTableLevelSlot_loop.simps bindE_def
      thread_state_find vspace_find getPPtrFromHWPTE_def isValidHWPageTable_def ptrFromPAddr_def
      m vspace_mem_def sv39_simps sv39_pt_index ptr_add_def drop_bit_eq_div
      push_bit_eq_mult PTE_PPN_SHIFT_def seL4_PageTableBits_def)
qed

lemma unmap_level2:
  "unmap_level2_result =
     Inr (EXCEPTION_NONE,
          (clearMemory (setThreadState vspace_state 0 ThreadState_Restart) 0xFFFFFFFF85001000 12)
            \<lparr>ksCaps := vspace_caps(0xFFFFFFFF87000000 := level2_cap\<lparr>capPTIsMapped := False\<rparr>)\<rparr>)"
  by (simp add: unmap_level2_result_def decodeRISCVMMUInvocation_def
      decodeRISCVPageTableInvocation_def level2_fields vspace_level2_not_root vspace_fields
      performPageTableInvocationUnmap_def unmapPageTable_def vspace_parent_lookup bindE_def
      RISCV_4K_PageBits_def)
     (simp add: clearMemory_def setThreadState_def vspace_fields vspace_caps_def)

text \<open>
  Whenever \<open>lookupPageTableLevelSlot\<close> finds the parent slot of the table,
  \<open>unmapPageTable\<close> returns the state it was given: it clears nothing and issues no
  \<open>sfence.vma\<close>.
\<close>

lemma unmapPageTable_found:
  assumes "lookupPageTableLevelSlot cfg s asid vaddr pt = Inr (r, t)"
    and "status r = EXCEPTION_NONE"
  shows "unmapPageTable cfg s asid vaddr pt = Inr s"
proof -
  from assms have "t = s"
    by (auto simp: lookupPageTableLevelSlot_def findVSpaceForASID_def bindE_def Let_def
        split: prod.splits if_splits sum.splits)
  with assms show ?thesis
    by (simp add: unmapPageTable_def bindE_def)
qed

text \<open>
  C1 does not hold of the code. \<open>unmapPageTable\<close> clears the slot that
  \<open>lookupPageTableLevelSlot\<close> returns only when that lookup \<^emph>\<open>failed\<close>. In the small
  address space the level-2 table is mapped at \<open>0x40000000\<close> through entry 1 of the root;
  \<open>PageTableUnmap\<close> on its capability succeeds, marks the capability unmapped and zeroes
  the table, but the root's entry still holds the pointer \<open>0x214004C1\<close>, no \<open>sfence.vma\<close>
  was issued, and a walk to level 2 at \<open>0x40000000\<close> succeeds instead of reporting a
  missing capability.
\<close>

theorem PageTableUnmap_keeps_parent_entry:
  "map_sum id fst unmap_level2_result = Inr EXCEPTION_NONE \<and>
   ksMem vspace_state 0xFFFFFFFF85000008 = 0x214004C1 \<and>
   ksMem (result_state unmap_level2_result) 0xFFFFFFFF85000008 = 0x214004C1 \<and>
   ksEvents (result_state unmap_level2_result) = [] \<and>
   capPTIsMapped (ksCaps (result_state unmap_level2_result) 0xFFFFFFFF87000000) = False \<and>
   map_sum id fst
     (lookupPTSlot sv39 (result_state unmap_level2_result) 0xFFFFFFFF85000000 0x40000000 2) =
     Inr \<lparr>status = EXCEPTION_NONE, ptSlot = Some 0xFFFFFFFF85001000, missingPTLevel = None\<rparr>"
proof -
  have m: "ksMem (result_state unmap_level2_result) 0xFFFFFFFF85000008 = 0x214004C1"
    by (simp add: unmap_level2 result_state_def clearMemory_def setThreadState_def
        vspace_fields vspace_mem_def BIT_def)
  show ?thesis
    by (simp add: m vspace_fields lookupPTSlot_def lookupPTSlot_loop.simps getPPtrFromHWPTE_def
      isValidHWPageTable_def ptrFromPAddr_def sv39_simps sv39_pt_index ptr_add_def drop_bit_eq_div
      push_bit_eq_mult PTE_PPN_SHIFT_def seL4_PageTableBits_def)
     (simp add: unmap_level2 result_state_def clearMemory_def setThreadState_def
        vspace_fields vspace_mem_def)
qed

subsection \<open>Scanning for a free ASID pool and a free ASID\<close>

lemma find_free_pool_scan:
  "i \<le> nASIDPools cfg \<Longrightarrow>
   i \<le> find_free_pool cfg s i \<and> find_free_pool cfg s i \<le> nASIDPools cfg \<and>
   (\<forall>j. i \<le> j \<and> j < find_free_pool cfg s i \<longrightarrow> riscvKSASIDTable s (of_nat j) \<noteq> 0) \<and>
   (find_free_pool cfg s i < nASIDPools cfg \<longrightarrow>
      riscvKSASIDTable s (of_nat (find_free_pool cfg s i)) = 0)"
proof (induction cfg s i rule: find_free_pool.induct)
  case (1 cfg s i)
  show ?case
  proof (cases "i < nASIDPools cfg \<and> riscvKSASIDTable s (of_nat i) \<noteq> 0")
    case True
    then have r: "find_free_pool cfg s i = find_free_pool cfg s (i + 1)"
      by (subst find_free_pool.simps) simp
    from True have le: "i + 1 \<le> nASIDPools cfg" by simp
    have sp: "j = i \<or> i + 1 \<le> j" if "i \<le> j" for j
      using that by arith
    from "1.IH" [OF True le] True show ?thesis
      unfolding r by (auto dest!: sp)
  next
    case False
    then have r: "find_free_pool cfg s i = i"
      by (subst find_free_pool.simps) auto
    from False "1.prems" show ?thesis
      unfolding r by auto
  qed
qed

lemma find_free_asid_scan:
  "i \<le> 2 ^ asidLowBits cfg \<Longrightarrow>
   i \<le> find_free_asid cfg s asid pool i \<and> find_free_asid cfg s asid pool i \<le> 2 ^ asidLowBits cfg \<and>
   (\<forall>j. i \<le> j \<and> j < find_free_asid cfg s asid pool i \<longrightarrow> asid_unusable s asid pool j) \<and>
   (find_free_asid cfg s asid pool i < 2 ^ asidLowBits cfg \<longrightarrow>
      \<not> asid_unusable s asid pool (find_free_asid cfg s asid pool i))"
proof (induction cfg s asid pool i rule: find_free_asid.induct)
  case (1 cfg s asid pool i)
  show ?case
  proof (cases "i < 2 ^ asidLowBits cfg \<and> asid_unusable s asid pool i")
    case True
    then have r: "find_free_asid cfg s asid pool i = find_free_asid cfg s asid pool (i + 1)"
      by (subst find_free_asid.simps) (simp add: asid_unusable_def)
    from True have c: "i < 2 ^ asidLowBits cfg \<and>
         (asid + of_nat i = 0 \<or> ksMem s (ptr_add pool (of_nat i)) \<noteq> 0)"
      by (simp add: asid_unusable_def)
    from True have le: "i + 1 \<le> 2 ^ asidLowBits cfg" by simp
    have sp: "j = i \<or> i + 1 \<le> j" if "i \<le> j" for j
      using that by arith
    from "1.IH" [OF c le] True show ?thesis
      unfolding r by (auto dest!: sp)
  next
    case False
    then have r: "find_free_asid cfg s asid pool i = i"
      by (subst find_free_asid.simps) (auto simp: asid_unusable_def)
    from False "1.prems" show ?thesis
      unfolding r by auto
  qed
qed

lemma find_free_pool_exhausted:
  "pools_exhausted cfg s \<Longrightarrow> find_free_pool cfg s 0 = nASIDPools cfg"
  using find_free_pool_scan [of 0 cfg s]
  by (auto simp: pools_exhausted_def list_all_iff) 

lemma find_free_asid_exhausted:
  "pool_exhausted cfg s asid pool \<Longrightarrow> find_free_asid cfg s asid pool 0 = 2 ^ asidLowBits cfg"
  using find_free_asid_scan [of 0 cfg s asid pool]
  by (auto simp: pool_exhausted_def list_all_iff)

lemma mult8_eq_0: "n < 2 ^ 61 \<Longrightarrow> (8 * word_of_nat n :: machine_word) = 0 \<longleftrightarrow> n = 0"
proof -
  assume n: "n < 2 ^ 61"
  have d: "(word_of_nat m :: machine_word) = 0 \<longleftrightarrow> 2 ^ 64 dvd m" for m
    by (simp add: word_of_nat_eq_0_iff)
  have "2 ^ 64 dvd 8 * n \<longleftrightarrow> n = 0"
  proof
    assume "2 ^ 64 dvd 8 * n"
    moreover from n have "8 * n < 2 ^ 64" by simp
    ultimately show "n = 0" using nat_dvd_not_less [of "8 * n" "2 ^ 64"] by auto
  qed simp
  with d [of "8 * n"] show ?thesis
    by simp
qed

lemma find_free_asid_found:
  "\<not> pool_exhausted cfg s asid pool \<Longrightarrow> find_free_asid cfg s asid pool 0 \<noteq> 2 ^ asidLowBits cfg"
  using find_free_asid_scan [of 0 cfg s asid pool]
  by (auto simp: pool_exhausted_def list_all_iff)

text \<open>
  C8, as amended. \<open>ASIDControlMakePool\<close> scans the ASID table linearly for the first
  empty pool slot. \<open>ASIDPoolAssign\<close> scans the target pool's array linearly for the first
  entry that is empty and whose ASID (the pool's base plus the index) is not 0: it skips
  slot 0 only in the pool whose base is 0, and hands out slot 0 of every other pool. When
  every pool slot is occupied, respectively when the pool has no such entry, the
  invocation fails in the decode with \<open>DeleteFirst\<close>; otherwise \<open>ASIDPoolAssign\<close> goes on
  to assign the ASID the scan found.
\<close>

theorem ASID_scans_and_exhaustion:
  "find_free_pool cfg s 0 \<le> nASIDPools cfg \<and>
   (\<forall>j. j < find_free_pool cfg s 0 \<longrightarrow> riscvKSASIDTable s (of_nat j) \<noteq> 0) \<and>
   (find_free_pool cfg s 0 < nASIDPools cfg \<longrightarrow>
      riscvKSASIDTable s (of_nat (find_free_pool cfg s 0)) = 0) \<and>
   find_free_asid cfg s asid pool 0 \<le> 2 ^ asidLowBits cfg \<and>
   (\<forall>j. j < find_free_asid cfg s asid pool 0 \<longrightarrow>
      asid + of_nat j = 0 \<or> ksMem s (ptr_add pool (of_nat j)) \<noteq> 0) \<and>
   (find_free_asid cfg s asid pool 0 < 2 ^ asidLowBits cfg \<longrightarrow>
      asid + of_nat (find_free_asid cfg s asid pool 0) \<noteq> 0 \<and>
      ksMem s (ptr_add pool (of_nat (find_free_asid cfg s asid pool 0))) = 0) \<and>
   (capType cap = cap_asid_control_cap \<and> 2 \<le> len \<and> excaprefs extraCaps 0 \<noteq> 0 \<and>
    excaprefs extraCaps 1 \<noteq> 0 \<and> pools_exhausted cfg s \<longrightarrow>
      decodeRISCVMMUInvocation cfg cs s RISCVASIDControlMakePool len cptr cte cap extraCaps buffer =
        Inr (EXCEPTION_SYSCALL_ERROR, set_error_type seL4_DeleteFirst s)) \<and>
   (capType cap = cap_asid_pool_cap \<and> excaprefs extraCaps 0 \<noteq> 0 \<and>
    capPTMappedASID (ksCaps s (excaprefs extraCaps 0)) = asidInvalid \<and>
    riscvKSASIDTable s (drop_bit (asidLowBits cfg) (capASIDBase cap)) = capASIDPool cap \<and>
    capASIDPool cap \<noteq> 0 \<longrightarrow>
      decodeRISCVMMUInvocation cfg cs s RISCVASIDPoolAssign len cptr cte cap extraCaps buffer =
        (if pool_exhausted cfg s (capASIDBase cap) (capASIDPool cap) then
           Inr (EXCEPTION_SYSCALL_ERROR, set_error_type seL4_DeleteFirst s)
         else
           Inr (performASIDPoolInvocation cfg
                  (setThreadState s (ksCurThread s) ThreadState_Restart)
                  (capASIDBase cap +
                     of_nat (find_free_asid cfg s (capASIDBase cap) (capASIDPool cap) 0))
                  (capASIDPool cap) (excaprefs extraCaps 0))))"
proof -
  have p: "find_free_pool cfg s 0 \<le> nASIDPools cfg \<and>
     (\<forall>j. j < find_free_pool cfg s 0 \<longrightarrow> riscvKSASIDTable s (of_nat j) \<noteq> 0) \<and>
     (find_free_pool cfg s 0 < nASIDPools cfg \<longrightarrow>
        riscvKSASIDTable s (of_nat (find_free_pool cfg s 0)) = 0)"
    using find_free_pool_scan [of 0 cfg s] by simp
  have a: "find_free_asid cfg s asid pool 0 \<le> 2 ^ asidLowBits cfg \<and>
     (\<forall>j. j < find_free_asid cfg s asid pool 0 \<longrightarrow>
        asid + of_nat j = 0 \<or> ksMem s (ptr_add pool (of_nat j)) \<noteq> 0) \<and>
     (find_free_asid cfg s asid pool 0 < 2 ^ asidLowBits cfg \<longrightarrow>
        asid + of_nat (find_free_asid cfg s asid pool 0) \<noteq> 0 \<and>
        ksMem s (ptr_add pool (of_nat (find_free_asid cfg s asid pool 0))) = 0)"
    using find_free_asid_scan [of 0 cfg s asid pool] by (simp add: asid_unusable_def)
  have c: "decodeRISCVMMUInvocation cfg cs s RISCVASIDControlMakePool len cptr cte cap extraCaps buffer =
        Inr (EXCEPTION_SYSCALL_ERROR, set_error_type seL4_DeleteFirst s)"
    if "capType cap = cap_asid_control_cap" "2 \<le> len" "excaprefs extraCaps 0 \<noteq> 0"
      "excaprefs extraCaps 1 \<noteq> 0" "pools_exhausted cfg s"
    using that
    by (simp add: decodeRISCVMMUInvocation_def decodeRISCVASIDControlInvocation_def
        find_free_pool_exhausted Let_def)
  have q: "decodeRISCVMMUInvocation cfg cs s RISCVASIDPoolAssign len cptr cte cap extraCaps buffer =
        (if pool_exhausted cfg s (capASIDBase cap) (capASIDPool cap) then
           Inr (EXCEPTION_SYSCALL_ERROR, set_error_type seL4_DeleteFirst s)
         else
           Inr (performASIDPoolInvocation cfg
                  (setThreadState s (ksCurThread s) ThreadState_Restart)
                  (capASIDBase cap +
                     of_nat (find_free_asid cfg s (capASIDBase cap) (capASIDPool cap) 0))
                  (capASIDPool cap) (excaprefs extraCaps 0)))"
    if "capType cap = cap_asid_pool_cap" "excaprefs extraCaps 0 \<noteq> 0"
      "capPTMappedASID (ksCaps s (excaprefs extraCaps 0)) = asidInvalid"
      "riscvKSASIDTable s (drop_bit (asidLowBits cfg) (capASIDBase cap)) = capASIDPool cap"
      "capASIDPool cap \<noteq> 0"
    using that
    by (simp add: decodeRISCVMMUInvocation_def decodeRISCVASIDPoolInvocation_def
        find_free_asid_exhausted find_free_asid_found Let_def)
  from p a c q show ?thesis
    by blast
qed

lemma full_state_fields:
  "ksMem full_state = (\<lambda>a. 1)" "riscvKSASIDTable full_state = (\<lambda>i. 0xFFFFFFFF86000000)"
  "ksCaps full_state = (\<lambda>p. null_cap)" "ksCurThread full_state = 0"
  by (simp_all add: full_state_def empty_state_def)

lemma slot0_free_fields:
  "ksMem slot0_free_state = slot0_free_mem"
  "riscvKSASIDTable slot0_free_state = (\<lambda>i. 0xFFFFFFFF86000000)"
  "ksCaps slot0_free_state = (\<lambda>p. null_cap)" "ksCurThread slot0_free_state = 0"
  by (simp_all add: slot0_free_state_def full_state_def empty_state_def)

theorem ASID_scans_and_exhaustion_witness:
  "decodeRISCVMMUInvocation sv39 null_cspace full_state RISCVASIDControlMakePool 2 0 0
     asid_control_cap two_extra_caps (map_args 0) =
     Inr (EXCEPTION_SYSCALL_ERROR, set_error_type seL4_DeleteFirst full_state) \<and>
   decodeRISCVMMUInvocation sv39 null_cspace full_state RISCVASIDPoolAssign 0 0 0
     (cap_asid_pool_cap_new 0 0xFFFFFFFF86000000) root_extra_caps (map_args 0) =
     Inr (EXCEPTION_SYSCALL_ERROR, set_error_type seL4_DeleteFirst full_state)"
proof -
  have pe: "pools_exhausted sv39 full_state"
    by (simp add: pools_exhausted_def list_all_iff full_state_fields)
  have ae: "pool_exhausted sv39 full_state 0 0xFFFFFFFF86000000"
    by (simp add: pool_exhausted_def list_all_iff asid_unusable_def full_state_fields)
  have "decodeRISCVMMUInvocation sv39 null_cspace full_state RISCVASIDControlMakePool 2 0 0
     asid_control_cap two_extra_caps (map_args 0) =
     Inr (EXCEPTION_SYSCALL_ERROR, set_error_type seL4_DeleteFirst full_state)"
    using pe ASID_scans_and_exhaustion [of sv39 full_state 0 0 asid_control_cap 2 two_extra_caps
        null_cspace 0 0 "map_args 0"]
    by (simp add: asid_control_cap_def null_cap_def two_extra_caps_def)
  moreover have "decodeRISCVMMUInvocation sv39 null_cspace full_state RISCVASIDPoolAssign 0 0 0
     (cap_asid_pool_cap_new 0 0xFFFFFFFF86000000) root_extra_caps (map_args 0) =
     Inr (EXCEPTION_SYSCALL_ERROR, set_error_type seL4_DeleteFirst full_state)"
    using ae ASID_scans_and_exhaustion [of sv39 full_state 0 0
        "cap_asid_pool_cap_new 0 0xFFFFFFFF86000000" 0 root_extra_caps null_cspace 0 0 "map_args 0"]
    by (simp add: cap_asid_pool_cap_new_def root_extra_caps_def full_state_fields null_cap_def
        asidInvalid_def)
  ultimately show ?thesis
    by simp
qed

text \<open>
  The claim as stated fails on a pool whose only free entry is slot 0. Skipping slot 0 the
  pool is exhausted (as it is when its base is 0), but with base 512 the scan stops at
  slot 0 and the invocation goes on to assign ASID 512 instead of failing with
  \<open>DeleteFirst\<close>.
\<close>

theorem ASIDPoolAssign_slot0_counterexample:
  "pool_exhausted sv39 slot0_free_state 0 0xFFFFFFFF86000000 \<and>
   find_free_asid sv39 slot0_free_state 512 0xFFFFFFFF86000000 0 = 0 \<and>
   decodeRISCVMMUInvocation sv39 null_cspace slot0_free_state RISCVASIDPoolAssign 0 0 0
     (cap_asid_pool_cap_new 512 0xFFFFFFFF86000000) root_extra_caps (map_args 0) =
     Inr (performASIDPoolInvocation sv39
            (setThreadState slot0_free_state 0 ThreadState_Restart)
            512 0xFFFFFFFF86000000 0xFFFFFFFF87000020) \<and>
   fst (performASIDPoolInvocation sv39
          (setThreadState slot0_free_state 0 ThreadState_Restart)
          512 0xFFFFFFFF86000000 0xFFFFFFFF87000020) = EXCEPTION_NONE"
proof -
  have z: "(8 * word_of_nat i :: machine_word) = 0 \<longleftrightarrow> i = 0" if "i < 512" for i
    using that mult8_eq_0 [of i] by simp
  have ex: "pool_exhausted sv39 slot0_free_state 0 0xFFFFFFFF86000000"
    by (auto simp: pool_exhausted_def list_all_iff asid_unusable_def slot0_free_fields
        slot0_free_mem_def ptr_add_def sv39_simps z)
  have sc: "find_free_asid sv39 slot0_free_state 512 0xFFFFFFFF86000000 0 = 0"
    by (simp add: find_free_asid.simps [of _ _ _ _ 0] slot0_free_fields slot0_free_mem_def
        ptr_add_def)
  have dec: "decodeRISCVMMUInvocation sv39 null_cspace slot0_free_state RISCVASIDPoolAssign 0 0 0
     (cap_asid_pool_cap_new 512 0xFFFFFFFF86000000) root_extra_caps (map_args 0) =
     Inr (performASIDPoolInvocation sv39
            (setThreadState slot0_free_state 0 ThreadState_Restart)
            512 0xFFFFFFFF86000000 0xFFFFFFFF87000020)"
    by (simp add: decodeRISCVMMUInvocation_def decodeRISCVASIDPoolInvocation_def sc
        cap_asid_pool_cap_new_def root_extra_caps_def slot0_free_fields null_cap_def
        asidInvalid_def sv39_simps Let_def)
  show ?thesis
    using ex sc dec by (simp add: performASIDPoolInvocation_def Let_def)
qed

subsection \<open>What the lookups leave of the state\<close>

lemma errors_only_refl: "errors_only s s"
  by (simp add: errors_only_def)

lemma errors_only_trans: "errors_only s t \<Longrightarrow> errors_only t u \<Longrightarrow> errors_only s u"
  by (simp add: errors_only_def)

lemma errors_only_setters:
  "errors_only s (set_error_type e t) = errors_only s t"
  "errors_only s (set_invalidCapNumber n t) = errors_only s t"
  "errors_only s (set_invalidArgumentNumber n t) = errors_only s t"
  "errors_only s (set_failedLookupWasSource b t) = errors_only s t"
  "errors_only s (t\<lparr>current_lookup_fault := f\<rparr>) = errors_only s t"
  "errors_only s (t\<lparr>current_syscall_error := c\<rparr>) = errors_only s t"
  by (simp_all add: errors_only_def set_error_type_def set_invalidCapNumber_def
      set_invalidArgumentNumber_def set_failedLookupWasSource_def)

lemma findVSpaceForASID_errors_only:
  "findVSpaceForASID cfg s asid = (r, t) \<Longrightarrow> errors_only s t"
  by (auto simp: findVSpaceForASID_def errors_only_def Let_def split: if_splits)

lemma findVSpaceForASID_cong:
  "errors_only s t \<Longrightarrow> fst (findVSpaceForASID cfg t asid) = fst (findVSpaceForASID cfg s asid)"
  by (simp add: findVSpaceForASID_def errors_only_def Let_def)

lemma isVTableRoot_errors_only:
  "isVTableRoot cfg s cap = (b, t) \<Longrightarrow> errors_only s t"
  by (auto simp: isVTableRoot_def split: prod.splits dest: findVSpaceForASID_errors_only)

lemma isVTableRoot_fst:
  "fst (isVTableRoot cfg s cap) =
     (capType cap = cap_page_table_cap \<and>
      fv_status (fst (findVSpaceForASID cfg s (capPTMappedASID cap))) = EXCEPTION_NONE \<and>
      capPTBasePtr cap = vspace_root (fst (findVSpaceForASID cfg s (capPTMappedASID cap))))"
  by (simp add: isVTableRoot_def case_prod_beta)

lemma isVTableRoot_cong:
  "errors_only s t \<Longrightarrow> fst (isVTableRoot cfg t cap) = fst (isVTableRoot cfg s cap)"
  by (simp add: isVTableRoot_fst findVSpaceForASID_cong)

lemma isValidNativeRoot_errors_only:
  "isValidNativeRoot cfg s cap = (b, t) \<Longrightarrow> errors_only s t"
  by (auto simp: isValidNativeRoot_def split: prod.splits dest: isVTableRoot_errors_only)

lemma isValidNativeRoot_fst:
  "fst (isValidNativeRoot cfg s cap) = (fst (isVTableRoot cfg s cap) \<and> capPTIsMapped cap)"
  by (simp add: isValidNativeRoot_def case_prod_beta)

lemma isValidNativeRoot_cong:
  "errors_only s t \<Longrightarrow> fst (isValidNativeRoot cfg t cap) = fst (isValidNativeRoot cfg s cap)"
  by (simp add: isValidNativeRoot_fst isVTableRoot_cong)

lemma getPPtrFromHWPTE_cong:
  "ksMem t = ksMem s \<Longrightarrow> getPPtrFromHWPTE cfg t p = getPPtrFromHWPTE cfg s p"
  by (simp add: getPPtrFromHWPTE_def isValidHWPageTable_def)

lemma lookupPTSlot_loop_errors_only:
  "lookupPTSlot_loop cfg s vptr ptLevel i slot = Inr (r, t) \<Longrightarrow> errors_only s t"
proof (induction cfg s vptr ptLevel i slot rule: lookupPTSlot_loop.induct)
  case (1 cfg s vptr ptLevel i slot)
  note eq = lookupPTSlot_loop.simps [of cfg s vptr ptLevel i slot]
  from "1.prems" [unfolded eq] "1.IH" show ?case
    by (auto simp: errors_only_refl errors_only_setters split: if_splits sum.splits)
qed

lemma lookupPTSlot_errors_only:
  "lookupPTSlot cfg s lvl1pt vptr ptLevel = Inr (r, t) \<Longrightarrow> errors_only s t"
  by (auto simp: lookupPTSlot_def errors_only_refl split: if_splits
      dest: lookupPTSlot_loop_errors_only)

lemma lookupPTSlot_loop_cong:
  "ksMem t = ksMem s \<Longrightarrow>
   map_sum id fst (lookupPTSlot_loop cfg t vptr ptLevel i slot) =
   map_sum id fst (lookupPTSlot_loop cfg s vptr ptLevel i slot)"
proof (induction cfg s vptr ptLevel i slot rule: lookupPTSlot_loop.induct)
  case (1 cfg s vptr ptLevel i slot)
  note eqs = lookupPTSlot_loop.simps [of cfg s vptr ptLevel i slot]
  note eqt = lookupPTSlot_loop.simps [of cfg t vptr ptLevel i slot]
  from "1.prems" "1.IH" getPPtrFromHWPTE_cong [OF "1.prems", of cfg slot] show ?case
    unfolding eqs eqt by (auto split: sum.splits)
qed

lemma lookupPTSlot_cong:
  "errors_only s t \<Longrightarrow>
   map_sum id fst (lookupPTSlot cfg t lvl1pt vptr ptLevel) =
   map_sum id fst (lookupPTSlot cfg s lvl1pt vptr ptLevel)"
  using lookupPTSlot_loop_cong [of t s cfg vptr ptLevel 2]
  by (simp add: lookupPTSlot_def errors_only_def)

subsection \<open>Decode failures\<close>

lemma createSafeMappingEntries_PTE_errors_only:
  "createSafeMappingEntries_PTE cfg s b v sz r a l = Inr (m, t) \<Longrightarrow> errors_only s t"
  by (auto simp: createSafeMappingEntries_PTE_def bindE_def Let_def errors_only_setters
      split: sum.splits if_splits option.splits dest!: lookupPTSlot_errors_only)

lemma perform_status:
  "performPageTableInvocationUnmap cfg s cap slot = Inr (e, t) \<Longrightarrow> e = EXCEPTION_NONE"
  "performPageInvocationUnmap cfg s cap slot = Inr (e, t) \<Longrightarrow> e = EXCEPTION_NONE"
  "performASIDControlInvocation cfg cs s frame slot parent asid_base = Inr (e, t)
     \<Longrightarrow> e = EXCEPTION_NONE"
  "fst (performPageTableInvocationMap s cap slot pte p) = EXCEPTION_NONE"
  "fst (performPageInvocationMapPTE s cap slot pte pr) = EXCEPTION_NONE"
  "fst (performPageInvocationRemapPTE s pte pr) = EXCEPTION_NONE"
  "fst (performPageGetAddress cfg s v) = EXCEPTION_NONE"
  "fst (performASIDPoolInvocation cfg s asid pool vs) = EXCEPTION_NONE"
  by (auto simp: performPageTableInvocationUnmap_def performPageInvocationUnmap_def
      performASIDControlInvocation_def performPageTableInvocationMap_def
      performPageInvocationMapPTE_def performPageInvocationRemapPTE_def updatePTE_def
      performPageGetAddress_def performASIDPoolInvocation_def bindE_def Let_def
      split: sum.splits if_splits)

lemma perform_not_error:
  "performPageTableInvocationMap s cap slot pte p \<noteq> (EXCEPTION_SYSCALL_ERROR, t)"
  "performPageInvocationMapPTE s cap slot pte pr \<noteq> (EXCEPTION_SYSCALL_ERROR, t)"
  "performPageInvocationRemapPTE s pte pr \<noteq> (EXCEPTION_SYSCALL_ERROR, t)"
  "performPageGetAddress cfg s v \<noteq> (EXCEPTION_SYSCALL_ERROR, t)"
  "performASIDPoolInvocation cfg s asid pool vs \<noteq> (EXCEPTION_SYSCALL_ERROR, t)"
  using perform_status(4) [of s cap slot pte p] perform_status(5) [of s cap slot pte pr]
    perform_status(6) [of s pte pr] perform_status(7) [of cfg s v]
    perform_status(8) [of cfg s asid pool vs]
  by (auto simp: fst_def split: prod.splits)

lemma decodeRISCVPageTableInvocation_error:
  "decodeRISCVPageTableInvocation cfg s label len cte cap extraCaps buffer =
     Inr (EXCEPTION_SYSCALL_ERROR, t) \<Longrightarrow> errors_only s t"
  apply (simp add: decodeRISCVPageTableInvocation_def Let_def bindE_def
      split: prod.splits if_splits sum.splits option.splits)
  apply (auto simp: errors_only_setters perform_not_error
      dest!: isVTableRoot_errors_only isValidNativeRoot_errors_only
        findVSpaceForASID_errors_only lookupPTSlot_errors_only perform_status(1))
  apply (simp_all add: errors_only_def)
  done

lemma decodeRISCVPageMap_error:
  "decodeRISCVPageMap cfg s len cte cap extraCaps buffer =
     Inr (EXCEPTION_SYSCALL_ERROR, t) \<Longrightarrow> errors_only s t"
  apply (simp add: decodeRISCVPageMap_def Let_def bindE_def
      split: prod.splits if_splits sum.splits option.splits)
  apply (auto simp: errors_only_setters perform_not_error errors_only_refl
      dest!: isVTableRoot_errors_only findVSpaceForASID_errors_only lookupPTSlot_errors_only
        createSafeMappingEntries_PTE_errors_only)
  apply (simp_all add: errors_only_def)
  done

lemma decodeRISCVPageRemap_error:
  "decodeRISCVPageRemap cfg s len cte cap extraCaps buffer =
     Inr (EXCEPTION_SYSCALL_ERROR, t) \<Longrightarrow> errors_only s t"
  apply (simp add: decodeRISCVPageRemap_def Let_def bindE_def
      split: prod.splits if_splits sum.splits option.splits)
  apply (auto simp: errors_only_setters perform_not_error errors_only_refl
      dest!: isVTableRoot_errors_only findVSpaceForASID_errors_only lookupPTSlot_errors_only
        createSafeMappingEntries_PTE_errors_only)
  apply (simp_all add: errors_only_def)
  done

lemma decodeRISCVFrameInvocation_error:
  "decodeRISCVFrameInvocation cfg s label len cte cap extraCaps buffer =
     Inr (EXCEPTION_SYSCALL_ERROR, t) \<Longrightarrow> errors_only s t"
  by (cases label)
     (auto simp: decodeRISCVFrameInvocation_def errors_only_setters errors_only_refl
        perform_not_error split: if_splits
        dest: decodeRISCVPageMap_error decodeRISCVPageRemap_error perform_status(2))

lemma decodeRISCVASIDControlInvocation_error:
  "decodeRISCVASIDControlInvocation cfg cs s label len extraCaps buffer =
     Inr (EXCEPTION_SYSCALL_ERROR, t) \<Longrightarrow> errors_only s t"
  apply (simp add: decodeRISCVASIDControlInvocation_def Let_def
      split: prod.splits if_splits)
  apply (auto simp: errors_only_setters errors_only_refl dest!: perform_status(3))
  done

lemma decodeRISCVASIDPoolInvocation_error:
  "decodeRISCVASIDPoolInvocation cfg s label cap extraCaps =
     Inr (EXCEPTION_SYSCALL_ERROR, t) \<Longrightarrow> errors_only s t"
  by (auto simp: decodeRISCVASIDPoolInvocation_def Let_def errors_only_setters
      errors_only_refl perform_not_error split: if_splits)

text \<open>
  C5. Whenever the decode of an MMU invocation (on a page-table, frame, ASID-control or
  ASID-pool capability) returns a syscall error, the memory of page tables and ASID
  pools, the capability slots and the ASID table are what they were: nothing of the state
  has changed but the two error variables \<open>current_syscall_error\<close> and
  \<open>current_lookup_fault\<close>. (The checks of the capability-space service are read-only by
  their type.) The witness is a \<open>PageMap\<close> at an address that is not page-aligned.
\<close>

theorem decode_failure_leaves_state:
  assumes "decodeRISCVMMUInvocation cfg cs s label len cptr cte cap extraCaps buffer =
     Inr (EXCEPTION_SYSCALL_ERROR, t)"
  shows "ksMem t = ksMem s \<and> ksCaps t = ksCaps s \<and> riscvKSASIDTable t = riscvKSASIDTable s \<and>
     errors_only s t"
proof -
  from assms have "errors_only s t"
    by (cases "capType cap")
       (auto simp: decodeRISCVMMUInvocation_def
          dest: decodeRISCVPageTableInvocation_error decodeRISCVFrameInvocation_error
            decodeRISCVASIDControlInvocation_error decodeRISCVASIDPoolInvocation_error)
  then show ?thesis
    by (simp add: errors_only_def)
qed

theorem decode_failure_leaves_state_witness:
  "decodeRISCVMMUInvocation sv39 null_cspace vspace_state RISCVPageMap 3 0 0xFFFFFFFF87000040
     frame_cap root_extra_caps (map_args 0x40000800) =
     Inr (EXCEPTION_SYSCALL_ERROR, set_error_type seL4_AlignmentError vspace_state) \<and>
   ksMem (set_error_type seL4_AlignmentError vspace_state) = ksMem vspace_state \<and>
   ksCaps (set_error_type seL4_AlignmentError vspace_state) = ksCaps vspace_state"
proof -
  have fc: "capType frame_cap = cap_frame_cap" "capFMappedASID frame_cap = 0"
    "capFSize frame_cap = RISCV_4K_Page" "capFVMRights frame_cap = VMReadWrite"
    "capFBasePtr frame_cap = 0xFFFFFFFF85003000"
    by (simp_all add: frame_cap_def null_cap_def)
  have rc: "vspace_caps 0xFFFFFFFF87000020 = root_cap"
    by (simp add: vspace_caps_def)
  have rf: "capType root_cap = cap_page_table_cap" "capPTMappedASID root_cap = 1"
    "capPTBasePtr root_cap = 0xFFFFFFFF85000000"
    by (simp_all add: root_cap_def null_cap_def)
  have w: "lookupPTSlot sv39 vspace_state 0xFFFFFFFF85000000 0x40000800 3 =
     Inr (\<lparr>status = EXCEPTION_NONE, ptSlot = Some 0xFFFFFFFF85002000, missingPTLevel = None\<rparr>,
          vspace_state)"
    by (simp add: lookupPTSlot_def lookupPTSlot_loop.simps getPPtrFromHWPTE_def
      isValidHWPageTable_def ptrFromPAddr_def
      vspace_fields vspace_mem_def sv39_simps sv39_pt_index ptr_add_def drop_bit_eq_div
      push_bit_eq_mult PTE_PPN_SHIFT_def seL4_PageTableBits_def)
  have d: "decodeRISCVMMUInvocation sv39 null_cspace vspace_state RISCVPageMap 3 0
     0xFFFFFFFF87000040 frame_cap root_extra_caps (map_args 0x40000800) =
     Inr (EXCEPTION_SYSCALL_ERROR, set_error_type seL4_AlignmentError vspace_state)"
    by (simp add: decodeRISCVMMUInvocation_def decodeRISCVFrameInvocation_def
        decodeRISCVPageMap_def bindE_def
        fc rc rf vspace_fields vspace_root_is_root w vspace_find
        root_extra_caps_def map_args_def getSyscallArg_def unlikely_def asidInvalid_def
        sv39_simps sv39_pageBits_def sv39_pageLevel_def BIT_def MASK_def
        checkVPAlignment_def vmAttributesFromWord_def Let_def)
  from d decode_failure_leaves_state [OF d] show ?thesis
    by simp
qed

subsection \<open>Where a page table is installed\<close>

lemma lookupPTSlot_loop_fault:
  "lookupPTSlot_loop cfg s vptr ptLevel i slot = Inr (r, t) \<Longrightarrow>
   status r = EXCEPTION_LOOKUP_FAULT \<Longrightarrow> 1 \<le> i \<Longrightarrow>
   \<exists>lvl p. r = \<lparr>status = EXCEPTION_LOOKUP_FAULT, ptSlot = Some p, missingPTLevel = Some lvl\<rparr> \<and>
     i \<le> lvl \<and> lvl \<le> ptLevel \<and> ksMem s p = 0 \<and>
     lookupPTSlot_loop cfg s vptr (lvl - 1) i slot =
       Inr (\<lparr>status = EXCEPTION_NONE, ptSlot = Some p, missingPTLevel = None\<rparr>, s)"
proof (induction cfg s vptr ptLevel i slot rule: lookupPTSlot_loop.induct)
  case (1 cfg s vptr ptLevel i slot)
  note eq = lookupPTSlot_loop.simps [of cfg s vptr ptLevel i slot]
  show ?case
  proof (cases "i \<le> ptLevel")
    case False
    with "1.prems" show ?thesis
      unfolding eq by auto
  next
    case le: True
    show ?thesis
    proof (cases "ksMem s slot = 0")
      case True
      with le "1.prems" have r: "r = \<lparr>status = EXCEPTION_LOOKUP_FAULT, ptSlot = Some slot,
          missingPTLevel = Some i\<rparr>"
        unfolding eq by auto
      from "1.prems"(3) have "lookupPTSlot_loop cfg s vptr (i - 1) i slot =
          Inr (\<lparr>status = EXCEPTION_NONE, ptSlot = Some slot, missingPTLevel = None\<rparr>, s)"
        by (subst lookupPTSlot_loop.simps) auto
      with r le True show ?thesis
        by auto
    next
      case nz: False
      with le "1.prems" obtain pt where pt: "getPPtrFromHWPTE cfg s slot = Inr pt"
        and rec: "lookupPTSlot_loop cfg s vptr ptLevel (i + 1)
                    (ptr_add pt (RISCV_GET_PT_INDEX cfg vptr i)) = Inr (r, t)"
        unfolding eq by (auto split: sum.splits)
      from "1.IH" [OF le nz pt rec "1.prems"(2)]
      obtain lvl p where
        r: "r = \<lparr>status = EXCEPTION_LOOKUP_FAULT, ptSlot = Some p, missingPTLevel = Some lvl\<rparr>"
        and b: "i + 1 \<le> lvl" "lvl \<le> ptLevel" and z: "ksMem s p = 0"
        and w: "lookupPTSlot_loop cfg s vptr (lvl - 1) (i + 1)
                  (ptr_add pt (RISCV_GET_PT_INDEX cfg vptr i)) =
                Inr (\<lparr>status = EXCEPTION_NONE, ptSlot = Some p, missingPTLevel = None\<rparr>, s)"
        by auto
      from b have "i \<le> lvl - 1" by simp
      with nz pt w have "lookupPTSlot_loop cfg s vptr (lvl - 1) i slot =
          Inr (\<lparr>status = EXCEPTION_NONE, ptSlot = Some p, missingPTLevel = None\<rparr>, s)"
        by (subst lookupPTSlot_loop.simps) simp
      with r b z show ?thesis
        by auto
    qed
  qed
qed

lemma lookupPTSlot_fault:
  assumes "lookupPTSlot cfg s lvl1pt vptr ptLevel = Inr (r, t)"
    and "status r = EXCEPTION_LOOKUP_FAULT" and "lvl1pt \<noteq> 0"
  shows "\<exists>lvl p. r = \<lparr>status = EXCEPTION_LOOKUP_FAULT, ptSlot = Some p, missingPTLevel = Some lvl\<rparr> \<and>
     2 \<le> lvl \<and> lvl \<le> ptLevel \<and> ksMem s p = 0 \<and>
     lookupPTSlot cfg s lvl1pt vptr (lvl - 1) =
       Inr (\<lparr>status = EXCEPTION_NONE, ptSlot = Some p, missingPTLevel = None\<rparr>, s)"
proof -
  from assms have le: "ptLevel \<le> CONFIG_PT_LEVELS cfg"
    and l: "lookupPTSlot_loop cfg s vptr ptLevel 2
              (ptr_add lvl1pt (RISCV_GET_PT_INDEX cfg vptr 1)) = Inr (r, t)"
    by (auto simp: lookupPTSlot_def split: if_splits)
  from lookupPTSlot_loop_fault [OF l assms(2)]
  obtain lvl p where
    "r = \<lparr>status = EXCEPTION_LOOKUP_FAULT, ptSlot = Some p, missingPTLevel = Some lvl\<rparr>"
    "2 \<le> lvl" "lvl \<le> ptLevel" "ksMem s p = 0"
    "lookupPTSlot_loop cfg s vptr (lvl - 1) 2 (ptr_add lvl1pt (RISCV_GET_PT_INDEX cfg vptr 1)) =
       Inr (\<lparr>status = EXCEPTION_NONE, ptSlot = Some p, missingPTLevel = None\<rparr>, s)"
    by auto
  with le assms(3) show ?thesis
    by (auto simp: lookupPTSlot_def)
qed

lemma findVSpaceForASID_root_nonzero:
  "fv_status (fst (findVSpaceForASID cfg s asid)) = EXCEPTION_NONE \<Longrightarrow>
   vspace_root (fst (findVSpaceForASID cfg s asid)) \<noteq> 0"
  by (auto simp: findVSpaceForASID_def Let_def split: if_splits)

text \<open>
  When every check before the walk passes and the walk returns a lookup fault, the decode
  goes on with the slot the walk returned: the invocation succeeds and writes the entry
  there.
\<close>

lemma decode_PageTableMap_on_fault:
  assumes pt: "capType cap = cap_page_table_cap"
    and not_root: "\<not> fst (isVTableRoot cfg s cap)"
    and msg: "2 \<le> len" "excaprefs extraCaps 0 \<noteq> 0"
    and root: "fst (isValidNativeRoot cfg s (ksCaps s (excaprefs extraCaps 0)))"
    and below: "getSyscallArg 0 buffer < kernelBase cfg"
    and walk: "lookupPTSlot cfg s (capPTBasePtr (ksCaps s (excaprefs extraCaps 0)))
                 (getSyscallArg 0 buffer) (CONFIG_PT_LEVELS cfg) = Inr (r, s')"
    and fault: "status r = EXCEPTION_LOOKUP_FAULT"
  shows "\<exists>lvl slot t.
     r = \<lparr>status = EXCEPTION_LOOKUP_FAULT, ptSlot = Some slot, missingPTLevel = Some lvl\<rparr> \<and>
     2 \<le> lvl \<and> lvl \<le> CONFIG_PT_LEVELS cfg \<and> ksMem s slot = 0 \<and>
     lookupPTSlot cfg s (capPTBasePtr (ksCaps s (excaprefs extraCaps 0)))
       (getSyscallArg 0 buffer) (lvl - 1) =
       Inr (\<lparr>status = EXCEPTION_NONE, ptSlot = Some slot, missingPTLevel = None\<rparr>, s) \<and>
     decodeRISCVMMUInvocation cfg cs s RISCVPageTableMap len cptr cte cap extraCaps buffer =
       Inr (EXCEPTION_NONE, t) \<and>
     ksMem t = (ksMem s)
       (slot := pte_new (drop_bit RISCV_4K_PageBits (addrFromPPtr cfg (capPTBasePtr cap))) 0
                  True True False False False False False True) \<and>
     ksCaps t = (ksCaps s)
       (cte := cap\<lparr>capPTIsMapped := True,
                   capPTMappedASID := capPTMappedASID (ksCaps s (excaprefs extraCaps 0)),
                   capPTMappedAddress := getSyscallArg 0 buffer\<rparr>)"
proof -
  let ?rootCap = "ksCaps s (excaprefs extraCaps 0)"
  let ?lvl1pt = "capPTBasePtr ?rootCap"
  let ?asid = "capPTMappedASID ?rootCap"
  let ?vaddr = "getSyscallArg 0 buffer"
  from root have isroot: "fst (isVTableRoot cfg s ?rootCap)"
    by (simp add: isValidNativeRoot_fst)
  then have rt: "capType ?rootCap = cap_page_table_cap"
    and fs: "fv_status (fst (findVSpaceForASID cfg s ?asid)) = EXCEPTION_NONE"
    and fr: "vspace_root (fst (findVSpaceForASID cfg s ?asid)) = ?lvl1pt"
    by (simp_all add: isVTableRoot_fst)
  from fs fr have nz: "?lvl1pt \<noteq> 0"
    using findVSpaceForASID_root_nonzero [of cfg s ?asid] by simp
  from lookupPTSlot_fault [OF walk fault nz]
  obtain lvl slot where
    r: "r = \<lparr>status = EXCEPTION_LOOKUP_FAULT, ptSlot = Some slot, missingPTLevel = Some lvl\<rparr>"
    and b: "2 \<le> lvl" "lvl \<le> CONFIG_PT_LEVELS cfg" and z: "ksMem s slot = 0"
    and w: "lookupPTSlot cfg s ?lvl1pt ?vaddr (lvl - 1) =
       Inr (\<lparr>status = EXCEPTION_NONE, ptSlot = Some slot, missingPTLevel = None\<rparr>, s)"
    by auto
  obtain b1 s1 where v1: "isVTableRoot cfg s cap = (b1, s1)"
    by (cases "isVTableRoot cfg s cap")
  with not_root have b1: "\<not> b1" by simp
  from v1 have e1: "errors_only s s1"
    by (rule isVTableRoot_errors_only)
  then have c1: "ksCaps s1 = ksCaps s"
    by (simp add: errors_only_def)
  obtain b2 s2 where v2: "isValidNativeRoot cfg s1 ?rootCap = (b2, s2)"
    by (cases "isValidNativeRoot cfg s1 ?rootCap")
  have b2: "b2"
    using isValidNativeRoot_cong [OF e1, of cfg ?rootCap] v2 root by simp
  from v2 have e2: "errors_only s s2"
    using e1 isValidNativeRoot_errors_only errors_only_trans by blast
  obtain b3 s3 where v3: "isVTableRoot cfg s2 ?rootCap = (b3, s3)"
    by (cases "isVTableRoot cfg s2 ?rootCap")
  have b3: "b3"
    using isVTableRoot_cong [OF e2, of cfg ?rootCap] v3 isroot by simp
  from v3 have e3: "errors_only s s3"
    using e2 isVTableRoot_errors_only errors_only_trans by blast
  obtain f4 s4 where v4: "findVSpaceForASID cfg s3 ?asid = (f4, s4)"
    by (cases "findVSpaceForASID cfg s3 ?asid")
  have f4: "fv_status f4 = EXCEPTION_NONE" "vspace_root f4 = ?lvl1pt"
    using findVSpaceForASID_cong [OF e3, of cfg ?asid] v4 fs fr by simp_all
  from v4 have e4: "errors_only s s4"
    using e3 findVSpaceForASID_errors_only errors_only_trans by blast
  from lookupPTSlot_cong [OF e4, of cfg ?lvl1pt ?vaddr "CONFIG_PT_LEVELS cfg"] walk
  obtain s5 where v5: "lookupPTSlot cfg s4 ?lvl1pt ?vaddr (CONFIG_PT_LEVELS cfg) = Inr (r, s5)"
    by (cases "lookupPTSlot cfg s4 ?lvl1pt ?vaddr (CONFIG_PT_LEVELS cfg)") auto
  then have e5: "errors_only s s5"
    using e4 lookupPTSlot_errors_only errors_only_trans by blast
  then have m5: "ksMem s5 = ksMem s" and c5: "ksCaps s5 = ksCaps s"
    by (simp_all add: errors_only_def)
  let ?t = "snd (performPageTableInvocationMap
      (setThreadState s5 (ksCurThread s5) ThreadState_Restart)
      (cap\<lparr>capPTIsMapped := True, capPTMappedASID := ?asid, capPTMappedAddress := ?vaddr\<rparr>)
      cte
      (pte_new (drop_bit RISCV_4K_PageBits (addrFromPPtr cfg (capPTBasePtr cap))) 0
                  True True False False False False False True) slot)"
  have d: "decodeRISCVMMUInvocation cfg cs s RISCVPageTableMap len cptr cte cap extraCaps buffer =
       Inr (EXCEPTION_NONE, ?t)"
    using pt b1 msg b2 rt b3 below f4 z
    by (simp add: decodeRISCVMMUInvocation_def decodeRISCVPageTableInvocation_def
        v1 c1 v2 v3 v4 v5 r m5 bindE_def Let_def performPageTableInvocationMap_def)
  have "ksMem ?t = (ksMem s)
       (slot := pte_new (drop_bit RISCV_4K_PageBits (addrFromPPtr cfg (capPTBasePtr cap))) 0
                  True True False False False False False True)"
    by (simp add: performPageTableInvocationMap_def setThreadState_def m5)
  moreover have "ksCaps ?t = (ksCaps s)
       (cte := cap\<lparr>capPTIsMapped := True, capPTMappedASID := ?asid,
                   capPTMappedAddress := ?vaddr\<rparr>)"
    by (simp add: performPageTableInvocationMap_def setThreadState_def c5)
  ultimately show ?thesis
    using r b z w d by blast
qed

text \<open>
  The path of a virtual address, written without the walker: the index chunks are taken by
  division, a table pointer is an entry whose low four bits are 0001, and the next table
  is the entry's frame number times the table size, moved into the kernel window. The
  source's macros and accessors compute the same values.
\<close>

lemma table_pointer_spec_iff: "table_pointer_spec w \<longleftrightarrow> w AND 0xf = 1"
proof -
  have m: "MASK 4 = 0xf"
    by (simp add: MASK_def)
  have "w AND 0xf = 1 \<longleftrightarrow> unat (w AND MASK 4) = unat (1 :: machine_word)"
    unfolding m by (simp only: word_unat_eq_iff)
  also have "\<dots> \<longleftrightarrow> unat w mod 16 = 1"
    by (simp add: unat_and_MASK)
  finally show ?thesis
    by (simp add: table_pointer_spec_def)
qed

lemma next_table_spec_eq:
  "ptrFromPAddr cfg (push_bit seL4_PageTableBits (drop_bit PTE_PPN_SHIFT w)) = next_table_spec cfg w"
  by (simp add: ptrFromPAddr_def next_table_spec_def seL4_PageTableBits_def PTE_PPN_SHIFT_def
      push_bit_eq_mult drop_bit_eq_div)

lemma index_chunk_spec_eq: "RISCV_GET_PT_INDEX cfg v n = index_chunk_spec cfg v n"
  by (simp only: RISCV_GET_PT_INDEX_def RISCV_GET_LVL_PGSIZE_BITS_def RISCV_4K_PageBits_def
      index_chunk_spec_def asid_split(2) unat_drop)

lemma getPPtrFromHWPTE_pointer:
  "table_pointer_spec (ksMem s p) \<Longrightarrow>
   getPPtrFromHWPTE cfg s p = Inr (next_table_spec cfg (ksMem s p))"
  by (simp add: getPPtrFromHWPTE_def isValidHWPageTable_def table_pointer_spec_iff
      next_table_spec_eq)

lemma getPPtrFromHWPTE_Inr:
  "getPPtrFromHWPTE cfg s p = Inr pt \<Longrightarrow>
   table_pointer_spec (ksMem s p) \<and> pt = next_table_spec cfg (ksMem s p)"
  by (auto simp: getPPtrFromHWPTE_def isValidHWPageTable_def table_pointer_spec_iff
      next_table_spec_eq split: if_splits)

lemma table_pointer_nonzero: "table_pointer_spec w \<Longrightarrow> w \<noteq> 0"
  by (auto simp: table_pointer_spec_def)

lemma path_slot_step:
  "ptr_add (next_table_spec cfg (ksMem s (path_slot_spec cfg s root v j)))
     (RISCV_GET_PT_INDEX cfg v (j + 2)) = path_slot_spec cfg s root v (Suc j)"
  by (simp add: ptr_add_def index_chunk_spec_eq)

lemma path_slot_start:
  "ptr_add root (RISCV_GET_PT_INDEX cfg v 1) = path_slot_spec cfg s root v 0"
  by (simp add: ptr_add_def index_chunk_spec_eq)

lemma lookupPTSlot_loop_on_path:
  assumes "\<forall>k<m. table_pointer_spec (ksMem s (path_slot_spec cfg s root v k))"
    and "ksMem s (path_slot_spec cfg s root v m) = 0" and "m + 2 \<le> P" and "j \<le> m"
  shows "lookupPTSlot_loop cfg s v P (j + 2) (path_slot_spec cfg s root v j) =
     Inr (\<lparr>status = EXCEPTION_LOOKUP_FAULT, ptSlot = Some (path_slot_spec cfg s root v m),
           missingPTLevel = Some (m + 2)\<rparr>,
          s\<lparr>current_lookup_fault :=
               lookup_fault_missing_capability_new (RISCV_GET_LVL_PGSIZE_BITS cfg (m + 1))\<rparr>)"
  using assms(4)
proof (induction "m - j" arbitrary: j)
  case 0
  then have j: "j = m" by simp
  from assms(2,3) show ?case
    unfolding j by (subst lookupPTSlot_loop.simps) simp
next
  case (Suc d)
  then have lt: "j < m" and d: "d = m - Suc j" and le: "Suc j \<le> m"
    by simp_all
  from assms(1) lt have tp: "table_pointer_spec (ksMem s (path_slot_spec cfg s root v j))"
    by blast
  from lt assms(3) have i: "j + 2 \<le> P" by simp
  have "lookupPTSlot_loop cfg s v P (j + 2) (path_slot_spec cfg s root v j) =
      lookupPTSlot_loop cfg s v P (Suc j + 2) (path_slot_spec cfg s root v (Suc j))"
    using i table_pointer_nonzero [OF tp] getPPtrFromHWPTE_pointer [OF tp, of cfg]
      path_slot_step [of cfg s root v j]
    by (subst lookupPTSlot_loop.simps) simp
  with Suc.hyps(1) [OF d le] show ?case
    by simp
qed

lemma lookupPTSlot_loop_fault_path:
  "lookupPTSlot_loop cfg s v P i slot = Inr (r, t) \<Longrightarrow>
   status r = EXCEPTION_LOOKUP_FAULT \<Longrightarrow> i = j + 2 \<Longrightarrow>
   slot = path_slot_spec cfg s root v j \<Longrightarrow>
   \<exists>m. j \<le> m \<and> m + 2 \<le> P \<and>
     (\<forall>k. j \<le> k \<and> k < m \<longrightarrow> table_pointer_spec (ksMem s (path_slot_spec cfg s root v k))) \<and>
     ksMem s (path_slot_spec cfg s root v m) = 0"
proof (induction cfg s v P i slot arbitrary: j rule: lookupPTSlot_loop.induct)
  case (1 cfg s vptr ptLevel i slot)
  note eq = lookupPTSlot_loop.simps [of cfg s vptr ptLevel i slot]
  show ?case
  proof (cases "i \<le> ptLevel")
    case False
    with "1.prems" show ?thesis
      unfolding eq by auto
  next
    case le: True
    show ?thesis
    proof (cases "ksMem s slot = 0")
      case True
      with le "1.prems"(3,4) show ?thesis
        by (intro exI [of _ j]) auto
    next
      case nz: False
      with le "1.prems"(1) obtain pt where pt: "getPPtrFromHWPTE cfg s slot = Inr pt"
        and rec: "lookupPTSlot_loop cfg s vptr ptLevel (i + 1)
                    (ptr_add pt (RISCV_GET_PT_INDEX cfg vptr i)) = Inr (r, t)"
        unfolding eq by (auto split: sum.splits)
      from getPPtrFromHWPTE_Inr [OF pt] "1.prems"(4)
      have tp: "table_pointer_spec (ksMem s (path_slot_spec cfg s root vptr j))"
        and pv: "pt = next_table_spec cfg (ksMem s (path_slot_spec cfg s root vptr j))"
        by simp_all
      have nx: "ptr_add pt (RISCV_GET_PT_INDEX cfg vptr i) = path_slot_spec cfg s root vptr (Suc j)"
        unfolding pv "1.prems"(3) by (rule path_slot_step)
      from "1.prems"(3) have i1: "i + 1 = Suc j + 2" by simp
      from "1.IH" [OF le nz pt rec "1.prems"(2) i1 nx]
      obtain m where m: "Suc j \<le> m" "m + 2 \<le> ptLevel"
        "\<forall>k. Suc j \<le> k \<and> k < m \<longrightarrow>
           table_pointer_spec (ksMem s (path_slot_spec cfg s root vptr k))"
        "ksMem s (path_slot_spec cfg s root vptr m) = 0"
        by blast
      have "table_pointer_spec (ksMem s (path_slot_spec cfg s root vptr k))"
        if "j \<le> k \<and> k < m" for k
        using that tp m(3) by (cases "k = j") auto
      with m show ?thesis
        by (intro exI [of _ m]) auto
    qed
  qed
qed

lemma first_absent_unique:
  "first_absent_spec cfg s root v m \<Longrightarrow> first_absent_spec cfg s root v m' \<Longrightarrow> m = m'"
proof (rule ccontr)
  assume a: "first_absent_spec cfg s root v m" and b: "first_absent_spec cfg s root v m'"
    and ne: "m \<noteq> m'"
  have False if "first_absent_spec cfg s root v x" "first_absent_spec cfg s root v y" "x < y"
    for x y
  proof -
    from that(2,3) have "table_pointer_spec (ksMem s (path_slot_spec cfg s root v x))"
      by (simp add: first_absent_spec_def list_all_iff)
    moreover from that(1) have "ksMem s (path_slot_spec cfg s root v x) = 0"
      by (simp add: first_absent_spec_def)
    ultimately show False
      using table_pointer_nonzero by blast
  qed
  from this [OF a b] this [OF b a] ne show False
    by (cases "m < m'") auto
qed

text \<open>
  On the small address space the path of 0x40200000 leaves the root through its entry 1
  and reaches entry 1 of the second-level table; the path of 0x80000000 starts at the
  root's entry 2.
\<close>

lemma vspace_path_deep:
  "path_slot_spec sv39 vspace_state 0xFFFFFFFF85000000 0x40200000 0 = 0xFFFFFFFF85000008"
  "path_slot_spec sv39 vspace_state 0xFFFFFFFF85000000 0x40200000 (Suc 0) = 0xFFFFFFFF85001008"
proof -
  show a: "path_slot_spec sv39 vspace_state 0xFFFFFFFF85000000 0x40200000 0 = 0xFFFFFFFF85000008"
    by (simp add: index_chunk_spec_def sv39_simps)
  have m: "ksMem vspace_state 0xFFFFFFFF85000008 = 0x214004C1"
    by (simp add: vspace_fields vspace_mem_def)
  have n: "next_table_spec sv39 0x214004C1 = 0xFFFFFFFF85001000"
    by (simp add: next_table_spec_def sv39_simps)
  have i: "index_chunk_spec sv39 0x40200000 2 = 1"
    by (simp add: index_chunk_spec_def sv39_simps)
  have i': "index_chunk_spec sv39 0x40200000 (Suc (Suc 0)) = 1"
    by (simp add: index_chunk_spec_def sv39_simps)
  show "path_slot_spec sv39 vspace_state 0xFFFFFFFF85000000 0x40200000 (Suc 0) = 0xFFFFFFFF85001008"
    unfolding path_slot_spec.simps(2) a m n by (simp add: i i')
qed

lemma vspace_path_root:
  "path_slot_spec sv39 vspace_state 0xFFFFFFFF85000000 0x80000000 0 = 0xFFFFFFFF85000010"
  by (simp add: index_chunk_spec_def sv39_simps)

text \<open>
  C9. PageTableMap installs the new table at the shallowest missing level along the path
  of the requested address, not at the maximum level. Let the path of the address be the
  one of \<open>path_slot_spec\<close>, and let \<open>m\<close> be such that the first
  \<open>m\<close> entries on the path are table pointers and the next one is all zero,
  above the last level. Then the walk toward the maximum level descends through these
  \<open>m\<close> tables, stops at that zero entry and reports a lookup fault for level
  \<open>m + 2\<close>; the decode does not fail: the fault status is not consulted, the
  occupancy check finds the slot free, and the invocation writes the new table's entry
  into that slot and records the mapping in the capability. Every walk that ends in a
  lookup fault is of this kind, and \<open>m\<close> is determined by the memory: no
  entry before the slot is missing.
\<close>

theorem PageTableMap_installs_at_first_absent_level:
  assumes pt: "capType cap = cap_page_table_cap"
    and not_root: "\<not> fst (isVTableRoot cfg s cap)"
    and msg: "2 \<le> len" "excaprefs extraCaps 0 \<noteq> 0"
    and root: "fst (isValidNativeRoot cfg s (ksCaps s (excaprefs extraCaps 0)))"
    and below: "getSyscallArg 0 buffer < kernelBase cfg"
  shows
   "(first_absent_spec cfg s (capPTBasePtr (ksCaps s (excaprefs extraCaps 0)))
       (getSyscallArg 0 buffer) m \<longrightarrow>
       lookupPTSlot cfg s (capPTBasePtr (ksCaps s (excaprefs extraCaps 0)))
         (getSyscallArg 0 buffer) (CONFIG_PT_LEVELS cfg) =
         Inr (\<lparr>status = EXCEPTION_LOOKUP_FAULT,
               ptSlot = Some (path_slot_spec cfg s
                 (capPTBasePtr (ksCaps s (excaprefs extraCaps 0))) (getSyscallArg 0 buffer) m),
               missingPTLevel = Some (m + 2)\<rparr>,
              s\<lparr>current_lookup_fault := lookup_fault_missing_capability_new
                   (PT_INDEX_BITS cfg * (CONFIG_PT_LEVELS cfg - (m + 1)) + 12)\<rparr>) \<and>
       (\<exists>t. decodeRISCVMMUInvocation cfg cs s RISCVPageTableMap len cptr cte cap extraCaps buffer =
              Inr (EXCEPTION_NONE, t) \<and>
            ksMem t = (ksMem s)
              (path_slot_spec cfg s (capPTBasePtr (ksCaps s (excaprefs extraCaps 0)))
                 (getSyscallArg 0 buffer) m :=
               pte_new (drop_bit RISCV_4K_PageBits (addrFromPPtr cfg (capPTBasePtr cap))) 0
                 True True False False False False False True) \<and>
            ksCaps t = (ksCaps s)
              (cte := cap\<lparr>capPTIsMapped := True,
                 capPTMappedASID := capPTMappedASID (ksCaps s (excaprefs extraCaps 0)),
                 capPTMappedAddress := getSyscallArg 0 buffer\<rparr>))) \<and>
    (lookupPTSlot cfg s (capPTBasePtr (ksCaps s (excaprefs extraCaps 0)))
       (getSyscallArg 0 buffer) (CONFIG_PT_LEVELS cfg) = Inr (r, s') \<and>
     status r = EXCEPTION_LOOKUP_FAULT \<longrightarrow>
       (\<exists>n. first_absent_spec cfg s (capPTBasePtr (ksCaps s (excaprefs extraCaps 0)))
              (getSyscallArg 0 buffer) n)) \<and>
    (first_absent_spec cfg s (capPTBasePtr (ksCaps s (excaprefs extraCaps 0)))
       (getSyscallArg 0 buffer) m \<and>
     first_absent_spec cfg s (capPTBasePtr (ksCaps s (excaprefs extraCaps 0)))
       (getSyscallArg 0 buffer) m' \<longrightarrow> m = m')"
proof -
  let ?rootCap = "ksCaps s (excaprefs extraCaps 0)"
  let ?lvl1pt = "capPTBasePtr ?rootCap"
  let ?asid = "capPTMappedASID ?rootCap"
  let ?vaddr = "getSyscallArg 0 buffer"
  let ?path = "path_slot_spec cfg s ?lvl1pt ?vaddr"
  from root have isroot: "fst (isVTableRoot cfg s ?rootCap)"
    by (simp add: isValidNativeRoot_fst)
  then have fs: "fv_status (fst (findVSpaceForASID cfg s ?asid)) = EXCEPTION_NONE"
    and fr: "vspace_root (fst (findVSpaceForASID cfg s ?asid)) = ?lvl1pt"
    by (simp_all add: isVTableRoot_fst)
  from fs fr have nz: "?lvl1pt \<noteq> 0"
    using findVSpaceForASID_root_nonzero [of cfg s ?asid] by simp
  have p1: "lookupPTSlot cfg s ?lvl1pt ?vaddr (CONFIG_PT_LEVELS cfg) =
         Inr (\<lparr>status = EXCEPTION_LOOKUP_FAULT, ptSlot = Some (?path m),
               missingPTLevel = Some (m + 2)\<rparr>,
              s\<lparr>current_lookup_fault := lookup_fault_missing_capability_new
                   (PT_INDEX_BITS cfg * (CONFIG_PT_LEVELS cfg - (m + 1)) + 12)\<rparr>) \<and>
       (\<exists>t. decodeRISCVMMUInvocation cfg cs s RISCVPageTableMap len cptr cte cap extraCaps buffer =
              Inr (EXCEPTION_NONE, t) \<and>
            ksMem t = (ksMem s)
              (?path m :=
               pte_new (drop_bit RISCV_4K_PageBits (addrFromPPtr cfg (capPTBasePtr cap))) 0
                 True True False False False False False True) \<and>
            ksCaps t = (ksCaps s)
              (cte := cap\<lparr>capPTIsMapped := True, capPTMappedASID := ?asid,
                 capPTMappedAddress := ?vaddr\<rparr>))"
    if fa: "first_absent_spec cfg s ?lvl1pt ?vaddr m"
  proof -
    from fa have lv: "m + 2 \<le> CONFIG_PT_LEVELS cfg"
      and tp: "\<forall>k<m. table_pointer_spec (ksMem s (?path k))"
      and z: "ksMem s (?path m) = 0"
      by (simp_all add: first_absent_spec_def list_all_iff)
    have "lookupPTSlot_loop cfg s ?vaddr (CONFIG_PT_LEVELS cfg) (0 + 2) (?path 0) =
         Inr (\<lparr>status = EXCEPTION_LOOKUP_FAULT, ptSlot = Some (?path m),
               missingPTLevel = Some (m + 2)\<rparr>,
              s\<lparr>current_lookup_fault := lookup_fault_missing_capability_new
                   (RISCV_GET_LVL_PGSIZE_BITS cfg (m + 1))\<rparr>)"
      by (rule lookupPTSlot_loop_on_path [OF tp z lv]) simp
    then have "lookupPTSlot_loop cfg s ?vaddr (CONFIG_PT_LEVELS cfg) 2
            (ptr_add ?lvl1pt (RISCV_GET_PT_INDEX cfg ?vaddr 1)) =
         Inr (\<lparr>status = EXCEPTION_LOOKUP_FAULT, ptSlot = Some (?path m),
               missingPTLevel = Some (m + 2)\<rparr>,
              s\<lparr>current_lookup_fault := lookup_fault_missing_capability_new
                   (RISCV_GET_LVL_PGSIZE_BITS cfg (m + 1))\<rparr>)"
      by (simp only: add_0 path_slot_start [of ?lvl1pt cfg ?vaddr s])
    with nz have w: "lookupPTSlot cfg s ?lvl1pt ?vaddr (CONFIG_PT_LEVELS cfg) =
         Inr (\<lparr>status = EXCEPTION_LOOKUP_FAULT, ptSlot = Some (?path m),
               missingPTLevel = Some (m + 2)\<rparr>,
              s\<lparr>current_lookup_fault := lookup_fault_missing_capability_new
                   (PT_INDEX_BITS cfg * (CONFIG_PT_LEVELS cfg - (m + 1)) + 12)\<rparr>)"
      by (simp add: lookupPTSlot_def RISCV_GET_LVL_PGSIZE_BITS_def RISCV_4K_PageBits_def)
    from decode_PageTableMap_on_fault [OF pt not_root msg root below w]
    show ?thesis
      using w by auto
  qed
  have p2: "\<exists>n. first_absent_spec cfg s ?lvl1pt ?vaddr n"
    if w: "lookupPTSlot cfg s ?lvl1pt ?vaddr (CONFIG_PT_LEVELS cfg) = Inr (r, s')"
      and f: "status r = EXCEPTION_LOOKUP_FAULT"
  proof -
    from w nz have l: "lookupPTSlot_loop cfg s ?vaddr (CONFIG_PT_LEVELS cfg) 2
        (ptr_add ?lvl1pt (RISCV_GET_PT_INDEX cfg ?vaddr 1)) = Inr (r, s')"
      by (simp add: lookupPTSlot_def split: if_splits)
    have j0: "(2::nat) = 0 + 2"
      by simp
    from lookupPTSlot_loop_fault_path [OF l f j0 path_slot_start]
    obtain n where "n + 2 \<le> CONFIG_PT_LEVELS cfg"
      "\<forall>k. k < n \<longrightarrow> table_pointer_spec (ksMem s (?path k))" "ksMem s (?path n) = 0"
      by auto
    then have "first_absent_spec cfg s ?lvl1pt ?vaddr n"
      by (simp add: first_absent_spec_def list_all_iff)
    then show ?thesis ..
  qed
  from p1 p2 first_absent_unique [of cfg s ?lvl1pt ?vaddr m m'] show ?thesis
    by blast
qed

text \<open>
  On the small address space, mapping at 0x40200000: the root's entry 1 points to the
  second-level table, whose entry 1 is empty. The walk descends into that table and
  faults at its entry 1 with missing level 3; the new table's entry is written there and
  the root's entry is unchanged. Mapping at 0x80000000, the root's own entry 2 is empty
  and the entry is written in the root.
\<close>

theorem PageTableMap_installs_at_first_absent_level_witness:
  "path_slot_spec sv39 vspace_state 0xFFFFFFFF85000000 0x40200000 0 = 0xFFFFFFFF85000008 \<and>
   path_slot_spec sv39 vspace_state 0xFFFFFFFF85000000 0x40200000 1 = 0xFFFFFFFF85001008 \<and>
   ksMem vspace_state 0xFFFFFFFF85000008 = 0x214004C1 \<and>
   ksMem vspace_state 0xFFFFFFFF85001008 = 0 \<and>
   first_absent_spec sv39 vspace_state 0xFFFFFFFF85000000 0x40200000 1 \<and>
   lookupPTSlot sv39 vspace_state 0xFFFFFFFF85000000 0x40200000 3 =
     Inr (\<lparr>status = EXCEPTION_LOOKUP_FAULT, ptSlot = Some 0xFFFFFFFF85001008,
           missingPTLevel = Some 3\<rparr>,
          vspace_state\<lparr>current_lookup_fault := lookup_fault_missing_capability_new 21\<rparr>) \<and>
   map_sum id fst map_new_pt_deep_result = Inr EXCEPTION_NONE \<and>
   ksMem (result_state map_new_pt_deep_result) 0xFFFFFFFF85001008 = 0x214010C1 \<and>
   ksMem (result_state map_new_pt_deep_result) 0xFFFFFFFF85000008 = 0x214004C1 \<and>
   capPTMappedAddress (ksCaps (result_state map_new_pt_deep_result) 0xFFFFFFFF87000060) =
     0x40200000 \<and>
   first_absent_spec sv39 vspace_state 0xFFFFFFFF85000000 0x80000000 0 \<and>
   map_sum id fst map_new_pt_result = Inr EXCEPTION_NONE \<and>
   ksMem (result_state map_new_pt_result) 0xFFFFFFFF85000010 = 0x214010C1"
proof -
  have rc: "ksCaps vspace_state (excaprefs root_extra_caps 0) = root_cap"
    by (simp add: vspace_fields vspace_caps_def root_extra_caps_def)
  have rf: "capPTMappedASID root_cap = 1" "capPTBasePtr root_cap = 0xFFFFFFFF85000000"
    "capPTIsMapped root_cap"
    by (simp_all add: root_cap_def null_cap_def)
  have nf: "capType new_pt_cap = cap_page_table_cap" "capPTMappedASID new_pt_cap = 0"
    "capPTBasePtr new_pt_cap = 0xFFFFFFFF85004000"
    by (simp_all add: new_pt_cap_def null_cap_def)
  have h2: "\<not> fst (isVTableRoot sv39 vspace_state new_pt_cap)"
    by (simp add: isVTableRoot_fst nf findVSpaceForASID_def vspace_fields vspace_mem_def
        sv39_simps MASK_def ptr_add_def drop_bit_eq_div Let_def)
  have h5: "fst (isValidNativeRoot sv39 vspace_state (ksCaps vspace_state (excaprefs root_extra_caps 0)))"
    by (simp add: rc isValidNativeRoot_fst vspace_root_is_root rf)
  have h3: "excaprefs root_extra_caps 0 \<noteq> 0"
    by (simp add: root_extra_caps_def)
  have h6: "getSyscallArg 0 (map_args v) < kernelBase sv39"
    if "v < 0xFFFFFFFF80000000" for v
    using that by (simp add: getSyscallArg_def map_args_def sv39_simps)
  have a0: "getSyscallArg 0 (map_args v) = v" for v
    by (simp add: getSyscallArg_def map_args_def)
  have m0: "ksMem vspace_state 0xFFFFFFFF85000008 = 0x214004C1"
    "ksMem vspace_state 0xFFFFFFFF85001008 = 0" "ksMem vspace_state 0xFFFFFFFF85000010 = 0"
    by (simp_all add: vspace_fields vspace_mem_def)
  have fa1: "first_absent_spec sv39 vspace_state 0xFFFFFFFF85000000 0x40200000 (Suc 0)"
    by (simp add: first_absent_spec_def sv39_simps vspace_path_deep m0 table_pointer_spec_def
        del: path_slot_spec.simps)
  have fa0: "first_absent_spec sv39 vspace_state 0xFFFFFFFF85000000 0x80000000 0"
    by (simp add: first_absent_spec_def sv39_simps vspace_path_root m0 del: path_slot_spec.simps)
  have pte: "pte_new (drop_bit RISCV_4K_PageBits (addrFromPPtr sv39 (capPTBasePtr new_pt_cap))) 0
                  True True False False False False False True = 0x214010C1"
    by (simp add: pte_new_def nf addrFromPPtr_def sv39_simps RISCV_4K_PageBits_def
        PTE_PPN_SHIFT_def drop_bit_eq_div push_bit_eq_mult)
  have le: "(0x40200000::machine_word) < 0xFFFFFFFF80000000"
    "(0x80000000::machine_word) < 0xFFFFFFFF80000000" "(2::nat) \<le> 2"
    by simp_all
  note deep = PageTableMap_installs_at_first_absent_level
    [OF nf(1) h2 le(3) h3 h5 h6 [OF le(1)], where m = "Suc 0" and cs = null_cspace and cptr = 0
       and cte = "0xFFFFFFFF87000060", THEN conjunct1,
       unfolded rc rf a0 vspace_path_deep pte, THEN mp, OF fa1]
  have w: "lookupPTSlot sv39 vspace_state 0xFFFFFFFF85000000 0x40200000 3 =
     Inr (\<lparr>status = EXCEPTION_LOOKUP_FAULT, ptSlot = Some 0xFFFFFFFF85001008,
           missingPTLevel = Some 3\<rparr>,
          vspace_state\<lparr>current_lookup_fault := lookup_fault_missing_capability_new 21\<rparr>)"
    using deep [THEN conjunct1] by (simp add: sv39_simps)
  from deep [THEN conjunct2] obtain t where
    d: "map_new_pt_deep_result = Inr (EXCEPTION_NONE, t)"
    and m: "ksMem t = (ksMem vspace_state)(0xFFFFFFFF85001008 := 0x214010C1)"
    and c: "ksCaps t = (ksCaps vspace_state)
       (0xFFFFFFFF87000060 := new_pt_cap\<lparr>capPTIsMapped := True,
                   capPTMappedASID := 1, capPTMappedAddress := 0x40200000\<rparr>)"
    unfolding map_new_pt_deep_result_def by blast
  note shallow = PageTableMap_installs_at_first_absent_level
    [OF nf(1) h2 le(3) h3 h5 h6 [OF le(2)], where m = 0 and cs = null_cspace and cptr = 0
       and cte = "0xFFFFFFFF87000060", THEN conjunct1,
       unfolded rc rf a0 vspace_path_root pte, THEN mp, OF fa0]
  from shallow [THEN conjunct2] obtain t' where
    d': "map_new_pt_result = Inr (EXCEPTION_NONE, t')"
    and m': "ksMem t' = (ksMem vspace_state)(0xFFFFFFFF85000010 := 0x214010C1)"
    unfolding map_new_pt_result_def by blast
  have one: "(1::nat) = Suc 0"
    by simp
  have r: "map_sum id fst map_new_pt_deep_result = Inr EXCEPTION_NONE"
    "ksMem (result_state map_new_pt_deep_result) 0xFFFFFFFF85001008 = 0x214010C1"
    "ksMem (result_state map_new_pt_deep_result) 0xFFFFFFFF85000008 = 0x214004C1"
    "capPTMappedAddress (ksCaps (result_state map_new_pt_deep_result) 0xFFFFFFFF87000060) =
       0x40200000"
    unfolding d by (simp_all add: result_state_def m c m0)
  have r': "map_sum id fst map_new_pt_result = Inr EXCEPTION_NONE"
    "ksMem (result_state map_new_pt_result) 0xFFFFFFFF85000010 = 0x214010C1"
    unfolding d' by (simp_all add: result_state_def m')
  show ?thesis
    unfolding one
    by (intro conjI vspace_path_deep m0 fa1 fa0 w r r')
qed

subsection \<open>Switching to a kernel image\<close>

lemma sub_self_iff: "(p::machine_word) = p - x \<longleftrightarrow> x = 0"
  by (metis add_cancel_right_right diff_add_cancel)

lemma mult8_Suc_nonzero: "Suc n < 2 ^ 61 \<Longrightarrow> (8 * word_of_nat (Suc n) :: machine_word) \<noteq> 0"
  using mult8_eq_0 [of "Suc n"] by blast

lemma copy_stack_runs:
  "n < 2 ^ 61 \<Longrightarrow>
   \<exists>s'. copy_stack s (stack_p - 8 * of_nat n) stack_p image_p =
          Some (stack_p - 8 * of_nat n, image_p - 8 * of_nat n, s') \<and>
        ksEvents s' = ksEvents s @
          map (\<lambda>k. StackStore (image_p - 8 * of_nat (Suc k)) (stack_p - 8 * of_nat (Suc k)))
            [0 ..< n] \<and>
        (\<forall>a. (\<forall>k<n. a \<noteq> image_p - 8 * of_nat (Suc k)) \<longrightarrow> ksMem s' a = ksMem s a) \<and>
        ((\<forall>j<n. \<forall>k<n. image_p - 8 * of_nat (Suc j) \<noteq> stack_p - 8 * of_nat (Suc k)) \<longrightarrow>
         (\<forall>k<n. ksMem s' (image_p - 8 * of_nat (Suc k)) = ksMem s (stack_p - 8 * of_nat (Suc k)))) \<and>
        s'\<lparr>ksMem := ksMem s, ksEvents := ksEvents s\<rparr> = s"
proof (induction n arbitrary: s stack_p image_p)
  case 0
  show ?case
    by (subst copy_stack.simps) simp
next
  case (Suc n)
  let ?s1 = "s\<lparr>ksMem := (ksMem s)(image_p - 8 := ksMem s (stack_p - 8)),
               ksEvents := ksEvents s @ [StackStore (image_p - 8) (stack_p - 8)]\<rparr>"
  from Suc.prems have n: "n < 2 ^ 61" by simp
  from mult8_Suc_nonzero [OF Suc.prems] have ne: "stack_p \<noteq> stack_p - 8 * of_nat (Suc n)"
    by (simp only: sub_self_iff) simp
  have sp: "stack_p - 8 * of_nat (Suc n) = (stack_p - 8) - 8 * of_nat n"
    by (simp add: algebra_simps)
  have sh: "p - 8 - 8 * word_of_nat (Suc k) = p - 8 * word_of_nat (Suc (Suc k))"
    for p :: machine_word and k
    by (simp add: algebra_simps)
  from Suc.IH [OF n, of ?s1 "stack_p - 8" "image_p - 8"]
  obtain s' where
    run: "copy_stack ?s1 (stack_p - 8 - 8 * of_nat n) (stack_p - 8) (image_p - 8) =
          Some (stack_p - 8 - 8 * of_nat n, image_p - 8 - 8 * of_nat n, s')"
    and ev: "ksEvents s' = ksEvents ?s1 @
          map (\<lambda>k. StackStore (image_p - 8 - 8 * of_nat (Suc k)) (stack_p - 8 - 8 * of_nat (Suc k)))
            [0 ..< n]"
    and fr: "\<forall>a. (\<forall>k<n. a \<noteq> image_p - 8 - 8 * of_nat (Suc k)) \<longrightarrow> ksMem s' a = ksMem ?s1 a"
    and ct: "(\<forall>j<n. \<forall>k<n. image_p - 8 - 8 * of_nat (Suc j) \<noteq> stack_p - 8 - 8 * of_nat (Suc k)) \<longrightarrow>
         (\<forall>k<n. ksMem s' (image_p - 8 - 8 * of_nat (Suc k)) = ksMem ?s1 (stack_p - 8 - 8 * of_nat (Suc k)))"
    and rest: "s'\<lparr>ksMem := ksMem ?s1, ksEvents := ksEvents ?s1\<rparr> = ?s1"
    by blast
  have r1: "copy_stack s (stack_p - 8 * of_nat (Suc n)) stack_p image_p =
          Some (stack_p - 8 * of_nat (Suc n), image_p - 8 * of_nat (Suc n), s')"
    using ne run by (subst copy_stack.simps) (simp add: algebra_simps)
  have r2: "ksEvents s' = ksEvents s @
          map (\<lambda>k. StackStore (image_p - 8 * of_nat (Suc k)) (stack_p - 8 * of_nat (Suc k)))
            [0 ..< Suc n]"
    unfolding ev sh
    by (simp add: upt_conv_Cons [of 0 "Suc n"] map_Suc_upt [symmetric] del: upt_Suc)
  have r3: "ksMem s' a = ksMem s a" if a: "\<forall>k<Suc n. a \<noteq> image_p - 8 * of_nat (Suc k)" for a
  proof -
    from a have "a \<noteq> image_p - 8" by force
    moreover from a have "\<forall>k<n. a \<noteq> image_p - 8 - 8 * of_nat (Suc k)"
      unfolding sh by auto
    ultimately show ?thesis using fr by simp
  qed
  have r4: "ksMem s' (image_p - 8 * of_nat (Suc k)) = ksMem s (stack_p - 8 * of_nat (Suc k))"
    if dj: "\<forall>j<Suc n. \<forall>k<Suc n. image_p - 8 * of_nat (Suc j) \<noteq> stack_p - 8 * of_nat (Suc k)"
      and k: "k < Suc n" for k
  proof (cases k)
    case 0
    have "\<forall>j<n. image_p - 8 \<noteq> image_p - 8 - 8 * of_nat (Suc j)"
    proof (intro allI impI)
      fix j assume "j < n"
      with n have "Suc j < 2 ^ 61" by simp
      then have "(8 * word_of_nat (Suc j) :: machine_word) \<noteq> 0"
        by (rule mult8_Suc_nonzero)
      then show "image_p - 8 \<noteq> image_p - 8 - 8 * of_nat (Suc j)"
        by (simp only: sub_self_iff) simp
    qed
    with fr have "ksMem s' (image_p - 8) = ksMem ?s1 (image_p - 8)" by blast
    with 0 show ?thesis by simp
  next
    case (Suc k')
    with k have k': "k' < n" by simp
    from dj have dj': "\<forall>j<n. \<forall>k<n. image_p - 8 - 8 * of_nat (Suc j) \<noteq> stack_p - 8 - 8 * of_nat (Suc k)"
      unfolding sh by auto
    with ct k' have "ksMem s' (image_p - 8 - 8 * of_nat (Suc k')) =
        ksMem ?s1 (stack_p - 8 - 8 * of_nat (Suc k'))" by blast
    moreover from dj k' have "image_p - 8 * of_nat (Suc 0) \<noteq> stack_p - 8 * of_nat (Suc (Suc k'))"
      by (metis Suc_less_eq zero_less_Suc)
    then have "stack_p - 8 - 8 * of_nat (Suc k') \<noteq> image_p - 8"
      unfolding sh by simp
    ultimately show ?thesis
      unfolding Suc sh by simp
  qed
  have r5: "s'\<lparr>ksMem := ksMem s, ksEvents := ksEvents s\<rparr> = s"
  proof -
    from rest have "(s'\<lparr>ksMem := ksMem ?s1, ksEvents := ksEvents ?s1\<rparr>)
        \<lparr>ksMem := ksMem s, ksEvents := ksEvents s\<rparr> = ?s1\<lparr>ksMem := ksMem s, ksEvents := ksEvents s\<rparr>"
      by simp
    then show ?thesis by simp
  qed
  from r1 r2 r3 r4 r5 show ?case
    by blast
qed

lemma unat_mult8: "m < 2 ^ 61 \<Longrightarrow> unat (8 * word_of_nat m :: machine_word) = 8 * m"
proof -
  assume m: "m < 2 ^ 61"
  have "(8 * word_of_nat m :: machine_word) = word_of_nat (8 * m)"
    by simp
  moreover from m have "unat (word_of_nat (8 * m) :: machine_word) = 8 * m"
    by (simp only: unat_of_nat) simp
  ultimately show ?thesis
    by (simp only:)
qed

lemma unat_sub_mult8:
  "m < 2 ^ 61 \<Longrightarrow> 8 * m \<le> unat p \<Longrightarrow>
   unat (p - 8 * word_of_nat m :: machine_word) = unat p - 8 * m"
proof -
  assume m: "m < 2 ^ 61" and le: "8 * m \<le> unat p"
  from le have "8 * word_of_nat m \<le> p"
    by (simp only: word_le_nat_alt unat_mult8 [OF m])
  then have "unat (p - 8 * word_of_nat m) = unat p - unat (8 * word_of_nat m :: machine_word)"
    by (rule unat_sub)
  then show ?thesis
    by (simp only: unat_mult8 [OF m])
qed

text \<open>
  C3, as amended. For an image whose stack-initialized flag is set, \<open>Arch_setKernelImage\<close>
  performs only the write of the root register. For an image whose flag is not set, with
  the stack pointer \<open>n\<close> words below the stack base, the switch returns, and it has done
  this, in this order: it copied the \<open>n\<close> words of the live stack from the shared stack
  region into the image's private region, word \<open>k\<close> from the address \<open>8 * (k + 1)\<close> below
  the stack base to the address \<open>8 * (k + 1)\<close> below the top of the private region, so
  strictly from high addresses toward low, while the old root was still active; then it
  issued the full barrier; then it installed the new root; and only after that did it set
  the stack-initialized flag. The copy wrote the private region only, and if the two
  regions do not overlap the private region holds the words of the shared one.
\<close>

theorem Arch_setKernelImage_sequence:
  "(kiStackInitted kimage \<longrightarrow>
      Arch_setKernelImage cfg s sp kimage =
        Some (kimage,
              s\<lparr>ksEvents := ksEvents s @
                   [SetVSpaceRoot (addrFromPPtr cfg (kiRoot kimage)) (kiASID kimage)]\<rparr>)) \<and>
   (\<not> kiStackInitted kimage \<and> n < 2 ^ 61 \<and> sp = kernelStackBase cfg - 8 * of_nat n \<and>
    stack_p = kernelStackBase cfg \<and>
    image_p = kernelImageVPtr cfg (kiRoot kimage) (kernelStackBase cfg - 1) + 1 \<longrightarrow>
      (\<exists>s'. Arch_setKernelImage cfg s sp kimage = Some (kimage\<lparr>kiStackInitted := True\<rparr>, s') \<and>
         ksEvents s' = ksEvents s @
           map (\<lambda>k. StackStore (image_p - 8 * of_nat (Suc k)) (stack_p - 8 * of_nat (Suc k)))
             [0 ..< n] @
           [Fence, SetVSpaceRoot (addrFromPPtr cfg (kiRoot kimage)) (kiASID kimage),
            SetStackInitted] \<and>
         (\<forall>a. (\<forall>k<n. a \<noteq> image_p - 8 * of_nat (Suc k)) \<longrightarrow> ksMem s' a = ksMem s a) \<and>
         ((\<forall>j<n. \<forall>k<n. image_p - 8 * of_nat (Suc j) \<noteq> stack_p - 8 * of_nat (Suc k)) \<longrightarrow>
          (\<forall>k<n. ksMem s' (image_p - 8 * of_nat (Suc k)) =
                  ksMem s (stack_p - 8 * of_nat (Suc k)))) \<and>
         (8 * n \<le> unat image_p \<and> 8 * n \<le> unat stack_p \<longrightarrow>
          (\<forall>k<n. unat (image_p - 8 * of_nat (Suc k)) = unat image_p - 8 * Suc k \<and>
                  unat (stack_p - 8 * of_nat (Suc k)) = unat stack_p - 8 * Suc k))))"
proof (intro conjI impI)
  assume "kiStackInitted kimage"
  then show "Arch_setKernelImage cfg s sp kimage =
        Some (kimage,
              s\<lparr>ksEvents := ksEvents s @
                   [SetVSpaceRoot (addrFromPPtr cfg (kiRoot kimage)) (kiASID kimage)]\<rparr>)"
    by (simp add: Arch_setKernelImage_def setVSpaceRoot_def Let_def)
next
  assume a: "\<not> kiStackInitted kimage \<and> n < 2 ^ 61 \<and> sp = kernelStackBase cfg - 8 * of_nat n \<and>
    stack_p = kernelStackBase cfg \<and>
    image_p = kernelImageVPtr cfg (kiRoot kimage) (kernelStackBase cfg - 1) + 1"
  then have n: "n < 2 ^ 61" and sp: "sp = stack_p - 8 * of_nat n"
    and st: "kernelStackBase cfg = stack_p"
    and im: "kernelImageVPtr cfg (kiRoot kimage) (stack_p - 1) + 1 = image_p"
    and ni: "\<not> kiStackInitted kimage"
    by simp_all
  from copy_stack_runs [OF n, of s stack_p image_p]
  obtain s1 where
    run: "copy_stack s sp stack_p image_p = Some (sp, image_p - 8 * of_nat n, s1)"
    and ev: "ksEvents s1 = ksEvents s @
          map (\<lambda>k. StackStore (image_p - 8 * of_nat (Suc k)) (stack_p - 8 * of_nat (Suc k)))
            [0 ..< n]"
    and fr: "\<forall>a. (\<forall>k<n. a \<noteq> image_p - 8 * of_nat (Suc k)) \<longrightarrow> ksMem s1 a = ksMem s a"
    and ct: "(\<forall>j<n. \<forall>k<n. image_p - 8 * of_nat (Suc j) \<noteq> stack_p - 8 * of_nat (Suc k)) \<longrightarrow>
         (\<forall>k<n. ksMem s1 (image_p - 8 * of_nat (Suc k)) = ksMem s (stack_p - 8 * of_nat (Suc k)))"
    unfolding sp by blast
  let ?s' = "(setVSpaceRoot (fence s1) (addrFromPPtr cfg (kiRoot kimage)) (kiASID kimage))
      \<lparr>ksEvents := ksEvents (setVSpaceRoot (fence s1) (addrFromPPtr cfg (kiRoot kimage))
          (kiASID kimage)) @ [SetStackInitted]\<rparr>"
  have r: "Arch_setKernelImage cfg s sp kimage = Some (kimage\<lparr>kiStackInitted := True\<rparr>, ?s')"
    using ni run by (simp add: Arch_setKernelImage_def st im Let_def)
  have e: "ksEvents ?s' = ksEvents s @
           map (\<lambda>k. StackStore (image_p - 8 * of_nat (Suc k)) (stack_p - 8 * of_nat (Suc k)))
             [0 ..< n] @
           [Fence, SetVSpaceRoot (addrFromPPtr cfg (kiRoot kimage)) (kiASID kimage),
            SetStackInitted]"
    by (simp add: setVSpaceRoot_def fence_def ev)
  have m: "ksMem ?s' = ksMem s1"
    by (simp add: setVSpaceRoot_def fence_def)
  have u: "unat (image_p - 8 * of_nat (Suc k)) = unat image_p - 8 * Suc k \<and>
           unat (stack_p - 8 * of_nat (Suc k)) = unat stack_p - 8 * Suc k"
    if "8 * n \<le> unat image_p \<and> 8 * n \<le> unat stack_p" and "k < n" for k
  proof -
    from that n have "Suc k < 2 ^ 61" "8 * Suc k \<le> unat image_p" "8 * Suc k \<le> unat stack_p"
      by simp_all
    then show ?thesis
      using unat_sub_mult8 [of "Suc k" image_p] unat_sub_mult8 [of "Suc k" stack_p] by blast
  qed
  from r e fr ct u show "\<exists>s'. Arch_setKernelImage cfg s sp kimage =
         Some (kimage\<lparr>kiStackInitted := True\<rparr>, s') \<and>
         ksEvents s' = ksEvents s @
           map (\<lambda>k. StackStore (image_p - 8 * of_nat (Suc k)) (stack_p - 8 * of_nat (Suc k)))
             [0 ..< n] @
           [Fence, SetVSpaceRoot (addrFromPPtr cfg (kiRoot kimage)) (kiASID kimage),
            SetStackInitted] \<and>
         (\<forall>a. (\<forall>k<n. a \<noteq> image_p - 8 * of_nat (Suc k)) \<longrightarrow> ksMem s' a = ksMem s a) \<and>
         ((\<forall>j<n. \<forall>k<n. image_p - 8 * of_nat (Suc j) \<noteq> stack_p - 8 * of_nat (Suc k)) \<longrightarrow>
          (\<forall>k<n. ksMem s' (image_p - 8 * of_nat (Suc k)) =
                  ksMem s (stack_p - 8 * of_nat (Suc k)))) \<and>
         (8 * n \<le> unat image_p \<and> 8 * n \<le> unat stack_p \<longrightarrow>
          (\<forall>k<n. unat (image_p - 8 * of_nat (Suc k)) = unat image_p - 8 * Suc k \<and>
                  unat (stack_p - 8 * of_nat (Suc k)) = unat stack_p - 8 * Suc k))"
    unfolding m [symmetric] by (intro exI [of _ ?s']) (simp only: m, blast)
qed

lemma sv39_stack:
  "kernelStackBase sv39 = 0xFFFFFFFF84100000"
  "kernelImageVPtr sv39 r v = v - 0x10000"
  by (simp_all add: sv39_def)

lemma fresh_image_fields:
  "kiRoot fresh_image = 0xFFFFFFFF85000000" "kiASID fresh_image = 1"
  "\<not> kiStackInitted fresh_image"
  by (simp_all add: fresh_image_def)

theorem Arch_setKernelImage_sequence_witness:
  "map_option fst switch_two_words = Some (fresh_image\<lparr>kiStackInitted := True\<rparr>) \<and>
   ksEvents (switch_state switch_two_words) =
     [StackStore 0xFFFFFFFF840EFFF8 0xFFFFFFFF840FFFF8,
      StackStore 0xFFFFFFFF840EFFF0 0xFFFFFFFF840FFFF0,
      Fence, SetVSpaceRoot 0x85000000 1, SetStackInitted] \<and>
   ksMem (switch_state switch_two_words) 0xFFFFFFFF840EFFF8 = 0xAAAA \<and>
   ksMem (switch_state switch_two_words) 0xFFFFFFFF840EFFF0 = 0xBBBB \<and>
   Arch_setKernelImage sv39 stack_state 0xFFFFFFFF840FFFF0 (fresh_image\<lparr>kiStackInitted := True\<rparr>) =
     Some (fresh_image\<lparr>kiStackInitted := True\<rparr>,
           stack_state\<lparr>ksEvents := ksEvents stack_state @ [SetVSpaceRoot 0x85000000 1]\<rparr>)"
proof -
  have h: "\<not> kiStackInitted fresh_image \<and> (2::nat) < 2 ^ 61 \<and>
    (0xFFFFFFFF840FFFF0 :: machine_word) = kernelStackBase sv39 - 8 * of_nat 2 \<and>
    (0xFFFFFFFF84100000 :: machine_word) = kernelStackBase sv39 \<and>
    (0xFFFFFFFF840F0000 :: machine_word) =
      kernelImageVPtr sv39 (kiRoot fresh_image) (kernelStackBase sv39 - 1) + 1"
    by (simp add: sv39_stack fresh_image_fields)
  have two: "j = 0 \<or> j = Suc 0" if "j < 2" for j :: nat
    using that by arith
  have upt2: "[0 ..< 2] = [0, Suc 0]"
    by (simp add: numeral_2_eq_2)
  have ev0: "ksEvents stack_state = []"
    by (simp add: stack_state_def empty_state_def)
  have dj: "\<forall>j<2. \<forall>k<2. (0xFFFFFFFF840F0000 :: machine_word) - 8 * of_nat (Suc j) \<noteq>
      0xFFFFFFFF84100000 - 8 * of_nat (Suc k)"
    by (auto dest!: two)
  from Arch_setKernelImage_sequence [of fresh_image sv39 stack_state "0xFFFFFFFF840FFFF0" 2
      "0xFFFFFFFF84100000" "0xFFFFFFFF840F0000"] h
  obtain s' where
    r: "switch_two_words = Some (fresh_image\<lparr>kiStackInitted := True\<rparr>, s')"
    and e: "ksEvents s' = ksEvents stack_state @
      map (\<lambda>k. StackStore (0xFFFFFFFF840F0000 - 8 * of_nat (Suc k))
                  (0xFFFFFFFF84100000 - 8 * of_nat (Suc k))) [0 ..< 2] @
      [Fence, SetVSpaceRoot (addrFromPPtr sv39 (kiRoot fresh_image)) (kiASID fresh_image),
       SetStackInitted]"
    and c: "(\<forall>j<2. \<forall>k<2. (0xFFFFFFFF840F0000 :: machine_word) - 8 * of_nat (Suc j) \<noteq>
              0xFFFFFFFF84100000 - 8 * of_nat (Suc k)) \<longrightarrow>
          (\<forall>k<2. ksMem s' (0xFFFFFFFF840F0000 - 8 * of_nat (Suc k)) =
                  ksMem stack_state (0xFFFFFFFF84100000 - 8 * of_nat (Suc k)))"
    unfolding switch_two_words_def by blast
  from c dj have c': "\<forall>k<2. ksMem s' (0xFFFFFFFF840F0000 - 8 * of_nat (Suc k)) =
                  ksMem stack_state (0xFFFFFFFF84100000 - 8 * of_nat (Suc k))"
    by blast
  from c' [rule_format, of 0] c' [rule_format, of "Suc 0"]
  have m: "ksMem s' 0xFFFFFFFF840EFFF8 = 0xAAAA" "ksMem s' 0xFFFFFFFF840EFFF0 = 0xBBBB"
    by (simp_all add: stack_state_def stack_mem_def)
  have ev: "ksEvents s' =
     [StackStore 0xFFFFFFFF840EFFF8 0xFFFFFFFF840FFFF8,
      StackStore 0xFFFFFFFF840EFFF0 0xFFFFFFFF840FFFF0,
      Fence, SetVSpaceRoot 0x85000000 1, SetStackInitted]"
    unfolding e upt2 by (simp add: fresh_image_fields ev0 addrFromPPtr_def sv39_simps)
  have i: "Arch_setKernelImage sv39 stack_state 0xFFFFFFFF840FFFF0 (fresh_image\<lparr>kiStackInitted := True\<rparr>) =
     Some (fresh_image\<lparr>kiStackInitted := True\<rparr>,
           stack_state\<lparr>ksEvents := ksEvents stack_state @ [SetVSpaceRoot 0x85000000 1]\<rparr>)"
    using Arch_setKernelImage_sequence [of "fresh_image\<lparr>kiStackInitted := True\<rparr>" sv39 stack_state
        "0xFFFFFFFF840FFFF0" 0 0 0]
    by (simp add: fresh_image_fields addrFromPPtr_def sv39_simps)
  show ?thesis
    unfolding r using m ev i by (simp add: switch_state_def)
qed

text \<open>
  The claim as stated fails: switching to the fresh image with one word on the stack, the
  root register is written before the stack-initialized flag is set, not after.
\<close>

theorem Arch_setKernelImage_flag_after_root_counterexample:
  "map_option fst switch_one_word = Some (fresh_image\<lparr>kiStackInitted := True\<rparr>) \<and>
   ksEvents (switch_state switch_one_word) =
     [StackStore 0xFFFFFFFF840EFFF8 0xFFFFFFFF840FFFF8,
      Fence, SetVSpaceRoot 0x85000000 1, SetStackInitted]"
proof -
  have c: "copy_stack stack_state 0xFFFFFFFF840FFFF8 0xFFFFFFFF84100000 0xFFFFFFFF840F0000 =
    Some (0xFFFFFFFF840FFFF8, 0xFFFFFFFF840EFFF8,
      stack_state\<lparr>ksMem := (ksMem stack_state)
           (0xFFFFFFFF840EFFF8 := ksMem stack_state 0xFFFFFFFF840FFFF8),
        ksEvents := ksEvents stack_state @
           [StackStore 0xFFFFFFFF840EFFF8 0xFFFFFFFF840FFFF8]\<rparr>)"
    by (subst copy_stack.simps, simp, subst copy_stack.simps, simp)
  have ev0: "ksEvents stack_state = []"
    by (simp add: stack_state_def empty_state_def)
  show ?thesis
    by (simp add: switch_one_word_def Arch_setKernelImage_def sv39_stack fresh_image_fields c
        Let_def fence_def setVSpaceRoot_def switch_state_def addrFromPPtr_def sv39_simps ev0)
qed

end
